theory Spec2Isabelle
  imports Main "HOL-Library.Sublist"
begin

section \<open>JavaScript strings and values\<close>

text \<open>
  The hook scripts are JavaScript run by Node. A string of the program is modelled as a
  \<^typ>\<open>string\<close>, the bytes of its UTF-8 encoding, and a file as the bytes it holds.
  Writing a string to a file stores those bytes; reading a file as \<open>'utf-8'\<close> decodes
  the bytes of the file, which changes them where they are not UTF-8 (\<open>utf8_decode\<close>
  below). \<open>length\<close> and \<open>take\<close> count bytes; they agree with JavaScript's count of
  UTF-16 units on ASCII text. \<open>trim\<close> removes the ASCII white space and line terminators.
\<close>

definition is_space :: "char \<Rightarrow> bool" where
  "is_space c \<longleftrightarrow> c \<in> set [CHR 0x09, CHR 0x0A, CHR 0x0B, CHR 0x0C, CHR 0x0D, CHR 0x20]"

definition trim :: "string \<Rightarrow> string" where
  "trim s = rev (dropWhile is_space (rev (dropWhile is_space s)))"

text \<open>\<open>s.split('\n')\<close>: the pieces between line feeds; the empty string has one piece.\<close>

fun split_nl :: "string \<Rightarrow> string list" where
  "split_nl [] = [[]]"
| "split_nl (c # cs) =
     (if c = CHR 0x0A then [] # split_nl cs
      else (case split_nl cs of [] \<Rightarrow> [[c]] | l # ls \<Rightarrow> (c # l) # ls))"

text \<open>\<open>parts.join(sep)\<close> on an array of strings.\<close>

fun join :: "string \<Rightarrow> string list \<Rightarrow> string" where
  "join sep [] = []"
| "join sep [x] = x"
| "join sep (x # y # ys) = x @ sep @ join sep (y # ys)"

text \<open>\<open>s.indexOf(pat)\<close>: the first position where \<open>pat\<close> occurs; \<open>None\<close> stands for -1.\<close>

fun indexOf :: "string \<Rightarrow> string \<Rightarrow> nat option" where
  "indexOf [] pat = (if pat = [] then Some 0 else None)"
| "indexOf (c # cs) pat =
     (if prefix pat (c # cs) then Some 0 else map_option Suc (indexOf cs pat))"

text \<open>
  \<open>buffer.toString('utf-8')\<close>, which \<open>fs.readFileSync(path, 'utf-8')\<close> applies to the bytes
  of a file. \<open>utf8_step\<close> looks at the head of the bytes: it finds a well-formed sequence
  and its length, or an ill-formed one and the number of bytes it takes, which are the
  lead byte and the bytes after it that could continue it. Overlong forms, surrogates and
  code points above U+10FFFF are ill-formed. The decoder keeps a well-formed sequence and
  puts U+FFFD, the bytes \<open>EF BF BD\<close>, in the place of an ill-formed one.
\<close>

definition REPLACEMENT :: string where
  "REPLACEMENT = [CHR 0xEF, CHR 0xBF, CHR 0xBD]"

definition in_range :: "nat \<Rightarrow> nat \<Rightarrow> char \<Rightarrow> bool" where
  "in_range lo hi c \<longleftrightarrow> lo \<le> (of_char c :: nat) \<and> (of_char c :: nat) \<le> hi"

definition continuation :: "char \<Rightarrow> bool" where
  "continuation c \<longleftrightarrow> in_range 0x80 0xBF c"

definition second_byte :: "char \<Rightarrow> char \<Rightarrow> bool" where
  "second_byte lead c \<longleftrightarrow>
     (if lead = CHR 0xE0 then in_range 0xA0 0xBF c
      else if lead = CHR 0xED then in_range 0x80 0x9F c
      else if lead = CHR 0xF0 then in_range 0x90 0xBF c
      else if lead = CHR 0xF4 then in_range 0x80 0x8F c
      else in_range 0x80 0xBF c)"

fun utf8_step :: "string \<Rightarrow> bool \<times> nat" where
  "utf8_step [] = (False, 0)"
| "utf8_step (a # bs) =
     (if in_range 0x00 0x7F a then (True, 1)
      else if in_range 0xC2 0xDF a then
        (case bs of
           b # _ \<Rightarrow> if continuation b then (True, 2) else (False, 1)
         | _ \<Rightarrow> (False, 1))
      else if in_range 0xE0 0xEF a then
        (case bs of
           b # c # _ \<Rightarrow>
             if second_byte a b then (if continuation c then (True, 3) else (False, 2))
             else (False, 1)
         | [b] \<Rightarrow> if second_byte a b then (False, 2) else (False, 1)
         | _ \<Rightarrow> (False, 1))
      else if in_range 0xF0 0xF4 a then
        (case bs of
           b # c # d # _ \<Rightarrow>
             if second_byte a b then
               (if continuation c then (if continuation d then (True, 4) else (False, 3))
                else (False, 2))
             else (False, 1)
         | [b, c] \<Rightarrow>
             if second_byte a b then (if continuation c then (False, 3) else (False, 2))
             else (False, 1)
         | [b] \<Rightarrow> if second_byte a b then (False, 2) else (False, 1)
         | _ \<Rightarrow> (False, 1))
      else (False, 1))"

fun utf8_decode :: "string \<Rightarrow> string" where
  "utf8_decode [] = []"
| "utf8_decode (a # bs) =
     (case utf8_step (a # bs) of
        (ok, n) \<Rightarrow>
          (if ok then a # take (n - 1) bs else REPLACEMENT) @ utf8_decode (drop (n - 1) bs))"

text \<open>
  A value that \<open>JSON.parse\<close> returns, with \<open>undefined\<close> added for an absent property.
  A number is held as the text that JavaScript's conversion to a string gives it, which is
  all the scripts do with one; zero is \<open>''0''\<close>.
\<close>

datatype jsval =
    JUndefined
  | JNull
  | JBool bool
  | JNum string
  | JStr string
  | JArr "jsval list"
  | JObj "(string \<times> jsval) list"

datatype js_error = TypeError | SyntaxError | FetchFailed | IOError

fun truthy :: "jsval \<Rightarrow> bool" where
  "truthy JUndefined = False"
| "truthy JNull = False"
| "truthy (JBool b) = b"
| "truthy (JNum s) = (s \<noteq> ''0'')"
| "truthy (JStr s) = (s \<noteq> [])"
| "truthy (JArr xs) = True"
| "truthy (JObj kvs) = True"

text \<open>\<open>a || b\<close>.\<close>

definition js_or :: "jsval \<Rightarrow> jsval \<Rightarrow> jsval" where
  "js_or a b = (if truthy a then a else b)"

text \<open>
  \<open>v.k\<close> for the property names the scripts read (\<open>type\<close>, \<open>message\<close>, \<open>content\<close>,
  \<open>text\<close>, \<open>name\<close>, \<open>input\<close>, \<open>file_path\<close>, \<open>command\<close>, \<open>pattern\<close>, \<open>apiKey\<close>): a
  TypeError on \<open>null\<close> and \<open>undefined\<close>, the member of an object, and \<open>undefined\<close> on
  every other value. \<open>field\<close> is the same read where the value is known not to be nullish.
\<close>

fun field :: "jsval \<Rightarrow> string \<Rightarrow> jsval" where
  "field (JObj kvs) k = (case map_of kvs k of Some v \<Rightarrow> v | None \<Rightarrow> JUndefined)"
| "field v k = JUndefined"

definition nullish :: "jsval \<Rightarrow> bool" where
  "nullish v \<longleftrightarrow> v = JUndefined \<or> v = JNull"

definition getprop :: "jsval \<Rightarrow> string \<Rightarrow> js_error + jsval" where
  "getprop v k = (if nullish v then Inl TypeError else Inr (field v k))"

text \<open>
  The string a value becomes inside a template literal and as an element of \<open>join\<close>:
  an array joins its elements with commas, \<open>null\<close> and \<open>undefined\<close> elements being empty.
\<close>

fun to_string :: "jsval \<Rightarrow> string" where
  "to_string JUndefined = ''undefined''"
| "to_string JNull = ''null''"
| "to_string (JBool b) = (if b then ''true'' else ''false'')"
| "to_string (JNum s) = s"
| "to_string (JStr s) = s"
| "to_string (JArr xs) =
     join '','' (map (\<lambda>x. if x = JUndefined \<or> x = JNull then [] else to_string x) xs)"
| "to_string (JObj kvs) = ''[object Object]''"

definition join_elem :: "jsval \<Rightarrow> string" where
  "join_elem x = (if nullish x then [] else to_string x)"

section \<open>The exchange extractor\<close>

text \<open>
  \<open>getLatestExchange\<close> exists twice, in the context keeper and in the development logger;
  the two differ in one branch of the tool descriptor, selected here by the hook.
\<close>

datatype hook = ContextKeeper | DevLogger

record exchange =
  "text" :: string
  hasToolUse :: bool
  totalLines :: nat

text \<open>
  \<open>(input.command || '').slice(0, 300)\<close> inside the template literal: a string and an
  array have a \<open>slice\<close>, any other truthy value raises a TypeError.
\<close>

definition bash_command :: "jsval \<Rightarrow> js_error + string" where
  "bash_command inp =
     (case js_or (field inp ''command'') (JStr []) of
        JStr s \<Rightarrow> Inr (take 300 s)
      | JArr xs \<Rightarrow> Inr (to_string (JArr (take 300 xs)))
      | _ \<Rightarrow> Inl TypeError)"

definition describe_tool :: "hook \<Rightarrow> jsval \<Rightarrow> js_error + string" where
  "describe_tool h block =
     (let name = js_or (field block ''name'') (JStr ''unknown'');
          inp = js_or (field block ''input'') (JObj [])
      in if name = JStr ''Write'' \<or> name = JStr ''Edit'' then
           Inr (''['' @ to_string name @ '': '' @
                to_string (js_or (field inp ''file_path'') (JStr ''unknown file'')) @ '']'')
         else if name = JStr ''Bash'' then
           (case bash_command inp of
              Inl e \<Rightarrow> Inl e
            | Inr c \<Rightarrow> Inr (''[Bash: '' @ c @ '']''))
         else if h = DevLogger \<or> name = JStr ''Read'' \<or> name = JStr ''Glob''
                 \<or> name = JStr ''Grep'' then
           Inr (''['' @ to_string name @ '': '' @
                to_string (js_or (field inp ''file_path'')
                            (js_or (field inp ''pattern'') (JStr []))) @ '']'')
         else Inr (''['' @ to_string name @ '']''))"

text \<open>
  One round of the loop over the blocks of an assistant message. The accumulator is the
  pair of \<open>parts\<close> and \<open>hasToolUse\<close>. \<open>Inl\<close> carries the accumulator at the moment an
  exception leaves the loop: what was pushed before stays pushed, and \<open>hasToolUse\<close> is
  already set when the descriptor of a tool call raises.
\<close>

definition block_step ::
  "hook \<Rightarrow> jsval \<Rightarrow> string list \<times> bool \<Rightarrow> (string list \<times> bool) + (string list \<times> bool)" where
  "block_step h block acc =
     (case getprop block ''type'' of
        Inl e \<Rightarrow> Inl acc
      | Inr ty \<Rightarrow>
          if ty = JStr ''text'' \<and> truthy (field block ''text'') then
            Inr (fst acc @ [to_string (field block ''text'')], snd acc)
          else if ty = JStr ''tool_use'' then
            (case describe_tool h block of
               Inl e \<Rightarrow> Inl (fst acc, True)
             | Inr d \<Rightarrow> Inr (fst acc @ [d], True))
          else Inr acc)"

fun blocks_loop :: "hook \<Rightarrow> jsval list \<Rightarrow> string list \<times> bool \<Rightarrow> string list \<times> bool" where
  "blocks_loop h [] acc = acc"
| "blocks_loop h (b # bs) acc =
     (case block_step h b acc of
        Inl acc' \<Rightarrow> acc'
      | Inr acc' \<Rightarrow> blocks_loop h bs acc')"

text \<open>\<open>entry.message?.content\<close>, for an entry whose \<open>type\<close> was read.\<close>

definition message_content :: "jsval \<Rightarrow> js_error + jsval" where
  "message_content entry =
     (case getprop entry ''message'' of
        Inl e \<Rightarrow> Inl e
      | Inr m \<Rightarrow> if nullish m then Inr JUndefined else getprop m ''content'')"

text \<open>\<open>msgContent.filter(b => b.type === 'text')\<close>: raises at the first nullish block.\<close>

fun filter_text :: "jsval list \<Rightarrow> js_error + jsval list" where
  "filter_text [] = Inr []"
| "filter_text (b # bs) =
     (case getprop b ''type'' of
        Inl e \<Rightarrow> Inl e
      | Inr ty \<Rightarrow>
          (case filter_text bs of
             Inl e \<Rightarrow> Inl e
           | Inr r \<Rightarrow> Inr (if ty = JStr ''text'' then b # r else r)))"

definition user_text :: "jsval \<Rightarrow> js_error + string" where
  "user_text msgContent =
     (case msgContent of
        JStr s \<Rightarrow> Inr s
      | JArr bs \<Rightarrow>
          (case filter_text bs of
             Inl e \<Rightarrow> Inl e
           | Inr ts \<Rightarrow> Inr (join '' '' (map (\<lambda>b. join_elem (field b ''text'')) ts)))
      | _ \<Rightarrow> Inr [])"

text \<open>
  The body of \<open>for (const line of newLines) { try { ... } catch {} }\<close> for one line.
  \<open>parse\<close> is the runtime's \<open>JSON.parse\<close>, \<open>None\<close> where it raises.
\<close>

definition process_line ::
  "hook \<Rightarrow> (string \<Rightarrow> jsval option) \<Rightarrow> string \<Rightarrow> string list \<times> bool \<Rightarrow> string list \<times> bool" where
  "process_line h parse line acc =
     (case parse line of
        None \<Rightarrow> acc
      | Some entry \<Rightarrow>
          (case getprop entry ''type'' of
             Inl e \<Rightarrow> acc
           | Inr ty \<Rightarrow>
               if ty = JStr ''assistant'' then
                 (case message_content entry of
                    Inl e \<Rightarrow> acc
                  | Inr (JStr s) \<Rightarrow> (fst acc @ [s], snd acc)
                  | Inr (JArr bs) \<Rightarrow> blocks_loop h bs acc
                  | Inr _ \<Rightarrow> acc)
               else if ty = JStr ''user'' then
                 (case message_content entry of
                    Inl e \<Rightarrow> acc
                  | Inr mc \<Rightarrow>
                      (case user_text mc of
                         Inl e \<Rightarrow> acc
                       | Inr t \<Rightarrow>
                           if t \<noteq> [] then (fst acc @ [''USER: '' @ take 500 t], snd acc)
                           else acc))
               else acc))"

definition nonblank_lines :: "string \<Rightarrow> string list" where
  "nonblank_lines content = filter (\<lambda>l. trim l \<noteq> []) (split_nl content)"

definition extract_lines ::
  "hook \<Rightarrow> (string \<Rightarrow> jsval option) \<Rightarrow> string list \<Rightarrow> string list \<times> bool" where
  "extract_lines h parse newLines = fold (process_line h parse) newLines ([], False)"

section \<open>Files, environment and clock\<close>

text \<open>
  What the scripts see of the machine. Text files (transcripts, documents, configuration
  and key files) are a map from path to the bytes of the file: \<open>readFileSync\<close> gives
  the string these bytes decode to, \<open>writeFileSync\<close> stores the bytes of the string it
  is given, and a read after a write gives the string written when that is UTF-8, as
  the encoding of a JavaScript string is. A cursor document is kept apart, as the
  object its JSON text denotes: it is written by \<open>setCursor\<close> alone, so it either holds an
  object from session identifiers to offsets or it is unreadable (\<open>Corrupt\<close>). A session
  identifier is not the name of a property that every JavaScript object inherits.
  Directories are the set of paths that exist as one. Reading an absent path, or a path
  that is not a text file, raises; writing does not fail.
\<close>

datatype cursor_doc = Corrupt | Offsets "string \<rightharpoonup> nat"

record filesys =
  files :: "string \<rightharpoonup> string"
  dirs :: "string set"
  cursor_docs :: "string \<rightharpoonup> cursor_doc"

definition existsSync :: "filesys \<Rightarrow> string \<Rightarrow> bool" where
  "existsSync fs p \<longleftrightarrow> files fs p \<noteq> None \<or> p \<in> dirs fs \<or> cursor_docs fs p \<noteq> None"

definition readFileSync :: "filesys \<Rightarrow> string \<Rightarrow> js_error + string" where
  "readFileSync fs p =
     (case files fs p of None \<Rightarrow> Inl IOError | Some bytes \<Rightarrow> Inr (utf8_decode bytes))"

definition writeFileSync :: "filesys \<Rightarrow> string \<Rightarrow> string \<Rightarrow> filesys" where
  "writeFileSync fs p c = fs\<lparr>files := (files fs)(p \<mapsto> c)\<rparr>"

text \<open>
  \<open>if (!fs.existsSync(dir)) fs.mkdirSync(dir, { recursive: true })\<close>. The ancestors that
  a recursive \<open>mkdir\<close> also creates are not recorded: no script tests one.
\<close>

definition ensure_dir :: "filesys \<Rightarrow> string \<Rightarrow> filesys" where
  "ensure_dir fs dir = (if existsSync fs dir then fs else fs\<lparr>dirs := insert dir (dirs fs)\<rparr>)"

text \<open>\<open>path.join\<close>: the non-empty segments with a separator between them, not normalised.\<close>

definition path_join :: "string list \<Rightarrow> string" where
  "path_join segs = join ''/'' (filter (\<lambda>s. s \<noteq> []) segs)"

record env =
  ANTHROPIC_API_KEY :: "string option"
  USERPROFILE :: "string option"
  HOME :: "string option"

text \<open>An environment variable that is set and not empty.\<close>

definition nonempty :: "string option \<Rightarrow> string option" where
  "nonempty v = (case v of None \<Rightarrow> None | Some s \<Rightarrow> if s = [] then None else Some s)"

text \<open>\<open>process.env.USERPROFILE || process.env.HOME || ''\<close>.\<close>

definition home_dir :: "env \<Rightarrow> string" where
  "home_dir e =
     (case nonempty (USERPROFILE e) of
        Some u \<Rightarrow> u
      | None \<Rightarrow> (case nonempty (HOME e) of Some h \<Rightarrow> h | None \<Rightarrow> []))"

text \<open>
  The strings the clock gives: \<open>new Date().toISOString().split('T')[0]\<close> and
  \<open>new Date().toTimeString().slice(0, 5)\<close>.
\<close>

record clock =
  dateStr :: string
  timeStr :: string

text \<open>
  The payload on standard input after \<open>JSON.parse\<close> and destructuring. The three
  fields are strings; an absent field is the empty string, which the guard treats alike.
\<close>

record hook_data =
  session_id :: string
  transcript_path :: string
  cwd :: string

section \<open>The cursor store\<close>

definition cursor_name :: "hook \<Rightarrow> string" where
  "cursor_name h = (case h of ContextKeeper \<Rightarrow> ''context-cursor.json'' | DevLogger \<Rightarrow> ''dev-cursor.json'')"

definition getCursorPath :: "hook \<Rightarrow> string \<Rightarrow> string" where
  "getCursorPath h cwd' = path_join [cwd', ''.memory'', cursor_name h]"

definition getCursor :: "hook \<Rightarrow> filesys \<Rightarrow> string \<Rightarrow> string \<Rightarrow> nat" where
  "getCursor h fs cwd' sessionId =
     (let p = getCursorPath h cwd'
      in if \<not> existsSync fs p then 0
         else (case cursor_docs fs p of
                 Some (Offsets d) \<Rightarrow> (case d sessionId of Some n \<Rightarrow> n | None \<Rightarrow> 0)
               | _ \<Rightarrow> 0))"

definition setCursor :: "hook \<Rightarrow> filesys \<Rightarrow> string \<Rightarrow> string \<Rightarrow> nat \<Rightarrow> filesys" where
  "setCursor h fs cwd' sessionId line =
     (let p = getCursorPath h cwd';
          fs1 = ensure_dir fs (path_join [cwd', ''.memory'']);
          d = (if existsSync fs1 p
               then (case cursor_docs fs1 p of Some (Offsets d0) \<Rightarrow> d0 | _ \<Rightarrow> Map.empty)
               else Map.empty)
      in fs1\<lparr>cursor_docs := (cursor_docs fs1)(p \<mapsto> Offsets (d(sessionId \<mapsto> line)))\<rparr>)"

section \<open>Reading the transcript\<close>

text \<open>\<open>Inr None\<close> is the \<open>null\<close> returned when the transcript does not exist.\<close>

definition getLatestExchange ::
  "hook \<Rightarrow> (string \<Rightarrow> jsval option) \<Rightarrow> filesys \<Rightarrow> string \<Rightarrow> nat \<Rightarrow> js_error + exchange option" where
  "getLatestExchange h parse fs transcriptPath cursorLine =
     (if \<not> existsSync fs transcriptPath then Inr None
      else (case readFileSync fs transcriptPath of
              Inl e \<Rightarrow> Inl e
            | Inr content \<Rightarrow>
                (let lines = nonblank_lines content;
                     newLines = drop cursorLine lines
                 in if newLines = [] then
                      Inr (Some \<lparr>text = [], hasToolUse = False, totalLines = length lines\<rparr>)
                    else
                      (let acc = extract_lines h parse newLines
                       in Inr (Some \<lparr>text = join [CHR 0x0A] (fst acc), hasToolUse = snd acc,
                                     totalLines = length lines\<rparr>)))))"

section \<open>The classifier client\<close>

definition nl :: string where
  "nl = [CHR 0x0A]"

definition emdash :: string where
  "emdash = [CHR 0xE2, CHR 0x80, CHR 0x94]"

definition buildContextPrompt :: "string \<Rightarrow> string" where
  \<open>buildContextPrompt exchange' =
     join nl
       [''You are a session context extractor for an AI coding assistant. Analyze the following exchange and extract ALL meaningful items into these categories:'',
        [],
        ''DECISION: Any decision the user made '' @ emdash @ '' approved an approach, rejected an idea, chose between options, confirmed a direction'',
        ''DONE: Work that was completed '' @ emdash @ '' features built, bugs fixed, files created, configs changed'',
        ''TESTED: Work that was tested and the result (pass/fail)'',
        ''OPEN: Things still in progress, blocked, or queued for later'',
        [],
        ''Rules:'',
        ''- Be specific '' @ emdash @ '' include file names, feature names, concrete details'',
        ''- One bullet per item, prefix with category in brackets: [DECISION], [DONE], [TESTED], [OPEN]'',
        ''- If NOTHING meaningful happened (just chatting, reading, exploring), respond with: NONE'',
        ''- Keep concise '' @ emdash @ '' max 1 line per bullet'',
        ''- Focus on what CHANGED, not what was discussed'',
        [],
        ''--- EXCHANGE ---'',
        take 6000 exchange']\<close>

definition buildDevPrompt :: "string \<Rightarrow> string" where
  \<open>buildDevPrompt exchange' =
     join nl
       [''You are a development logger. Analyze the following exchange between a user and an AI coding assistant. Determine if a meaningful task was COMPLETED (not just started or discussed).'',
        [],
        ''A "development" is: a feature implemented, bug fixed, config changed, infrastructure deployed, file created/modified with purpose, tool/dependency installed, test written, document created, or script/automation built.'',
        [],
        ''NOT a development: reading files, asking questions, explaining without acting, work in progress, minor acknowledgments, or planning without implementing.'',
        [],
        ''If a development was completed, respond with ONLY 1-2 concise lines summarizing what was accomplished. Consolidate related steps. Start each line with an action verb. Be specific '' @ emdash @ '' include names, paths, or URLs where relevant.'',
        [],
        ''If no development was completed, respond with exactly: NONE'',
        [],
        ''--- EXCHANGE ---'',
        take 6000 exchange']\<close>

definition buildPrompt :: "hook \<Rightarrow> string \<Rightarrow> string" where
  "buildPrompt h exchange' =
     (case h of ContextKeeper \<Rightarrow> buildContextPrompt exchange' | DevLogger \<Rightarrow> buildDevPrompt exchange')"

text \<open>
  The request of \<open>fetch\<close> and what comes back: the promise rejects (no network), or a
  response arrives with its \<open>ok\<close> flag and the value \<open>response.json()\<close> gives, \<open>None\<close>
  where the body is not JSON.
\<close>

record request =
  api_key :: jsval
  model :: string
  max_tokens :: nat
  prompt :: string

datatype response = Rejected | Response bool "jsval option"

text \<open>The runtime and the network, as the scripts call them.\<close>

record runtime =
  JSON_parse :: "string \<Rightarrow> jsval option"
  fetch :: "request \<Rightarrow> response"

text \<open>
  The loop over the configuration files of \<open>resolveApiKey\<close>: each candidate is read and
  parsed inside \<open>try { } catch {}\<close>; the result is the first truthy \<open>apiKey\<close>.
\<close>

fun config_key :: "(string \<Rightarrow> jsval option) \<Rightarrow> filesys \<Rightarrow> string list \<Rightarrow> jsval option" where
  "config_key parse fs [] = None"
| "config_key parse fs (p # ps) =
     (if existsSync fs p then
        (case readFileSync fs p of
           Inl e \<Rightarrow> config_key parse fs ps
         | Inr txt \<Rightarrow>
             (case parse txt of
                None \<Rightarrow> config_key parse fs ps
              | Some cfg \<Rightarrow>
                  (case getprop cfg ''apiKey'' of
                     Inl e \<Rightarrow> config_key parse fs ps
                   | Inr k \<Rightarrow> if truthy k then Some k else config_key parse fs ps)))
      else config_key parse fs ps)"

text \<open>The loop over the key files: the first that exists is read and trimmed, unguarded.\<close>

fun key_file :: "filesys \<Rightarrow> string list \<Rightarrow> js_error + jsval" where
  "key_file fs [] = Inr JNull"
| "key_file fs (p # ps) =
     (if existsSync fs p then
        (case readFileSync fs p of Inl e \<Rightarrow> Inl e | Inr c \<Rightarrow> Inr (JStr (trim c)))
      else key_file fs ps)"

definition config_candidates :: "hook \<Rightarrow> string \<Rightarrow> string list" where
  "config_candidates h home =
     (case h of
        ContextKeeper \<Rightarrow> [path_join [home, ''.memory-mcp'', ''config.json'']]
      | DevLogger \<Rightarrow> [path_join [home, ''.memory-mcp'', ''config.json''],
                      path_join [home, ''.nlc'', ''config.json'']])"

definition resolveApiKey :: "hook \<Rightarrow> (string \<Rightarrow> jsval option) \<Rightarrow> env \<Rightarrow> filesys \<Rightarrow> js_error + jsval" where
  "resolveApiKey h parse e fs =
     (case nonempty (ANTHROPIC_API_KEY e) of
        Some k \<Rightarrow> Inr (JStr k)
      | None \<Rightarrow>
          (let home = home_dir e
           in case config_key parse fs (config_candidates h home) of
                Some k \<Rightarrow> Inr k
              | None \<Rightarrow>
                  key_file fs [path_join [home, ''.config'', ''anthropic'', ''api_key''],
                               path_join [home, ''.anthropic'', ''api_key'']]))"

text \<open>\<open>c[0]\<close> for a value that is not nullish.\<close>

fun index0 :: "jsval \<Rightarrow> jsval" where
  "index0 (JArr xs) = (case xs of [] \<Rightarrow> JUndefined | x # _ \<Rightarrow> x)"
| "index0 (JStr s) = (case s of [] \<Rightarrow> JUndefined | c # _ \<Rightarrow> JStr [c])"
| "index0 (JObj kvs) = field (JObj kvs) ''0''"
| "index0 v = JUndefined"

text \<open>\<open>data.content?.[0]?.text || null\<close>.\<close>

definition first_text :: "jsval \<Rightarrow> js_error + jsval" where
  "first_text data =
     (case getprop data ''content'' of
        Inl e \<Rightarrow> Inl e
      | Inr c \<Rightarrow>
          if nullish c then Inr JNull
          else if nullish (index0 c) then Inr JNull
          else Inr (js_or (field (index0 c) ''text'') JNull))"

text \<open>
  \<open>callHaiku\<close> of the context keeper and \<open>callSmallModel\<close> of the development logger:
  the same body with another model name and token limit.
\<close>

definition model_name :: "hook \<Rightarrow> string" where
  "model_name h =
     (case h of ContextKeeper \<Rightarrow> ''claude-3-5-haiku-20241022''
              | DevLogger \<Rightarrow> ''claude-haiku-4-5-20251001'')"

definition maxTokens :: "hook \<Rightarrow> nat" where
  "maxTokens h = (case h of ContextKeeper \<Rightarrow> 512 | DevLogger \<Rightarrow> 256)"

definition callSmallModel :: "hook \<Rightarrow> runtime \<Rightarrow> env \<Rightarrow> filesys \<Rightarrow> string \<Rightarrow> js_error + jsval" where
  "callSmallModel h rt e fs prompt' =
     (case resolveApiKey h (JSON_parse rt) e fs of
        Inl err \<Rightarrow> Inl err
      | Inr key \<Rightarrow>
          if \<not> truthy key then Inr JNull
          else (case fetch rt \<lparr>api_key = key, model = model_name h,
                                max_tokens = maxTokens h, prompt = prompt'\<rparr> of
                  Rejected \<Rightarrow> Inl FetchFailed
                | Response ok body \<Rightarrow>
                    if \<not> ok then Inr JNull
                    else (case body of
                            None \<Rightarrow> Inl SyntaxError
                          | Some data \<Rightarrow> first_text data)))"

section \<open>The memory directory\<close>

definition cwdToProjectKey :: "string \<Rightarrow> string" where
  "cwdToProjectKey cwd' =
     (case map (\<lambda>c. if c \<in> set [CHR 0x5C, CHR ''/'', CHR '':'', CHR ''_''] then CHR ''-'' else c) cwd' of
        [] \<Rightarrow> []
      | c # cs \<Rightarrow>
          if 97 \<le> (of_char c :: nat) \<and> (of_char c :: nat) \<le> 122
          then char_of ((of_char c :: nat) - 32) # cs else c # cs)"

text \<open>\<open>key.replace(/^([A-Z])/, (m) => m.toLowerCase())\<close>.\<close>

definition lower_first :: "string \<Rightarrow> string" where
  "lower_first key =
     (case key of
        [] \<Rightarrow> []
      | c # cs \<Rightarrow>
          if 65 \<le> (of_char c :: nat) \<and> (of_char c :: nat) \<le> 90
          then char_of ((of_char c :: nat) + 32) # cs else c # cs)"

text \<open>
  \<open>getAutoMemoryDir\<close> of the context keeper and \<open>getMemoryDir\<close> of the development
  logger: the first candidate that exists, and a fixed candidate when none does.
\<close>

definition memory_candidates :: "hook \<Rightarrow> string \<Rightarrow> string \<Rightarrow> string list" where
  "memory_candidates h home key =
     (case h of
        ContextKeeper \<Rightarrow>
          [path_join [home, ''.claude'', ''projects'', lower_first key, ''memory''],
           path_join [home, ''.claude'', ''projects'', key, ''memory'']]
      | DevLogger \<Rightarrow>
          [path_join [home, ''.claude'', ''projects'', lower_first key, ''memory''],
           path_join [home, ''.claude'', ''projects'', key, ''memory''],
           path_join [home, ''.nlc'', ''projects'', lower_first key],
           path_join [home, ''.nlc'', ''projects'', key]])"

definition memory_default :: "hook \<Rightarrow> string \<Rightarrow> string \<Rightarrow> string" where
  "memory_default h home key =
     (case h of
        ContextKeeper \<Rightarrow> path_join [home, ''.claude'', ''projects'', lower_first key, ''memory'']
      | DevLogger \<Rightarrow> path_join [home, ''.nlc'', ''projects'', lower_first key])"

definition getMemoryDir :: "hook \<Rightarrow> env \<Rightarrow> filesys \<Rightarrow> string \<Rightarrow> string" where
  "getMemoryDir h e fs cwd' =
     (let home = home_dir e; key = cwdToProjectKey cwd'
      in case find (existsSync fs) (memory_candidates h home key) of
           Some p \<Rightarrow> p
         | None \<Rightarrow> memory_default h home key)"

section \<open>The document merger\<close>

text \<open>
  \<open>response.trim().split('\n').map(l => l.trim()).filter(l => l && l !== 'NONE')\<close>, the
  \<open>devLines\<close> of the development logger and the \<open>bullets\<close> of the context keeper.
\<close>

definition response_lines :: "string \<Rightarrow> string list" where
  "response_lines response' =
     filter (\<lambda>l. l \<noteq> [] \<and> l \<noteq> ''NONE'') (map trim (split_nl (trim response')))"

definition log_header :: "string \<Rightarrow> string" where
  "log_header d = ''# Developments '' @ emdash @ '' '' @ d @ nl @ nl"

definition log_entry :: "string \<Rightarrow> string \<Rightarrow> string" where
  "log_entry t line = ''- **'' @ t @ ''** '' @ emdash @ '' '' @ line"

text \<open>
  The append to the daily log, from the creation of the memory directory to the write
  (the directory itself is resolved by the caller).
\<close>

definition write_dev_log :: "filesys \<Rightarrow> string \<Rightarrow> clock \<Rightarrow> string \<Rightarrow> filesys" where
  "write_dev_log fs memoryDir c response' =
     (let fs2 = ensure_dir fs memoryDir;
          logFile = path_join [memoryDir, dateStr c @ ''.md'']
      in case (if existsSync fs2 logFile then readFileSync fs2 logFile
               else Inr (log_header (dateStr c))) of
           Inl e \<Rightarrow> fs2
         | Inr existing \<Rightarrow>
             (let devLines = response_lines response'
              in if devLines = [] then fs2
                 else writeFileSync fs2 logFile
                        (existing @ join nl (map (log_entry (timeStr c)) devLines) @ nl)))"

definition START_MARK :: string where
  "START_MARK = ''<!-- AUTO-CAPTURED''"

definition END_MARK :: string where
  "END_MARK = ''<!-- END AUTO-CAPTURED -->''"

text \<open>The rendered section of the handoff document.\<close>

definition bullet :: "string \<Rightarrow> string" where
  "bullet line = (if prefix ''- '' line then line else ''- '' @ line)"

definition autoSection :: "clock \<Rightarrow> string list \<Rightarrow> string" where
  "autoSection c bullets =
     ''<!-- AUTO-CAPTURED: '' @ dateStr c @ '' '' @ timeStr c @ '' -->'' @ nl @
     join nl (map bullet bullets) @ nl @ END_MARK"

text \<open>Replace the existing section or prepend the new one.\<close>

definition merge_section :: "string \<Rightarrow> string \<Rightarrow> string" where
  "merge_section content section' =
     (case (indexOf content START_MARK, indexOf content END_MARK) of
        (Some existingStart, Some existingEnd) \<Rightarrow>
          take existingStart content @ section' @ drop (existingEnd + length END_MARK) content
      | _ \<Rightarrow> if content \<noteq> [] then section' @ nl @ nl @ content else section' @ nl)"

definition write_handoff :: "filesys \<Rightarrow> string \<Rightarrow> clock \<Rightarrow> string list \<Rightarrow> filesys" where
  "write_handoff fs memoryDir c bullets =
     (let fs2 = ensure_dir fs memoryDir;
          handoffPath = path_join [memoryDir, ''session-handoff.md'']
      in case (if existsSync fs2 handoffPath then readFileSync fs2 handoffPath else Inr []) of
           Inl e \<Rightarrow> fs2
         | Inr content \<Rightarrow>
             writeFileSync fs2 handoffPath (merge_section content (autoSection c bullets)))"

section \<open>The two pipelines\<close>

text \<open>
  Both \<open>main\<close> functions are the same text from the payload to the test of the sentinel:
  read the cursor, extract, store the new cursor, pre-filter, call the classifier, test
  its answer. \<open>capture\<close> is that text; it gives the files as they are when control leaves
  it and, when the run goes on to the merge, the response. Every exception is caught by
  the \<open>try\<close> around the body of \<open>main\<close>, so a run that raises ends with the files as they
  were at that moment.
\<close>

definition is_sentinel :: "string \<Rightarrow> bool" where
  "is_sentinel response' \<longleftrightarrow> trim response' = ''NONE'' \<or> prefix ''NONE'' (trim response')"

definition capture :: "hook \<Rightarrow> runtime \<Rightarrow> env \<Rightarrow> hook_data \<Rightarrow> filesys \<Rightarrow> filesys \<times> string option" where
  "capture h rt e payload fs =
     (if transcript_path payload = [] \<or> cwd payload = [] \<or> session_id payload = [] then (fs, None)
      else
        (case getLatestExchange h (JSON_parse rt) fs (transcript_path payload)
                (getCursor h fs (cwd payload) (session_id payload)) of
           Inl e \<Rightarrow> (fs, None)
         | Inr None \<Rightarrow> (fs, None)
         | Inr (Some result) \<Rightarrow>
             (let fs1 = setCursor h fs (cwd payload) (session_id payload) (totalLines result)
              in if \<not> hasToolUse result \<and> length (text result) < 100 then (fs1, None)
                 else
                   (case callSmallModel h rt e fs1 (buildPrompt h (text result)) of
                      Inl err \<Rightarrow> (fs1, None)
                    | Inr (JStr response') \<Rightarrow>
                        if response' = [] \<or> is_sentinel response' then (fs1, None)
                        else (fs1, Some response')
                    | Inr v \<Rightarrow> (fs1, None)))))"

text \<open>
  \<open>main\<close> of the development logger. The payload is \<open>None\<close> when standard input is blank
  or is not JSON.
\<close>

definition main_dev_logger ::
  "runtime \<Rightarrow> env \<Rightarrow> clock \<Rightarrow> hook_data option \<Rightarrow> filesys \<Rightarrow> filesys" where
  "main_dev_logger rt e c inp fs =
     (case inp of
        None \<Rightarrow> fs
      | Some payload \<Rightarrow>
          (case capture DevLogger rt e payload fs of
             (fs1, None) \<Rightarrow> fs1
           | (fs1, Some response') \<Rightarrow>
               write_dev_log fs1 (getMemoryDir DevLogger e fs1 (cwd payload)) c response'))"

text \<open>\<open>main\<close> of the context keeper.\<close>

definition main_context_keeper ::
  "runtime \<Rightarrow> env \<Rightarrow> clock \<Rightarrow> hook_data option \<Rightarrow> filesys \<Rightarrow> filesys" where
  "main_context_keeper rt e c inp fs =
     (case inp of
        None \<Rightarrow> fs
      | Some payload \<Rightarrow>
          (case capture ContextKeeper rt e payload fs of
             (fs1, None) \<Rightarrow> fs1
           | (fs1, Some response') \<Rightarrow>
               (let bullets = response_lines response'
                in if bullets = [] then fs1
                   else write_handoff fs1 (getMemoryDir ContextKeeper e fs1 (cwd payload)) c bullets)))"

section \<open>The sync engine\<close>

text \<open>
  \<open>memory-sync.js\<close> works on two flat directories, the local memory directory and the
  working tree of the shared repository. A directory is the list of its entries, name and
  content, in the order \<open>readdirSync\<close> gives them. Of git the model keeps the tree of the
  last commit: \<open>git add -A\<close> stages the whole working tree, so \<open>git diff --cached --quiet\<close>
  fails exactly when the working tree differs from that tree, and \<open>git commit\<close> makes the
  working tree the new one. What \<open>git pull --rebase\<close> does to the repository, and whether
  a command fails, is given by the environment. \<open>copyIfDifferent\<close> compares the two
  files as the strings \<open>readFileSync\<close> gives and copies the bytes. The commands run and
  the files compared and copied are recorded in order.
\<close>

type_synonym directory = "(string \<times> string) list"

datatype place = InMemory string | InRepo string

datatype event =
    Compared place place
  | Copied place place
  | GitPull
  | GitAdd
  | GitDiff
  | GitCommit
  | GitPush

record sync_world =
  memoryDir :: "directory option"
  repoDir :: directory
  HEAD :: directory
  trace :: "event list"

record git_env =
  pull_result :: "directory \<times> directory \<Rightarrow> (directory \<times> directory) option"
  add_ok :: bool
  commit_ok :: bool
  push_ok :: bool

definition SYNC_FILES :: "string list" where
  "SYNC_FILES = [''MEMORY.md'', ''session-handoff.md'']"

definition is_digit :: "char \<Rightarrow> bool" where
  "is_digit c \<longleftrightarrow> 48 \<le> (of_char c :: nat) \<and> (of_char c :: nat) \<le> 57"

text \<open>\<open>/^\d{4}-\d{2}-\d{2}\.md$/\<close>.\<close>

definition DEV_LOG_PATTERN :: "string \<Rightarrow> bool" where
  "DEV_LOG_PATTERN f \<longleftrightarrow>
     length f = 13 \<and> list_all (\<lambda>i. is_digit (f ! i)) [0, 1, 2, 3, 5, 6, 8, 9]
     \<and> f ! 4 = CHR ''-'' \<and> f ! 7 = CHR ''-'' \<and> drop 10 f = ''.md''"

definition tracked :: "string \<Rightarrow> bool" where
  "tracked f \<longleftrightarrow> f \<in> set SYNC_FILES \<or> DEV_LOG_PATTERN f"

text \<open>\<open>getFilesToSync\<close>; \<open>None\<close> is a directory that does not exist.\<close>

definition getFilesToSync :: "directory option \<Rightarrow> string list" where
  "getFilesToSync dir = (case dir of None \<Rightarrow> [] | Some entries \<Rightarrow> filter tracked (map fst entries))"

definition lookup :: "sync_world \<Rightarrow> place \<Rightarrow> string option" where
  "lookup w p =
     (case p of
        InMemory f \<Rightarrow> (case memoryDir w of None \<Rightarrow> None | Some entries \<Rightarrow> map_of entries f)
      | InRepo f \<Rightarrow> map_of (repoDir w) f)"

fun put :: "string \<Rightarrow> string \<Rightarrow> directory \<Rightarrow> directory" where
  "put f c [] = [(f, c)]"
| "put f c ((g, d) # es) = (if g = f then (f, c) # es else (g, d) # put f c es)"

definition store :: "sync_world \<Rightarrow> place \<Rightarrow> string \<Rightarrow> sync_world" where
  "store w p c =
     (case p of
        InMemory f \<Rightarrow>
          w\<lparr>memoryDir := Some (put f c (case memoryDir w of None \<Rightarrow> [] | Some entries \<Rightarrow> entries))\<rparr>
      | InRepo f \<Rightarrow> w\<lparr>repoDir := put f c (repoDir w)\<rparr>)"

definition record_event :: "event \<Rightarrow> sync_world \<Rightarrow> sync_world" where
  "record_event ev w = w\<lparr>trace := trace w @ [ev]\<rparr>"

definition copyIfDifferent :: "sync_world \<Rightarrow> place \<Rightarrow> place \<Rightarrow> sync_world \<times> bool" where
  "copyIfDifferent w src dst =
     (case lookup w src of
        None \<Rightarrow> (w, False)
      | Some srcContent \<Rightarrow>
          (case lookup w dst of
             None \<Rightarrow> (record_event (Copied src dst) (store w dst srcContent), True)
           | Some dstContent \<Rightarrow>
               (let w1 = record_event (Compared src dst) w
                in if utf8_decode srcContent \<noteq> utf8_decode dstContent
                   then (record_event (Copied src dst) (store w1 dst srcContent), True)
                   else (w1, False))))"

definition gitPull :: "git_env \<Rightarrow> sync_world \<Rightarrow> sync_world \<times> bool" where
  "gitPull g w =
     (let w1 = record_event GitPull w
      in case pull_result g (repoDir w1, HEAD w1) of
           None \<Rightarrow> (w1, False)
         | Some (r, h) \<Rightarrow> (w1\<lparr>repoDir := r, HEAD := h\<rparr>, True))"

text \<open>Whether two trees differ in some file.\<close>

definition tree_differs :: "directory \<Rightarrow> directory \<Rightarrow> bool" where
  "tree_differs a b \<longleftrightarrow> (\<exists>f \<in> set (map fst a @ map fst b). map_of a f \<noteq> map_of b f)"

definition gitPush :: "git_env \<Rightarrow> sync_world \<Rightarrow> sync_world \<times> bool" where
  "gitPush g w =
     (let w1 = fst (gitPull g w);
          w2 = record_event GitAdd w1
      in if \<not> add_ok g then (w2, False)
         else
           (let w3 = record_event GitDiff w2
            in if \<not> tree_differs (repoDir w3) (HEAD w3) then (w3, True)
               else
                 (let w4 = record_event GitCommit w3
                  in if \<not> commit_ok g then (w4, False)
                     else
                       (let w5 = record_event GitPush (w4\<lparr>HEAD := repoDir w4\<rparr>)
                        in (w5, push_ok g)))))"

text \<open>The two loops of \<open>syncPush\<close>, with the count of copies.\<close>

fun push_loop :: "string list \<Rightarrow> sync_world \<times> nat \<Rightarrow> sync_world \<times> nat" where
  "push_loop [] acc = acc"
| "push_loop (f # fs) (w, copied) =
     (case copyIfDifferent w (InMemory f) (InRepo f) of
        (w', b) \<Rightarrow> push_loop fs (w', if b then copied + 1 else copied))"

fun repo_only_loop :: "string list \<Rightarrow> string list \<Rightarrow> sync_world \<times> nat \<Rightarrow> sync_world \<times> nat" where
  "repo_only_loop files' [] acc = acc"
| "repo_only_loop files' (f # fs) (w, copied) =
     (if f \<notin> set files' then
        (case copyIfDifferent w (InRepo f) (InMemory f) of
           (w', b) \<Rightarrow> repo_only_loop files' fs (w', if b then copied + 1 else copied))
      else repo_only_loop files' fs (w, copied))"

definition syncPush :: "git_env \<Rightarrow> sync_world \<Rightarrow> sync_world \<times> nat" where
  "syncPush g w =
     (if memoryDir w = None then (w, 0)
      else
        (let files' = getFilesToSync (memoryDir w);
             acc1 = push_loop files' (w, 0);
             repoFiles = getFilesToSync (Some (repoDir (fst acc1)));
             acc2 = repo_only_loop files' repoFiles acc1
         in (fst (gitPush g (fst acc2)), snd acc2)))"

text \<open>\<open>syncPull\<close>, which the hook runs at the start of a session, and its loop.\<close>

fun pull_loop :: "string list \<Rightarrow> sync_world \<times> nat \<Rightarrow> sync_world \<times> nat" where
  "pull_loop [] acc = acc"
| "pull_loop (f # fs) (w, copied) =
     (case copyIfDifferent w (InRepo f) (InMemory f) of
        (w', b) \<Rightarrow> pull_loop fs (w', if b then copied + 1 else copied))"

definition syncPull :: "git_env \<Rightarrow> sync_world \<Rightarrow> sync_world \<times> nat" where
  "syncPull g w =
     (let w1 = fst (gitPull g w);
          w2 = (if memoryDir w1 = None then w1\<lparr>memoryDir := Some []\<rparr> else w1);
          files' = getFilesToSync (Some (repoDir w2))
      in pull_loop files' (w2, 0))"

text \<open>The script that a hook runs.\<close>

definition run_hook ::
  "hook \<Rightarrow> runtime \<Rightarrow> env \<Rightarrow> clock \<Rightarrow> hook_data option \<Rightarrow> filesys \<Rightarrow> filesys" where
  "run_hook h =
     (case h of ContextKeeper \<Rightarrow> main_context_keeper | DevLogger \<Rightarrow> main_dev_logger)"

section \<open>Names used in the statements\<close>

text \<open>The path of the daily log, \<open>path.join(memoryDir, `${dateStr}.md`)\<close>.\<close>

definition log_path :: "string \<Rightarrow> string \<Rightarrow> string" where
  "log_path m d = path_join [m, d @ ''.md'']"

text \<open>The lines one call of the append adds for a response, each ended by a line feed.\<close>

definition rendered :: "string \<Rightarrow> string \<Rightarrow> string" where
  "rendered t r = concat (map (\<lambda>line. log_entry t line @ nl) (response_lines r))"

text \<open>
  A sequence of appends to the daily log, for one project and one date, each call with
  its time and its response. Each call resolves the memory directory in the state it
  finds, as \<open>main\<close> does, and appends there.
\<close>

definition log_calls :: "env \<Rightarrow> string \<Rightarrow> string \<Rightarrow> (string \<times> string) list \<Rightarrow> filesys \<Rightarrow> filesys" where
  "log_calls e cwd' d calls fs =
     fold (\<lambda>(t, r) fs'. write_dev_log fs' (getMemoryDir DevLogger e fs' cwd')
                           \<lparr>dateStr = d, timeStr = t\<rparr> r) calls fs"

text \<open>
  Bytes that are UTF-8: the decoder gives them back. The UTF-8 encoding of a JavaScript
  string is of this kind.
\<close>

definition utf8_valid :: "string \<Rightarrow> bool" where
  "utf8_valid s \<longleftrightarrow> utf8_decode s = s"

text \<open>
  Later runs of a hook for one session. Before each run the transcript has become the
  given content; each run has its own runtime, environment and clock.
\<close>

definition later_runs ::
  "hook \<Rightarrow> hook_data \<Rightarrow> (string \<times> runtime \<times> env \<times> clock) list \<Rightarrow> filesys \<Rightarrow> filesys" where
  "later_runs h p steps fs =
     fold (\<lambda>(content, rt, e, c) fs'.
             run_hook h rt e c (Some p)
               (fs'\<lparr>files := (files fs')(transcript_path p \<mapsto> content)\<rparr>))
          steps fs"

text \<open>Lines that are only added to: each list of lines begins with the one before it.\<close>

fun append_only :: "string list \<Rightarrow> string list list \<Rightarrow> bool" where
  "append_only ls [] = True"
| "append_only ls (ls' # rest) = (prefix ls ls' \<and> append_only ls' rest)"

text \<open>
  The truthy \<open>apiKey\<close> that a configuration file holds, if the file is there, its text is
  JSON and the value has one.
\<close>

definition config_apiKey :: "(string \<Rightarrow> jsval option) \<Rightarrow> filesys \<Rightarrow> string \<Rightarrow> jsval option" where
  "config_apiKey parse fs p =
     (case files fs p of
        None \<Rightarrow> None
      | Some bytes \<Rightarrow>
          (case parse (utf8_decode bytes) of
             None \<Rightarrow> None
           | Some cfg \<Rightarrow>
               if \<not> nullish cfg \<and> truthy (field cfg ''apiKey'')
               then Some (field cfg ''apiKey'') else None))"

text \<open>The path of the handoff document, \<open>path.join(memoryDir, 'session-handoff.md')\<close>.\<close>

definition handoff_path :: "string \<Rightarrow> string" where
  "handoff_path m = path_join [m, ''session-handoff.md'']"

text \<open>The positions at which a pattern occurs in a string.\<close>

definition occurrences :: "string \<Rightarrow> string \<Rightarrow> nat list" where
  "occurrences pat s = filter (\<lambda>i. prefix pat (drop i s)) [0..<Suc (length s)]"

text \<open>The events of the copy loops, and the events of the git commands after the staging.\<close>

fun is_file_event :: "event \<Rightarrow> bool" where
  "is_file_event (Compared src dst) = True"
| "is_file_event (Copied src dst) = True"
| "is_file_event ev = False"

fun is_commit_event :: "event \<Rightarrow> bool" where
  "is_commit_event GitDiff = True"
| "is_commit_event GitCommit = True"
| "is_commit_event GitPush = True"
| "is_commit_event ev = False"

text \<open>The state in which \<open>syncPush\<close> calls \<open>gitPush\<close>: after its two copy loops.\<close>

definition after_copies :: "sync_world \<Rightarrow> sync_world" where
  "after_copies w =
     (let files' = getFilesToSync (memoryDir w);
          acc1 = push_loop files' (w, 0);
          repoFiles = getFilesToSync (Some (repoDir (fst acc1)))
      in fst (repo_only_loop files' repoFiles acc1))"

section \<open>Properties of the decoder\<close>

lemma utf8_step_ok:
  assumes "utf8_step s = (True, n)"
  shows "0 < n \<and> n \<le> length s \<and> utf8_step (s @ t) = (True, n)"
  using assms by (cases s) (auto split: if_splits list.splits)

lemma utf8_step_replacement:
  "utf8_step (CHR 0xEF # CHR 0xBF # CHR 0xBD # s) = (True, 3)"
  by (simp add: in_range_def continuation_def second_byte_def)

lemma utf8_decode_append:
  "utf8_decode a = a \<Longrightarrow> utf8_decode (a @ b) = a @ utf8_decode b"
proof (induction a rule: utf8_decode.induct)
  case 1
  then show ?case by simp
next
  case (2 x xs)
  obtain ok n where st: "utf8_step (x # xs) = (ok, n)" by (cases "utf8_step (x # xs)")
  show ?case
  proof (cases ok)
    case True
    from utf8_step_ok[of "x # xs" n b] st True
    have n: "0 < n" "n \<le> Suc (length xs)" and st': "utf8_step (x # xs @ b) = (True, n)"
      by simp_all
    from "2.prems" st True
    have "take (n - 1) xs @ utf8_decode (drop (n - 1) xs) = xs"
      by simp
    also have "xs = take (n - 1) xs @ drop (n - 1) xs" by simp
    finally have v: "utf8_decode (drop (n - 1) xs) = drop (n - 1) xs"
      by (simp only: same_append_eq)
    have "utf8_decode (drop (n - 1) xs @ b) = drop (n - 1) xs @ utf8_decode b"
      using "2.IH"[OF st[symmetric] v] .
    moreover have "n - 1 \<le> length xs" using n by arith
    ultimately show ?thesis
      using st' by simp
  next
    case False
    with "2.prems" st have "x # xs = REPLACEMENT @ utf8_decode (drop (n - 1) xs)" by simp
    then obtain s where "x # xs = CHR 0xEF # CHR 0xBF # CHR 0xBD # s"
      by (simp add: REPLACEMENT_def)
    with utf8_step_replacement[of s] st False show ?thesis by simp
  qed
qed

lemma utf8_decode_ascii: "list_all (in_range 0x00 0x7F) s \<Longrightarrow> utf8_decode s = s"
  by (induction s) simp_all

text \<open>From here on the decoder is unfolded only where a proof asks for it.\<close>

declare utf8_decode.simps [simp del] utf8_step.simps [simp del]

section \<open>Properties of the extractor and the cursor\<close>

lemma process_line_unparsed: "parse l = None \<Longrightarrow> process_line h parse l acc = acc"
  by (simp add: process_line_def)

lemma extract_lines_append:
  "extract_lines h parse (xs @ ys) = fold (process_line h parse) ys (extract_lines h parse xs)"
  by (simp add: extract_lines_def)

lemma extract_lines_skip:
  assumes "parse bad = None"
  shows "extract_lines h parse (pre @ bad # post) = extract_lines h parse (pre @ post)"
  using assms by (simp add: extract_lines_def process_line_unparsed)

lemma extract_lines_Nil: "extract_lines h parse [] = ([], False)"
  by (simp add: extract_lines_def)

lemma getLatestExchange_file:
  assumes "files fs tp = Some content"
  shows "getLatestExchange h parse fs tp k =
           Inr (Some \<lparr>text = join nl (fst (extract_lines h parse
                                (drop k (nonblank_lines (utf8_decode content))))),
                      hasToolUse = snd (extract_lines h parse
                                (drop k (nonblank_lines (utf8_decode content)))),
                      totalLines = length (nonblank_lines (utf8_decode content))\<rparr>)"
  using assms
  by (simp add: getLatestExchange_def existsSync_def readFileSync_def Let_def
      extract_lines_Nil nl_def)

lemma getCursor_setCursor: "getCursor h (setCursor h fs d sid n) d sid = n"
  by (simp add: getCursor_def setCursor_def Let_def existsSync_def)

lemma capture_after_read:
  assumes "transcript_path p \<noteq> []" "cwd p \<noteq> []" "session_id p \<noteq> []"
      and "files fs (transcript_path p) = Some content"
  shows "fst (capture h rt e p fs) =
           setCursor h fs (cwd p) (session_id p) (length (nonblank_lines (utf8_decode content)))"
  using assms
  by (simp add: capture_def getLatestExchange_file Let_def
      split: sum.splits jsval.splits)

lemma getCursor_docs:
  "getCursor h fs d sid =
     (case cursor_docs fs (getCursorPath h d) of
        Some (Offsets m) \<Rightarrow> (case m sid of Some n \<Rightarrow> n | None \<Rightarrow> 0)
      | _ \<Rightarrow> 0)"
  by (simp add: getCursor_def existsSync_def Let_def split: option.splits cursor_doc.splits)

lemma cursor_docs_ensure_dir [simp]: "cursor_docs (ensure_dir fs d) = cursor_docs fs"
  by (simp add: ensure_dir_def)

lemma files_ensure_dir [simp]: "files (ensure_dir fs d) = files fs"
  by (simp add: ensure_dir_def)

lemma cursor_docs_write_dev_log [simp]: "cursor_docs (write_dev_log fs m c r) = cursor_docs fs"
  by (simp add: write_dev_log_def Let_def writeFileSync_def split: sum.splits)

lemma cursor_docs_write_handoff [simp]: "cursor_docs (write_handoff fs m c bs) = cursor_docs fs"
  by (simp add: write_handoff_def Let_def writeFileSync_def split: sum.splits)

lemma main_dev_logger_cursor_docs:
  "cursor_docs (main_dev_logger rt e c (Some p) fs) = cursor_docs (fst (capture DevLogger rt e p fs))"
  by (simp add: main_dev_logger_def split: prod.splits option.splits)

lemma main_context_keeper_cursor_docs:
  "cursor_docs (main_context_keeper rt e c (Some p) fs) = cursor_docs (fst (capture ContextKeeper rt e p fs))"
  by (simp add: main_context_keeper_def Let_def split: prod.splits option.splits)

text \<open>
  Claim C1. With the stored cursor of the session at \<open>k\<close>, the length of \<open>old\<close>, and a
  transcript that is read as the non-blank lines \<open>old\<close> followed by the new lines, a run of the
  development logger extracts the exchange of the new lines alone, whatever \<open>old\<close> holds,
  and leaves the stored cursor at \<open>k\<close> plus the number of new lines, the count of
  non-blank lines of the transcript.
\<close>

theorem cursor_advance_no_double_count:
  assumes "transcript_path p \<noteq> []" and "cwd p \<noteq> []" and "session_id p \<noteq> []"
      and "files fs (transcript_path p) = Some content"
      and "nonblank_lines (utf8_decode content) = old @ new"
      and "getCursor DevLogger fs (cwd p) (session_id p) = length old"
  shows "getLatestExchange DevLogger (JSON_parse rt) fs (transcript_path p)
             (getCursor DevLogger fs (cwd p) (session_id p)) =
           Inr (Some \<lparr>text = join nl (fst (extract_lines DevLogger (JSON_parse rt) new)),
                      hasToolUse = snd (extract_lines DevLogger (JSON_parse rt) new),
                      totalLines = length old + length new\<rparr>)
         \<and> getCursor DevLogger (main_dev_logger rt e c (Some p) fs) (cwd p) (session_id p)
             = length old + length new"
proof -
  have "getCursor DevLogger (main_dev_logger rt e c (Some p) fs) (cwd p) (session_id p)
      = getCursor DevLogger (fst (capture DevLogger rt e p fs)) (cwd p) (session_id p)"
    by (simp add: getCursor_docs main_dev_logger_cursor_docs)
  also have "\<dots> = length (nonblank_lines (utf8_decode content))"
    using assms(1-4) by (simp add: capture_after_read getCursor_setCursor)
  finally show ?thesis
    using assms(4-6) by (simp add: getLatestExchange_file)
qed

theorem cursor_advance_no_double_count_witness:
  \<open>getLatestExchange DevLogger (\<lambda>l. if l = ''{"type":"user","message":{"content":"fix it"}}'' then Some (JObj [(''type'', JStr ''user''), (''message'', JObj [(''content'', JStr ''fix it'')])])
            else if l = ''{"type":"assistant","message":{"content":[{"type":"tool_use","name":"Bash","input":{"command":"ls"}}]}}''
            then Some (JObj [(''type'', JStr ''assistant''),
                   (''message'', JObj [(''content'', JArr [JObj [(''type'', JStr ''tool_use''),
                      (''name'', JStr ''Bash''), (''input'', JObj [(''command'', JStr ''ls'')])]])])])
            else None)
      \<lparr>files = [''/t.jsonl'' \<mapsto> ''{"type":"user","message":{"content":"fix it"}}\<newline>{not json\<newline>\<newline>{"type":"assistant","message":{"content":[{"type":"tool_use","name":"Bash","input":{"command":"ls"}}]}}\<newline>''],
       dirs = {''/proj/.memory''},
       cursor_docs = [''/proj/.memory/dev-cursor.json'' \<mapsto> Offsets [''s1'' \<mapsto> 1]]\<rparr>
      ''/t.jsonl'' 1
    = Inr (Some \<lparr>text = ''[Bash: ls]'', hasToolUse = True, totalLines = 3\<rparr>)
   \<and> getCursor DevLogger
      (main_dev_logger \<lparr>JSON_parse = (\<lambda>l. if l = ''{"type":"user","message":{"content":"fix it"}}'' then Some (JObj [(''type'', JStr ''user''), (''message'', JObj [(''content'', JStr ''fix it'')])])
            else if l = ''{"type":"assistant","message":{"content":[{"type":"tool_use","name":"Bash","input":{"command":"ls"}}]}}''
            then Some (JObj [(''type'', JStr ''assistant''),
                   (''message'', JObj [(''content'', JArr [JObj [(''type'', JStr ''tool_use''),
                      (''name'', JStr ''Bash''), (''input'', JObj [(''command'', JStr ''ls'')])]])])])
            else None), fetch = (\<lambda>r. Rejected)\<rparr>
         \<lparr>ANTHROPIC_API_KEY = None, USERPROFILE = None, HOME = Some ''/home/u''\<rparr>
         \<lparr>dateStr = ''2025-01-02'', timeStr = ''10:30''\<rparr>
         (Some \<lparr>session_id = ''s1'', transcript_path = ''/t.jsonl'', cwd = ''/proj''\<rparr>)
         \<lparr>files = [''/t.jsonl'' \<mapsto> ''{"type":"user","message":{"content":"fix it"}}\<newline>{not json\<newline>\<newline>{"type":"assistant","message":{"content":[{"type":"tool_use","name":"Bash","input":{"command":"ls"}}]}}\<newline>''],
          dirs = {''/proj/.memory''},
          cursor_docs = [''/proj/.memory/dev-cursor.json'' \<mapsto> Offsets [''s1'' \<mapsto> 1]]\<rparr>)
      ''/proj'' ''s1'' = 3\<close>
proof -
  let ?parse = \<open>(\<lambda>l. if l = ''{"type":"user","message":{"content":"fix it"}}'' then Some (JObj [(''type'', JStr ''user''), (''message'', JObj [(''content'', JStr ''fix it'')])])
            else if l = ''{"type":"assistant","message":{"content":[{"type":"tool_use","name":"Bash","input":{"command":"ls"}}]}}''
            then Some (JObj [(''type'', JStr ''assistant''),
                   (''message'', JObj [(''content'', JArr [JObj [(''type'', JStr ''tool_use''),
                      (''name'', JStr ''Bash''), (''input'', JObj [(''command'', JStr ''ls'')])]])])])
            else None)\<close>
  let ?rt = "\<lparr>JSON_parse = ?parse, fetch = (\<lambda>r. Rejected)\<rparr>"
  let ?c = \<open>''{"type":"user","message":{"content":"fix it"}}\<newline>{not json\<newline>\<newline>{"type":"assistant","message":{"content":[{"type":"tool_use","name":"Bash","input":{"command":"ls"}}]}}\<newline>''\<close>
  let ?fs = "\<lparr>files = [''/t.jsonl'' \<mapsto> ?c], dirs = {''/proj/.memory''},
       cursor_docs = [''/proj/.memory/dev-cursor.json'' \<mapsto> Offsets [''s1'' \<mapsto> 1]]\<rparr>"
  let ?p = "\<lparr>session_id = ''s1'', transcript_path = ''/t.jsonl'', cwd = ''/proj''\<rparr>"
  let ?new = \<open>[''{not json'', ''{"type":"assistant","message":{"content":[{"type":"tool_use","name":"Bash","input":{"command":"ls"}}]}}'']\<close>
  let ?u = \<open>''{"type":"user","message":{"content":"fix it"}}''\<close>
  have d: "utf8_decode ?c = ?c"
    by (rule utf8_decode_ascii) (simp add: in_range_def)
  have l: "nonblank_lines (utf8_decode ?c) = [?u] @ ?new"
    unfolding d by (simp add: nonblank_lines_def trim_def is_space_def)
  have g: "getCursor DevLogger ?fs (cwd ?p) (session_id ?p) = length [?u]"
    by (simp add: getCursor_docs getCursorPath_def path_join_def cursor_name_def)
  have e: "extract_lines DevLogger ?parse ?new = ([''[Bash: ls]''], True)"
    by (simp add: extract_lines_def process_line_def getprop_def nullish_def
        message_content_def block_step_def describe_tool_def js_or_def bash_command_def)
  have f: "files ?fs (transcript_path ?p) = Some ?c" by simp
  have n1: "transcript_path ?p \<noteq> []" and n2: "cwd ?p \<noteq> []" and n3: "session_id ?p \<noteq> []"
    by simp_all
  note r = cursor_advance_no_double_count[where p = ?p and fs = ?fs and content = ?c
      and old = "[?u]" and new = ?new and rt = ?rt
      and e = "\<lparr>ANTHROPIC_API_KEY = None, USERPROFILE = None, HOME = Some ''/home/u''\<rparr>"
      and c = "\<lparr>dateStr = ''2025-01-02'', timeStr = ''10:30''\<rparr>", OF n1 n2 n3 f l g]
  have g1: "getCursor DevLogger ?fs ''/proj'' ''s1'' = 1" using g by simp
  from r g1 show ?thesis
    by (simp add: e nl_def numeral_3_eq_3)
qed

lemma files_setCursor [simp]: "files (setCursor h fs d sid n) = files fs"
  by (simp add: setCursor_def Let_def)

text \<open>
  Claim C5. When the classifier's answer in a run is \<open>null\<close>, or a string that after
  trimming is \<open>NONE\<close> or begins with \<open>NONE\<close>, the run ends in the state that storing
  the new cursor gives: no text file, so neither the handoff document nor a daily log, is
  created or changed, and the stored cursor is the offset the extractor computed. This
  holds for the context keeper and for the development logger.
\<close>

theorem sentinel_short_circuit:
  assumes "transcript_path p \<noteq> []" and "cwd p \<noteq> []" and "session_id p \<noteq> []"
      and "getLatestExchange h (JSON_parse rt) fs (transcript_path p)
             (getCursor h fs (cwd p) (session_id p)) = Inr (Some result)"
      and "callSmallModel h rt e (setCursor h fs (cwd p) (session_id p) (totalLines result))
             (buildPrompt h (text result)) = Inr v"
      and "v = JNull \<or> (\<exists>s. v = JStr s \<and> is_sentinel s)"
  shows "run_hook h rt e c (Some p) fs = setCursor h fs (cwd p) (session_id p) (totalLines result)
         \<and> files (run_hook h rt e c (Some p) fs) = files fs
         \<and> getCursor h (run_hook h rt e c (Some p) fs) (cwd p) (session_id p) = totalLines result"
proof -
  have "capture h rt e p fs = (setCursor h fs (cwd p) (session_id p) (totalLines result), None)"
    using assms by (auto simp: capture_def Let_def)
  then have "run_hook h rt e c (Some p) fs = setCursor h fs (cwd p) (session_id p) (totalLines result)"
    by (cases h) (simp_all add: run_hook_def main_dev_logger_def main_context_keeper_def)
  then show ?thesis by (simp add: getCursor_setCursor)
qed

theorem sentinel_short_circuit_witness:
  \<open>files (run_hook DevLogger
       \<lparr>JSON_parse = (\<lambda>l. if l = ''{"type":"user","message":{"content":"fix it"}}'' then Some (JObj [(''type'', JStr ''user''), (''message'', JObj [(''content'', JStr ''fix it'')])])
            else if l = ''{"type":"assistant","message":{"content":[{"type":"tool_use","name":"Bash","input":{"command":"ls"}}]}}''
            then Some (JObj [(''type'', JStr ''assistant''),
                   (''message'', JObj [(''content'', JArr [JObj [(''type'', JStr ''tool_use''),
                      (''name'', JStr ''Bash''), (''input'', JObj [(''command'', JStr ''ls'')])]])])])
            else None),
        fetch = (\<lambda>r. Response True (Some (JObj [(''content'',
                   JArr [JObj [(''type'', JStr ''text''), (''text'', JStr ''NONE\<newline>'')]])])))\<rparr>
       \<lparr>ANTHROPIC_API_KEY = Some ''sk-1'', USERPROFILE = None, HOME = Some ''/home/u''\<rparr>
       \<lparr>dateStr = ''2025-01-02'', timeStr = ''10:30''\<rparr>
       (Some \<lparr>session_id = ''s1'', transcript_path = ''/t.jsonl'', cwd = ''/proj''\<rparr>)
       \<lparr>files = [''/t.jsonl'' \<mapsto> ''{"type":"user","message":{"content":"fix it"}}\<newline>{not json\<newline>\<newline>{"type":"assistant","message":{"content":[{"type":"tool_use","name":"Bash","input":{"command":"ls"}}]}}\<newline>''], dirs = {}, cursor_docs = Map.empty\<rparr>)
     = [''/t.jsonl'' \<mapsto> ''{"type":"user","message":{"content":"fix it"}}\<newline>{not json\<newline>\<newline>{"type":"assistant","message":{"content":[{"type":"tool_use","name":"Bash","input":{"command":"ls"}}]}}\<newline>'']
   \<and> getCursor DevLogger (run_hook DevLogger
       \<lparr>JSON_parse = (\<lambda>l. if l = ''{"type":"user","message":{"content":"fix it"}}'' then Some (JObj [(''type'', JStr ''user''), (''message'', JObj [(''content'', JStr ''fix it'')])])
            else if l = ''{"type":"assistant","message":{"content":[{"type":"tool_use","name":"Bash","input":{"command":"ls"}}]}}''
            then Some (JObj [(''type'', JStr ''assistant''),
                   (''message'', JObj [(''content'', JArr [JObj [(''type'', JStr ''tool_use''),
                      (''name'', JStr ''Bash''), (''input'', JObj [(''command'', JStr ''ls'')])]])])])
            else None),
        fetch = (\<lambda>r. Response True (Some (JObj [(''content'',
                   JArr [JObj [(''type'', JStr ''text''), (''text'', JStr ''NONE\<newline>'')]])])))\<rparr>
       \<lparr>ANTHROPIC_API_KEY = Some ''sk-1'', USERPROFILE = None, HOME = Some ''/home/u''\<rparr>
       \<lparr>dateStr = ''2025-01-02'', timeStr = ''10:30''\<rparr>
       (Some \<lparr>session_id = ''s1'', transcript_path = ''/t.jsonl'', cwd = ''/proj''\<rparr>)
       \<lparr>files = [''/t.jsonl'' \<mapsto> ''{"type":"user","message":{"content":"fix it"}}\<newline>{not json\<newline>\<newline>{"type":"assistant","message":{"content":[{"type":"tool_use","name":"Bash","input":{"command":"ls"}}]}}\<newline>''], dirs = {}, cursor_docs = Map.empty\<rparr>)
      ''/proj'' ''s1'' = 3\<close>
proof -
  let ?parse = \<open>(\<lambda>l. if l = ''{"type":"user","message":{"content":"fix it"}}'' then Some (JObj [(''type'', JStr ''user''), (''message'', JObj [(''content'', JStr ''fix it'')])])
            else if l = ''{"type":"assistant","message":{"content":[{"type":"tool_use","name":"Bash","input":{"command":"ls"}}]}}''
            then Some (JObj [(''type'', JStr ''assistant''),
                   (''message'', JObj [(''content'', JArr [JObj [(''type'', JStr ''tool_use''),
                      (''name'', JStr ''Bash''), (''input'', JObj [(''command'', JStr ''ls'')])]])])])
            else None)\<close>
  let ?rt = "\<lparr>JSON_parse = ?parse,
        fetch = (\<lambda>r. Response True (Some (JObj [(''content'',
                   JArr [JObj [(''type'', JStr ''text''), (''text'', JStr ''NONE\<newline>'')]])])))\<rparr>"
  let ?e = "\<lparr>ANTHROPIC_API_KEY = Some ''sk-1'', USERPROFILE = None, HOME = Some ''/home/u''\<rparr>"
  let ?c = \<open>''{"type":"user","message":{"content":"fix it"}}\<newline>{not json\<newline>\<newline>{"type":"assistant","message":{"content":[{"type":"tool_use","name":"Bash","input":{"command":"ls"}}]}}\<newline>''\<close>
  let ?fs = "\<lparr>files = [''/t.jsonl'' \<mapsto> ?c], dirs = {}, cursor_docs = Map.empty\<rparr>"
  let ?p = "\<lparr>session_id = ''s1'', transcript_path = ''/t.jsonl'', cwd = ''/proj''\<rparr>"
  let ?result = "\<lparr>text = ''USER: fix it\<newline>[Bash: ls]'', hasToolUse = True, totalLines = 3\<rparr>"
  have d: "utf8_decode ?c = ?c"
    by (rule utf8_decode_ascii) (simp add: in_range_def)
  have l: \<open>nonblank_lines (utf8_decode ?c) = [''{"type":"user","message":{"content":"fix it"}}'', ''{not json'', ''{"type":"assistant","message":{"content":[{"type":"tool_use","name":"Bash","input":{"command":"ls"}}]}}'']\<close>
    unfolding d by (simp add: nonblank_lines_def trim_def is_space_def)
  have g: "getCursor DevLogger ?fs (cwd ?p) (session_id ?p) = 0"
    by (simp add: getCursor_docs)
  have e: \<open>extract_lines DevLogger ?parse [''{"type":"user","message":{"content":"fix it"}}'', ''{not json'', ''{"type":"assistant","message":{"content":[{"type":"tool_use","name":"Bash","input":{"command":"ls"}}]}}'']
      = ([''USER: fix it'', ''[Bash: ls]''], True)\<close>
    by (simp add: extract_lines_def process_line_def getprop_def nullish_def
        message_content_def block_step_def describe_tool_def js_or_def bash_command_def
        user_text_def)
  have x: "getLatestExchange DevLogger (JSON_parse ?rt) ?fs (transcript_path ?p)
             (getCursor DevLogger ?fs (cwd ?p) (session_id ?p)) = Inr (Some ?result)"
    unfolding g by (simp add: getLatestExchange_file l e nl_def)
  have m: "callSmallModel DevLogger ?rt ?e
             (setCursor DevLogger ?fs (cwd ?p) (session_id ?p) (totalLines ?result))
             (buildPrompt DevLogger (text ?result)) = Inr (JStr ''NONE\<newline>'')"
    by (simp add: callSmallModel_def resolveApiKey_def nonempty_def first_text_def
        getprop_def nullish_def js_or_def)
  have s: "JStr ''NONE\<newline>'' = JNull \<or> (\<exists>s. JStr ''NONE\<newline>'' = JStr s \<and> is_sentinel s)"
    by (simp add: is_sentinel_def trim_def is_space_def)
  have n1: "transcript_path ?p \<noteq> []" and n2: "cwd ?p \<noteq> []" and n3: "session_id ?p \<noteq> []"
    by simp_all
  note r = sentinel_short_circuit[where h = DevLogger and p = ?p and fs = ?fs and rt = ?rt
      and e = ?e and result = ?result and v = "JStr ''NONE\<newline>''"
      and c = "\<lparr>dateStr = ''2025-01-02'', timeStr = ''10:30''\<rparr>", OF n1 n2 n3 x m s]
  from r[THEN conjunct2] show ?thesis by simp
qed

section \<open>Running the pipeline twice\<close>

lemma capture_no_file:
  assumes "files fs (transcript_path p) = None"
  shows "capture h rt e p fs = (fs, None)"
  using assms
  by (simp add: capture_def getLatestExchange_def readFileSync_def)

lemma existsSync_ensure_dir: "existsSync (ensure_dir fs d) d"
  by (simp add: ensure_dir_def existsSync_def)

lemma existsSync_ensure_dir_mono: "existsSync fs q \<Longrightarrow> existsSync (ensure_dir fs d) q"
  by (auto simp: ensure_dir_def existsSync_def)

lemma existsSync_setCursor_dir: "existsSync (setCursor h fs d sid n) (path_join [d, ''.memory''])"
  using existsSync_ensure_dir[of fs "path_join [d, ''.memory'']"]
  by (simp add: setCursor_def Let_def existsSync_def)

lemma cursor_docs_setCursor:
  "\<exists>m. cursor_docs (setCursor h fs d sid n) (getCursorPath h d) = Some (Offsets m) \<and> m sid = Some n"
  by (simp add: setCursor_def Let_def)

lemma existsSync_write_dev_log_mono:
  "existsSync fs q \<Longrightarrow> existsSync (write_dev_log fs m c r) q"
  by (auto simp: write_dev_log_def Let_def writeFileSync_def ensure_dir_def existsSync_def
      split: sum.splits)

lemma setCursor_same:
  assumes "existsSync fs (path_join [d, ''.memory''])"
      and "cursor_docs fs (getCursorPath h d) = Some (Offsets m)"
      and "m sid = Some n"
  shows "setCursor h fs d sid n = fs"
proof -
  have "m(sid \<mapsto> n) = m" using assms(3) by (simp add: fun_upd_idem)
  moreover have "(cursor_docs fs)(getCursorPath h d \<mapsto> Offsets m) = cursor_docs fs"
    using assms(2) by (simp add: fun_upd_idem)
  ultimately show ?thesis
    using assms(1,2) by (simp add: setCursor_def Let_def ensure_dir_def existsSync_def)
qed

lemma capture_up_to_date:
  assumes "files fs (transcript_path p) = Some content"
      and "existsSync fs (path_join [cwd p, ''.memory''])"
      and "cursor_docs fs (getCursorPath h (cwd p)) = Some (Offsets m)"
      and "m (session_id p) = Some (length (nonblank_lines (utf8_decode content)))"
  shows "capture h rt e p fs = (fs, None)"
proof -
  let ?n = "length (nonblank_lines (utf8_decode content))"
  have g: "getCursor h fs (cwd p) (session_id p) = ?n"
    using assms(3,4) by (simp add: getCursor_docs)
  have x: "getLatestExchange h (JSON_parse rt) fs (transcript_path p) ?n
      = Inr (Some \<lparr>text = [], hasToolUse = False, totalLines = ?n\<rparr>)"
    using assms(1) by (simp add: getLatestExchange_file extract_lines_Nil)
  have s: "setCursor h fs (cwd p) (session_id p) ?n = fs"
    using assms(2-4) by (rule setCursor_same)
  show ?thesis
    by (simp add: capture_def g x s)
qed

text \<open>
  Claim C8. A second run of the development logger, on the state the first run left and
  with a transcript that is read as the same non-blank lines as at the first run, changes
  nothing: no document is written and the cursor document is as it was, whatever the
  classifier and the clock are the second time.
\<close>

theorem second_run_changes_nothing:
  assumes "map_option (\<lambda>bytes. nonblank_lines (utf8_decode bytes))
             (files (main_dev_logger rt e c (Some p) fs) (transcript_path p))
           = map_option (\<lambda>bytes. nonblank_lines (utf8_decode bytes)) (files fs (transcript_path p))"
  shows "main_dev_logger rt' e' c' (Some p) (main_dev_logger rt e c (Some p) fs)
         = main_dev_logger rt e c (Some p) fs"
proof (cases "files fs (transcript_path p)")
  case None
  then have "main_dev_logger rt e c (Some p) fs = fs"
    by (simp add: main_dev_logger_def capture_no_file)
  moreover from None have "main_dev_logger rt' e' c' (Some p) fs = fs"
    by (simp add: main_dev_logger_def capture_no_file)
  ultimately show ?thesis by simp
next
  case (Some content)
  let ?fs1 = "main_dev_logger rt e c (Some p) fs"
  show ?thesis
  proof (cases "transcript_path p = [] \<or> cwd p = [] \<or> session_id p = []")
    case True
    then have "\<And>rt e c fs. main_dev_logger rt e c (Some p) fs = fs"
      by (simp add: main_dev_logger_def capture_def)
    then show ?thesis by simp
  next
    case False
    let ?n = "length (nonblank_lines (utf8_decode content))"
    let ?fsa = "setCursor DevLogger fs (cwd p) (session_id p) ?n"
    from False Some have a: "fst (capture DevLogger rt e p fs) = ?fsa"
      by (simp add: capture_after_read)
    have docs: "cursor_docs ?fs1 = cursor_docs ?fsa"
      using a by (simp add: main_dev_logger_cursor_docs)
    have "existsSync (fst (capture DevLogger rt e p fs)) (path_join [cwd p, ''.memory''])"
      unfolding a by (rule existsSync_setCursor_dir)
    then have ex: "existsSync ?fs1 (path_join [cwd p, ''.memory''])"
      by (auto simp: main_dev_logger_def existsSync_write_dev_log_mono split: prod.splits option.splits)
    obtain m where m: "cursor_docs ?fs1 (getCursorPath DevLogger (cwd p)) = Some (Offsets m)"
        "m (session_id p) = Some ?n"
      using cursor_docs_setCursor[of DevLogger fs "cwd p" "session_id p" ?n] docs by auto
    from assms Some obtain content1 where c1: "files ?fs1 (transcript_path p) = Some content1"
        "nonblank_lines (utf8_decode content1) = nonblank_lines (utf8_decode content)"
      by auto
    have "capture DevLogger rt' e' p ?fs1 = (?fs1, None)"
      using c1 ex m by (intro capture_up_to_date[where content = content1 and m = m]) simp_all
    then show ?thesis
      by (simp add: main_dev_logger_def[of rt' e' c'])
  qed
qed

lemma files_write_dev_log_other:
  "q \<noteq> path_join [m, dateStr c @ ''.md''] \<Longrightarrow> files (write_dev_log fs m c r) q = files fs q"
  by (simp add: write_dev_log_def Let_def writeFileSync_def split: sum.splits)

theorem second_run_changes_nothing_witness:
  \<open>main_dev_logger \<lparr>JSON_parse = (\<lambda>l. if l = ''{"type":"user","message":{"content":"fix it"}}'' then Some (JObj [(''type'', JStr ''user''), (''message'', JObj [(''content'', JStr ''fix it'')])])
            else if l = ''{"type":"assistant","message":{"content":[{"type":"tool_use","name":"Bash","input":{"command":"ls"}}]}}''
            then Some (JObj [(''type'', JStr ''assistant''),
                   (''message'', JObj [(''content'', JArr [JObj [(''type'', JStr ''tool_use''),
                      (''name'', JStr ''Bash''), (''input'', JObj [(''command'', JStr ''ls'')])]])])])
            else None),
        fetch = (\<lambda>r. Response True (Some (JObj [(''content'',
                   JArr [JObj [(''type'', JStr ''text''), (''text'', JStr ''Added tests'')]])])))\<rparr> \<lparr>ANTHROPIC_API_KEY = Some ''sk-1'', USERPROFILE = None, HOME = Some ''/home/u''\<rparr> \<lparr>dateStr = ''2025-01-02'', timeStr = ''10:31''\<rparr> (Some \<lparr>session_id = ''s1'', transcript_path = ''/t.jsonl'', cwd = ''/proj''\<rparr>) (main_dev_logger \<lparr>JSON_parse = (\<lambda>l. if l = ''{"type":"user","message":{"content":"fix it"}}'' then Some (JObj [(''type'', JStr ''user''), (''message'', JObj [(''content'', JStr ''fix it'')])])
            else if l = ''{"type":"assistant","message":{"content":[{"type":"tool_use","name":"Bash","input":{"command":"ls"}}]}}''
            then Some (JObj [(''type'', JStr ''assistant''),
                   (''message'', JObj [(''content'', JArr [JObj [(''type'', JStr ''tool_use''),
                      (''name'', JStr ''Bash''), (''input'', JObj [(''command'', JStr ''ls'')])]])])])
            else None),
        fetch = (\<lambda>r. Response True (Some (JObj [(''content'',
                   JArr [JObj [(''type'', JStr ''text''), (''text'', JStr ''Implemented login'')]])])))\<rparr> \<lparr>ANTHROPIC_API_KEY = Some ''sk-1'', USERPROFILE = None, HOME = Some ''/home/u''\<rparr> \<lparr>dateStr = ''2025-01-02'', timeStr = ''10:30''\<rparr> (Some \<lparr>session_id = ''s1'', transcript_path = ''/t.jsonl'', cwd = ''/proj''\<rparr>) \<lparr>files = [''/t.jsonl'' \<mapsto> ''{"type":"user","message":{"content":"fix it"}}\<newline>{not json\<newline>\<newline>{"type":"assistant","message":{"content":[{"type":"tool_use","name":"Bash","input":{"command":"ls"}}]}}\<newline>''], dirs = {}, cursor_docs = Map.empty\<rparr>)
     = main_dev_logger \<lparr>JSON_parse = (\<lambda>l. if l = ''{"type":"user","message":{"content":"fix it"}}'' then Some (JObj [(''type'', JStr ''user''), (''message'', JObj [(''content'', JStr ''fix it'')])])
            else if l = ''{"type":"assistant","message":{"content":[{"type":"tool_use","name":"Bash","input":{"command":"ls"}}]}}''
            then Some (JObj [(''type'', JStr ''assistant''),
                   (''message'', JObj [(''content'', JArr [JObj [(''type'', JStr ''tool_use''),
                      (''name'', JStr ''Bash''), (''input'', JObj [(''command'', JStr ''ls'')])]])])])
            else None),
        fetch = (\<lambda>r. Response True (Some (JObj [(''content'',
                   JArr [JObj [(''type'', JStr ''text''), (''text'', JStr ''Implemented login'')]])])))\<rparr> \<lparr>ANTHROPIC_API_KEY = Some ''sk-1'', USERPROFILE = None, HOME = Some ''/home/u''\<rparr> \<lparr>dateStr = ''2025-01-02'', timeStr = ''10:30''\<rparr> (Some \<lparr>session_id = ''s1'', transcript_path = ''/t.jsonl'', cwd = ''/proj''\<rparr>) \<lparr>files = [''/t.jsonl'' \<mapsto> ''{"type":"user","message":{"content":"fix it"}}\<newline>{not json\<newline>\<newline>{"type":"assistant","message":{"content":[{"type":"tool_use","name":"Bash","input":{"command":"ls"}}]}}\<newline>''], dirs = {}, cursor_docs = Map.empty\<rparr>
   \<and> files (main_dev_logger \<lparr>JSON_parse = (\<lambda>l. if l = ''{"type":"user","message":{"content":"fix it"}}'' then Some (JObj [(''type'', JStr ''user''), (''message'', JObj [(''content'', JStr ''fix it'')])])
            else if l = ''{"type":"assistant","message":{"content":[{"type":"tool_use","name":"Bash","input":{"command":"ls"}}]}}''
            then Some (JObj [(''type'', JStr ''assistant''),
                   (''message'', JObj [(''content'', JArr [JObj [(''type'', JStr ''tool_use''),
                      (''name'', JStr ''Bash''), (''input'', JObj [(''command'', JStr ''ls'')])]])])])
            else None),
        fetch = (\<lambda>r. Response True (Some (JObj [(''content'',
                   JArr [JObj [(''type'', JStr ''text''), (''text'', JStr ''Implemented login'')]])])))\<rparr> \<lparr>ANTHROPIC_API_KEY = Some ''sk-1'', USERPROFILE = None, HOME = Some ''/home/u''\<rparr> \<lparr>dateStr = ''2025-01-02'', timeStr = ''10:30''\<rparr> (Some \<lparr>session_id = ''s1'', transcript_path = ''/t.jsonl'', cwd = ''/proj''\<rparr>) \<lparr>files = [''/t.jsonl'' \<mapsto> ''{"type":"user","message":{"content":"fix it"}}\<newline>{not json\<newline>\<newline>{"type":"assistant","message":{"content":[{"type":"tool_use","name":"Bash","input":{"command":"ls"}}]}}\<newline>''], dirs = {}, cursor_docs = Map.empty\<rparr>) ''/t.jsonl'' = Some ''{"type":"user","message":{"content":"fix it"}}\<newline>{not json\<newline>\<newline>{"type":"assistant","message":{"content":[{"type":"tool_use","name":"Bash","input":{"command":"ls"}}]}}\<newline>''\<close>
proof -
  let ?parse = \<open>(\<lambda>l. if l = ''{"type":"user","message":{"content":"fix it"}}'' then Some (JObj [(''type'', JStr ''user''), (''message'', JObj [(''content'', JStr ''fix it'')])])
            else if l = ''{"type":"assistant","message":{"content":[{"type":"tool_use","name":"Bash","input":{"command":"ls"}}]}}''
            then Some (JObj [(''type'', JStr ''assistant''),
                   (''message'', JObj [(''content'', JArr [JObj [(''type'', JStr ''tool_use''),
                      (''name'', JStr ''Bash''), (''input'', JObj [(''command'', JStr ''ls'')])]])])])
            else None)\<close>
  let ?rt = \<open>\<lparr>JSON_parse = (\<lambda>l. if l = ''{"type":"user","message":{"content":"fix it"}}'' then Some (JObj [(''type'', JStr ''user''), (''message'', JObj [(''content'', JStr ''fix it'')])])
            else if l = ''{"type":"assistant","message":{"content":[{"type":"tool_use","name":"Bash","input":{"command":"ls"}}]}}''
            then Some (JObj [(''type'', JStr ''assistant''),
                   (''message'', JObj [(''content'', JArr [JObj [(''type'', JStr ''tool_use''),
                      (''name'', JStr ''Bash''), (''input'', JObj [(''command'', JStr ''ls'')])]])])])
            else None),
        fetch = (\<lambda>r. Response True (Some (JObj [(''content'',
                   JArr [JObj [(''type'', JStr ''text''), (''text'', JStr ''Implemented login'')]])])))\<rparr>\<close>
  let ?e = "\<lparr>ANTHROPIC_API_KEY = Some ''sk-1'', USERPROFILE = None, HOME = Some ''/home/u''\<rparr>"
  let ?c = \<open>''{"type":"user","message":{"content":"fix it"}}\<newline>{not json\<newline>\<newline>{"type":"assistant","message":{"content":[{"type":"tool_use","name":"Bash","input":{"command":"ls"}}]}}\<newline>''\<close>
  let ?fs = \<open>\<lparr>files = [''/t.jsonl'' \<mapsto> ''{"type":"user","message":{"content":"fix it"}}\<newline>{not json\<newline>\<newline>{"type":"assistant","message":{"content":[{"type":"tool_use","name":"Bash","input":{"command":"ls"}}]}}\<newline>''], dirs = {}, cursor_docs = Map.empty\<rparr>\<close>
  let ?p = "\<lparr>session_id = ''s1'', transcript_path = ''/t.jsonl'', cwd = ''/proj''\<rparr>"
  let ?ck = "\<lparr>dateStr = ''2025-01-02'', timeStr = ''10:30''\<rparr>"
  let ?result = "\<lparr>text = ''USER: fix it\<newline>[Bash: ls]'', hasToolUse = True, totalLines = 3\<rparr>"
  let ?fsa = "setCursor DevLogger ?fs ''/proj'' ''s1'' 3"
  have d: "utf8_decode ?c = ?c"
    by (rule utf8_decode_ascii) (simp add: in_range_def)
  have l: \<open>nonblank_lines (utf8_decode ?c) = [''{"type":"user","message":{"content":"fix it"}}'', ''{not json'', ''{"type":"assistant","message":{"content":[{"type":"tool_use","name":"Bash","input":{"command":"ls"}}]}}'']\<close>
    unfolding d by (simp add: nonblank_lines_def trim_def is_space_def)
  have g: "getCursor DevLogger ?fs ''/proj'' ''s1'' = 0"
    by (simp add: getCursor_docs)
  have e: \<open>extract_lines DevLogger ?parse [''{"type":"user","message":{"content":"fix it"}}'', ''{not json'', ''{"type":"assistant","message":{"content":[{"type":"tool_use","name":"Bash","input":{"command":"ls"}}]}}'']
      = ([''USER: fix it'', ''[Bash: ls]''], True)\<close>
    by (simp add: extract_lines_def process_line_def getprop_def nullish_def
        message_content_def block_step_def describe_tool_def js_or_def bash_command_def
        user_text_def)
  have x: "getLatestExchange DevLogger ?parse ?fs ''/t.jsonl'' 0 = Inr (Some ?result)"
    by (simp add: getLatestExchange_file l e nl_def)
  have m: "callSmallModel DevLogger ?rt ?e ?fsa (buildPrompt DevLogger ''USER: fix it\<newline>[Bash: ls]'')
      = Inr (JStr ''Implemented login'')"
    by (simp add: callSmallModel_def resolveApiKey_def nonempty_def first_text_def
        getprop_def nullish_def js_or_def)
  have s: "\<not> is_sentinel ''Implemented login''"
    by (simp add: is_sentinel_def trim_def is_space_def)
  have cap: "capture DevLogger ?rt ?e ?p ?fs = (?fsa, Some ''Implemented login'')"
    by (simp add: capture_def g x m s)
  have md: "getMemoryDir DevLogger ?e ?fsa ''/proj'' = ''/home/u/.nlc/projects/-proj''"
    by (simp add: getMemoryDir_def home_dir_def nonempty_def cwdToProjectKey_def lower_first_def
        memory_candidates_def memory_default_def path_join_def existsSync_def setCursor_def
        Let_def ensure_dir_def getCursorPath_def cursor_name_def)
  have main1: "main_dev_logger ?rt ?e ?ck (Some ?p) ?fs
      = write_dev_log ?fsa ''/home/u/.nlc/projects/-proj'' ?ck ''Implemented login''"
    by (simp add: main_dev_logger_def cap md)
  have f: "files (main_dev_logger ?rt ?e ?ck (Some ?p) ?fs) ''/t.jsonl'' = Some ?c"
    unfolding main1 by (simp add: files_write_dev_log_other path_join_def)
  have h: "map_option (\<lambda>bytes. nonblank_lines (utf8_decode bytes))
        (files (main_dev_logger ?rt ?e ?ck (Some ?p) ?fs) (transcript_path ?p))
      = map_option (\<lambda>bytes. nonblank_lines (utf8_decode bytes)) (files ?fs (transcript_path ?p))"
    using f by simp
  note r = second_run_changes_nothing[where rt = ?rt and e = ?e and c = ?ck and p = ?p and fs = ?fs
      and rt' = \<open>\<lparr>JSON_parse = (\<lambda>l. if l = ''{"type":"user","message":{"content":"fix it"}}'' then Some (JObj [(''type'', JStr ''user''), (''message'', JObj [(''content'', JStr ''fix it'')])])
            else if l = ''{"type":"assistant","message":{"content":[{"type":"tool_use","name":"Bash","input":{"command":"ls"}}]}}''
            then Some (JObj [(''type'', JStr ''assistant''),
                   (''message'', JObj [(''content'', JArr [JObj [(''type'', JStr ''tool_use''),
                      (''name'', JStr ''Bash''), (''input'', JObj [(''command'', JStr ''ls'')])]])])])
            else None),
        fetch = (\<lambda>r. Response True (Some (JObj [(''content'',
                   JArr [JObj [(''type'', JStr ''text''), (''text'', JStr ''Added tests'')]])])))\<rparr>\<close> and e' = ?e and c' = "\<lparr>dateStr = ''2025-01-02'', timeStr = ''10:31''\<rparr>", OF h]
  from r f show ?thesis by simp
qed

section \<open>A transcript line that is not JSON\<close>

lemma run_hook_cursor_docs:
  "cursor_docs (run_hook h rt e c (Some p) fs) = cursor_docs (fst (capture h rt e p fs))"
  by (cases h) (simp_all add: run_hook_def main_dev_logger_cursor_docs main_context_keeper_cursor_docs)

lemma getCursor_run_hook:
  assumes "transcript_path p \<noteq> []" and "cwd p \<noteq> []" and "session_id p \<noteq> []"
      and "files fs (transcript_path p) = Some content"
  shows "getCursor h (run_hook h rt e c (Some p) fs) (cwd p) (session_id p)
           = length (nonblank_lines (utf8_decode content))"
proof -
  have "getCursor h (run_hook h rt e c (Some p) fs) (cwd p) (session_id p)
      = getCursor h (fst (capture h rt e p fs)) (cwd p) (session_id p)"
    by (simp add: getCursor_docs run_hook_cursor_docs)
  also have "\<dots> = length (nonblank_lines (utf8_decode content))"
    using assms by (simp add: capture_after_read getCursor_setCursor)
  finally show ?thesis .
qed

lemma later_runs_snoc:
  "later_runs h p (steps @ [(content, rt, e, c)]) fs
     = run_hook h rt e c (Some p)
         ((later_runs h p steps fs)\<lparr>files := (files (later_runs h p steps fs))(transcript_path p \<mapsto> content)\<rparr>)"
  by (simp add: later_runs_def)

lemma getCursor_later_runs:
  assumes "transcript_path p \<noteq> []" and "cwd p \<noteq> []" and "session_id p \<noteq> []"
  shows "getCursor h (later_runs h p steps fs) (cwd p) (session_id p)
           = (if steps = [] then getCursor h fs (cwd p) (session_id p)
              else length (nonblank_lines (utf8_decode (fst (last steps)))))"
proof (cases steps rule: rev_cases)
  case Nil
  then show ?thesis by (simp add: later_runs_def)
next
  case (snoc before s)
  obtain content rt e c where s: "s = (content, rt, e, c)" by (cases s)
  let ?fs = "(later_runs h p before fs)\<lparr>files := (files (later_runs h p before fs))(transcript_path p \<mapsto> content)\<rparr>"
  have "files ?fs (transcript_path p) = Some content" by simp
  from getCursor_run_hook[OF assms this, of h rt e c] show ?thesis
    by (simp add: snoc s later_runs_snoc)
qed

lemma append_only_prefix: "append_only ls xs \<Longrightarrow> prefix ls (last (ls # xs))"
proof (induction xs arbitrary: ls)
  case Nil
  then show ?case by simp
next
  case (Cons l xs)
  then have "prefix ls l" and "prefix l (last (l # xs))" by simp_all
  then have "prefix ls (last (l # xs))" by (rule prefix_order.trans)
  then show ?case by simp
qed

text \<open>
  Claim C10. The transcript is read as the non-blank lines \<open>pre\<close>, a line \<open>bad\<close> that
  \<open>JSON.parse\<close> rejects, and \<open>post\<close>, and the stored cursor of the session is not beyond
  \<open>pre\<close>, so that \<open>bad\<close> is among the new lines of the run. The line adds nothing to the
  exchange the run extracts, which is the exchange of the other new lines, and it is
  counted: the cursor that the run stores is past it, at the count of all the lines.
  After that run of the hook, and after any number of further runs, each on a transcript
  that has only grown, the next run finds the stored cursor at the number of lines
  \<open>prev\<close> that the transcript had at the run before it. These lines begin with
  \<open>pre\<close>, \<open>bad\<close> and \<open>post\<close>; the run extracts the exchange of the lines \<open>added\<close> since
  alone, whatever its \<open>JSON.parse\<close> would make of \<open>bad\<close>, and stores the new count.
\<close>

theorem malformed_line_consumed:
  assumes "transcript_path p \<noteq> []" and "cwd p \<noteq> []" and "session_id p \<noteq> []"
      and "files fs (transcript_path p) = Some content"
      and "nonblank_lines (utf8_decode content) = pre @ bad # post"
      and "JSON_parse rt bad = None"
      and "getCursor h fs (cwd p) (session_id p) = k" and "k \<le> length pre"
      and "fs1 = run_hook h rt e c (Some p) fs"
      and "append_only (pre @ bad # post)
             (map (\<lambda>s. nonblank_lines (utf8_decode (fst s))) steps)"
      and "prev = last ((pre @ bad # post) # map (\<lambda>s. nonblank_lines (utf8_decode (fst s))) steps)"
      and "nonblank_lines (utf8_decode content') = prev @ added"
      and "fs2 = (later_runs h p steps fs1)
                   \<lparr>files := (files (later_runs h p steps fs1))(transcript_path p \<mapsto> content')\<rparr>"
  shows "getLatestExchange h (JSON_parse rt) fs (transcript_path p)
             (getCursor h fs (cwd p) (session_id p)) =
           Inr (Some \<lparr>text = join nl (fst (extract_lines h (JSON_parse rt) (drop k pre @ post))),
                      hasToolUse = snd (extract_lines h (JSON_parse rt) (drop k pre @ post)),
                      totalLines = Suc (length pre + length post)\<rparr>)
         \<and> getCursor h fs1 (cwd p) (session_id p) = Suc (length pre + length post)
         \<and> prefix (pre @ bad # post) prev
         \<and> getCursor h fs2 (cwd p) (session_id p) = length prev
         \<and> getLatestExchange h (JSON_parse rt') fs2 (transcript_path p)
             (getCursor h fs2 (cwd p) (session_id p)) =
           Inr (Some \<lparr>text = join nl (fst (extract_lines h (JSON_parse rt') added)),
                      hasToolUse = snd (extract_lines h (JSON_parse rt') added),
                      totalLines = length prev + length added\<rparr>)
         \<and> getCursor h (run_hook h rt' e' c' (Some p) fs2) (cwd p) (session_id p)
             = length prev + length added"
proof -
  let ?lines = "nonblank_lines (utf8_decode content)"
  let ?later = "later_runs h p steps fs1"
  have len: "length ?lines = Suc (length pre + length post)"
    using assms(5) by simp
  have "drop k ?lines = drop k pre @ bad # post"
    using assms(5,8) by simp
  then have first: "extract_lines h (JSON_parse rt) (drop k ?lines)
      = extract_lines h (JSON_parse rt) (drop k pre @ post)"
    using assms(6) by (simp add: extract_lines_skip)
  have a: "getLatestExchange h (JSON_parse rt) fs (transcript_path p)
             (getCursor h fs (cwd p) (session_id p)) =
           Inr (Some \<lparr>text = join nl (fst (extract_lines h (JSON_parse rt) (drop k pre @ post))),
                      hasToolUse = snd (extract_lines h (JSON_parse rt) (drop k pre @ post)),
                      totalLines = Suc (length pre + length post)\<rparr>)"
    using assms(4,7) first len by (simp add: getLatestExchange_file)
  have b: "getCursor h fs1 (cwd p) (session_id p) = Suc (length pre + length post)"
    using getCursor_run_hook[OF assms(1-4), of h rt e c] len by (simp add: assms(9))
  have pf: "prefix (pre @ bad # post) prev"
    unfolding assms(11) using assms(10) by (rule append_only_prefix)
  have "getCursor h ?later (cwd p) (session_id p) = length prev"
  proof (cases "steps = []")
    case True
    with b assms(11) show ?thesis by (simp add: later_runs_def)
  next
    case False
    then have "prev = nonblank_lines (utf8_decode (fst (last steps)))"
      by (simp add: assms(11) last_map)
    with False getCursor_later_runs[OF assms(1-3), of h steps fs1] show ?thesis by simp
  qed
  moreover have "cursor_docs fs2 = cursor_docs ?later" by (simp add: assms(13))
  ultimately have g2: "getCursor h fs2 (cwd p) (session_id p) = length prev"
    by (simp add: getCursor_docs)
  have f2: "files fs2 (transcript_path p) = Some content'"
    by (simp add: assms(13))
  have c: "getLatestExchange h (JSON_parse rt') fs2 (transcript_path p)
             (getCursor h fs2 (cwd p) (session_id p)) =
           Inr (Some \<lparr>text = join nl (fst (extract_lines h (JSON_parse rt') added)),
                      hasToolUse = snd (extract_lines h (JSON_parse rt') added),
                      totalLines = length prev + length added\<rparr>)"
    using f2 g2 assms(12) by (simp add: getLatestExchange_file)
  have d: "getCursor h (run_hook h rt' e' c' (Some p) fs2) (cwd p) (session_id p)
      = length prev + length added"
    using getCursor_run_hook[OF assms(1-3) f2, of h rt' e' c'] assms(12) by simp
  from a b pf g2 c d show ?thesis by simp
qed

theorem malformed_line_consumed_witness:
  \<open>getLatestExchange DevLogger (\<lambda>l. if l = ''{"type":"user","message":{"content":"fix it"}}'' then Some (JObj [(''type'', JStr ''user''), (''message'', JObj [(''content'', JStr ''fix it'')])])
            else if l = ''{"type":"assistant","message":{"content":[{"type":"tool_use","name":"Bash","input":{"command":"ls"}}]}}''
            then Some (JObj [(''type'', JStr ''assistant''),
                   (''message'', JObj [(''content'', JArr [JObj [(''type'', JStr ''tool_use''),
                      (''name'', JStr ''Bash''), (''input'', JObj [(''command'', JStr ''ls'')])]])])])
            else if l = ''{"type":"user","message":{"content":"again"}}'' then Some (JObj [(''type'', JStr ''user''), (''message'', JObj [(''content'', JStr ''again'')])])
            else None) \<lparr>files = [''/t.jsonl'' \<mapsto> ''{"type":"user","message":{"content":"fix it"}}\<newline>{not json\<newline>\<newline>{"type":"assistant","message":{"content":[{"type":"tool_use","name":"Bash","input":{"command":"ls"}}]}}\<newline>''], dirs = {}, cursor_docs = Map.empty\<rparr> ''/t.jsonl'' (getCursor DevLogger \<lparr>files = [''/t.jsonl'' \<mapsto> ''{"type":"user","message":{"content":"fix it"}}\<newline>{not json\<newline>\<newline>{"type":"assistant","message":{"content":[{"type":"tool_use","name":"Bash","input":{"command":"ls"}}]}}\<newline>''], dirs = {}, cursor_docs = Map.empty\<rparr> ''/proj'' ''s1'')
     = Inr (Some \<lparr>text = ''USER: fix it\<newline>[Bash: ls]'', hasToolUse = True, totalLines = 3\<rparr>)
   \<and> getCursor DevLogger (run_hook DevLogger \<lparr>JSON_parse = (\<lambda>l. if l = ''{"type":"user","message":{"content":"fix it"}}'' then Some (JObj [(''type'', JStr ''user''), (''message'', JObj [(''content'', JStr ''fix it'')])])
            else if l = ''{"type":"assistant","message":{"content":[{"type":"tool_use","name":"Bash","input":{"command":"ls"}}]}}''
            then Some (JObj [(''type'', JStr ''assistant''),
                   (''message'', JObj [(''content'', JArr [JObj [(''type'', JStr ''tool_use''),
                      (''name'', JStr ''Bash''), (''input'', JObj [(''command'', JStr ''ls'')])]])])])
            else if l = ''{"type":"user","message":{"content":"again"}}'' then Some (JObj [(''type'', JStr ''user''), (''message'', JObj [(''content'', JStr ''again'')])])
            else None), fetch = (\<lambda>r. Rejected)\<rparr> \<lparr>ANTHROPIC_API_KEY = Some ''sk-1'', USERPROFILE = None, HOME = Some ''/home/u''\<rparr> \<lparr>dateStr = ''2025-01-02'', timeStr = ''10:30''\<rparr> (Some \<lparr>session_id = ''s1'', transcript_path = ''/t.jsonl'', cwd = ''/proj''\<rparr>) \<lparr>files = [''/t.jsonl'' \<mapsto> ''{"type":"user","message":{"content":"fix it"}}\<newline>{not json\<newline>\<newline>{"type":"assistant","message":{"content":[{"type":"tool_use","name":"Bash","input":{"command":"ls"}}]}}\<newline>''], dirs = {}, cursor_docs = Map.empty\<rparr>) ''/proj'' ''s1'' = 3
   \<and> getCursor DevLogger ((later_runs DevLogger \<lparr>session_id = ''s1'', transcript_path = ''/t.jsonl'', cwd = ''/proj''\<rparr> [(''{"type":"user","message":{"content":"fix it"}}\<newline>{not json\<newline>\<newline>{"type":"assistant","message":{"content":[{"type":"tool_use","name":"Bash","input":{"command":"ls"}}]}}\<newline>{"type":"user","message":{"content":"again"}}\<newline>'', \<lparr>JSON_parse = (\<lambda>l. if l = ''{"type":"user","message":{"content":"fix it"}}'' then Some (JObj [(''type'', JStr ''user''), (''message'', JObj [(''content'', JStr ''fix it'')])])
            else if l = ''{"type":"assistant","message":{"content":[{"type":"tool_use","name":"Bash","input":{"command":"ls"}}]}}''
            then Some (JObj [(''type'', JStr ''assistant''),
                   (''message'', JObj [(''content'', JArr [JObj [(''type'', JStr ''tool_use''),
                      (''name'', JStr ''Bash''), (''input'', JObj [(''command'', JStr ''ls'')])]])])])
            else if l = ''{"type":"user","message":{"content":"again"}}'' then Some (JObj [(''type'', JStr ''user''), (''message'', JObj [(''content'', JStr ''again'')])])
            else None), fetch = (\<lambda>r. Rejected)\<rparr>, \<lparr>ANTHROPIC_API_KEY = Some ''sk-1'', USERPROFILE = None, HOME = Some ''/home/u''\<rparr>, \<lparr>dateStr = ''2025-01-02'', timeStr = ''10:30''\<rparr>)] (run_hook DevLogger \<lparr>JSON_parse = (\<lambda>l. if l = ''{"type":"user","message":{"content":"fix it"}}'' then Some (JObj [(''type'', JStr ''user''), (''message'', JObj [(''content'', JStr ''fix it'')])])
            else if l = ''{"type":"assistant","message":{"content":[{"type":"tool_use","name":"Bash","input":{"command":"ls"}}]}}''
            then Some (JObj [(''type'', JStr ''assistant''),
                   (''message'', JObj [(''content'', JArr [JObj [(''type'', JStr ''tool_use''),
                      (''name'', JStr ''Bash''), (''input'', JObj [(''command'', JStr ''ls'')])]])])])
            else if l = ''{"type":"user","message":{"content":"again"}}'' then Some (JObj [(''type'', JStr ''user''), (''message'', JObj [(''content'', JStr ''again'')])])
            else None), fetch = (\<lambda>r. Rejected)\<rparr> \<lparr>ANTHROPIC_API_KEY = Some ''sk-1'', USERPROFILE = None, HOME = Some ''/home/u''\<rparr> \<lparr>dateStr = ''2025-01-02'', timeStr = ''10:30''\<rparr> (Some \<lparr>session_id = ''s1'', transcript_path = ''/t.jsonl'', cwd = ''/proj''\<rparr>) \<lparr>files = [''/t.jsonl'' \<mapsto> ''{"type":"user","message":{"content":"fix it"}}\<newline>{not json\<newline>\<newline>{"type":"assistant","message":{"content":[{"type":"tool_use","name":"Bash","input":{"command":"ls"}}]}}\<newline>''], dirs = {}, cursor_docs = Map.empty\<rparr>))\<lparr>files := (files (later_runs DevLogger \<lparr>session_id = ''s1'', transcript_path = ''/t.jsonl'', cwd = ''/proj''\<rparr> [(''{"type":"user","message":{"content":"fix it"}}\<newline>{not json\<newline>\<newline>{"type":"assistant","message":{"content":[{"type":"tool_use","name":"Bash","input":{"command":"ls"}}]}}\<newline>{"type":"user","message":{"content":"again"}}\<newline>'', \<lparr>JSON_parse = (\<lambda>l. if l = ''{"type":"user","message":{"content":"fix it"}}'' then Some (JObj [(''type'', JStr ''user''), (''message'', JObj [(''content'', JStr ''fix it'')])])
            else if l = ''{"type":"assistant","message":{"content":[{"type":"tool_use","name":"Bash","input":{"command":"ls"}}]}}''
            then Some (JObj [(''type'', JStr ''assistant''),
                   (''message'', JObj [(''content'', JArr [JObj [(''type'', JStr ''tool_use''),
                      (''name'', JStr ''Bash''), (''input'', JObj [(''command'', JStr ''ls'')])]])])])
            else if l = ''{"type":"user","message":{"content":"again"}}'' then Some (JObj [(''type'', JStr ''user''), (''message'', JObj [(''content'', JStr ''again'')])])
            else None), fetch = (\<lambda>r. Rejected)\<rparr>, \<lparr>ANTHROPIC_API_KEY = Some ''sk-1'', USERPROFILE = None, HOME = Some ''/home/u''\<rparr>, \<lparr>dateStr = ''2025-01-02'', timeStr = ''10:30''\<rparr>)] (run_hook DevLogger \<lparr>JSON_parse = (\<lambda>l. if l = ''{"type":"user","message":{"content":"fix it"}}'' then Some (JObj [(''type'', JStr ''user''), (''message'', JObj [(''content'', JStr ''fix it'')])])
            else if l = ''{"type":"assistant","message":{"content":[{"type":"tool_use","name":"Bash","input":{"command":"ls"}}]}}''
            then Some (JObj [(''type'', JStr ''assistant''),
                   (''message'', JObj [(''content'', JArr [JObj [(''type'', JStr ''tool_use''),
                      (''name'', JStr ''Bash''), (''input'', JObj [(''command'', JStr ''ls'')])]])])])
            else if l = ''{"type":"user","message":{"content":"again"}}'' then Some (JObj [(''type'', JStr ''user''), (''message'', JObj [(''content'', JStr ''again'')])])
            else None), fetch = (\<lambda>r. Rejected)\<rparr> \<lparr>ANTHROPIC_API_KEY = Some ''sk-1'', USERPROFILE = None, HOME = Some ''/home/u''\<rparr> \<lparr>dateStr = ''2025-01-02'', timeStr = ''10:30''\<rparr> (Some \<lparr>session_id = ''s1'', transcript_path = ''/t.jsonl'', cwd = ''/proj''\<rparr>) \<lparr>files = [''/t.jsonl'' \<mapsto> ''{"type":"user","message":{"content":"fix it"}}\<newline>{not json\<newline>\<newline>{"type":"assistant","message":{"content":[{"type":"tool_use","name":"Bash","input":{"command":"ls"}}]}}\<newline>''], dirs = {}, cursor_docs = Map.empty\<rparr>)))(''/t.jsonl'' \<mapsto> ''{"type":"user","message":{"content":"fix it"}}\<newline>{not json\<newline>\<newline>{"type":"assistant","message":{"content":[{"type":"tool_use","name":"Bash","input":{"command":"ls"}}]}}\<newline>{"type":"user","message":{"content":"again"}}\<newline>{"type":"assistant","message":{"content":[{"type":"tool_use","name":"Bash","input":{"command":"ls"}}]}}\<newline>'')\<rparr>) ''/proj'' ''s1'' = 4
   \<and> getLatestExchange DevLogger (\<lambda>l. if l = ''{"type":"user","message":{"content":"fix it"}}'' then Some (JObj [(''type'', JStr ''user''), (''message'', JObj [(''content'', JStr ''fix it'')])])
            else if l = ''{"type":"assistant","message":{"content":[{"type":"tool_use","name":"Bash","input":{"command":"ls"}}]}}''
            then Some (JObj [(''type'', JStr ''assistant''),
                   (''message'', JObj [(''content'', JArr [JObj [(''type'', JStr ''tool_use''),
                      (''name'', JStr ''Bash''), (''input'', JObj [(''command'', JStr ''ls'')])]])])])
            else if l = ''{"type":"user","message":{"content":"again"}}'' then Some (JObj [(''type'', JStr ''user''), (''message'', JObj [(''content'', JStr ''again'')])])
            else None) ((later_runs DevLogger \<lparr>session_id = ''s1'', transcript_path = ''/t.jsonl'', cwd = ''/proj''\<rparr> [(''{"type":"user","message":{"content":"fix it"}}\<newline>{not json\<newline>\<newline>{"type":"assistant","message":{"content":[{"type":"tool_use","name":"Bash","input":{"command":"ls"}}]}}\<newline>{"type":"user","message":{"content":"again"}}\<newline>'', \<lparr>JSON_parse = (\<lambda>l. if l = ''{"type":"user","message":{"content":"fix it"}}'' then Some (JObj [(''type'', JStr ''user''), (''message'', JObj [(''content'', JStr ''fix it'')])])
            else if l = ''{"type":"assistant","message":{"content":[{"type":"tool_use","name":"Bash","input":{"command":"ls"}}]}}''
            then Some (JObj [(''type'', JStr ''assistant''),
                   (''message'', JObj [(''content'', JArr [JObj [(''type'', JStr ''tool_use''),
                      (''name'', JStr ''Bash''), (''input'', JObj [(''command'', JStr ''ls'')])]])])])
            else if l = ''{"type":"user","message":{"content":"again"}}'' then Some (JObj [(''type'', JStr ''user''), (''message'', JObj [(''content'', JStr ''again'')])])
            else None), fetch = (\<lambda>r. Rejected)\<rparr>, \<lparr>ANTHROPIC_API_KEY = Some ''sk-1'', USERPROFILE = None, HOME = Some ''/home/u''\<rparr>, \<lparr>dateStr = ''2025-01-02'', timeStr = ''10:30''\<rparr>)] (run_hook DevLogger \<lparr>JSON_parse = (\<lambda>l. if l = ''{"type":"user","message":{"content":"fix it"}}'' then Some (JObj [(''type'', JStr ''user''), (''message'', JObj [(''content'', JStr ''fix it'')])])
            else if l = ''{"type":"assistant","message":{"content":[{"type":"tool_use","name":"Bash","input":{"command":"ls"}}]}}''
            then Some (JObj [(''type'', JStr ''assistant''),
                   (''message'', JObj [(''content'', JArr [JObj [(''type'', JStr ''tool_use''),
                      (''name'', JStr ''Bash''), (''input'', JObj [(''command'', JStr ''ls'')])]])])])
            else if l = ''{"type":"user","message":{"content":"again"}}'' then Some (JObj [(''type'', JStr ''user''), (''message'', JObj [(''content'', JStr ''again'')])])
            else None), fetch = (\<lambda>r. Rejected)\<rparr> \<lparr>ANTHROPIC_API_KEY = Some ''sk-1'', USERPROFILE = None, HOME = Some ''/home/u''\<rparr> \<lparr>dateStr = ''2025-01-02'', timeStr = ''10:30''\<rparr> (Some \<lparr>session_id = ''s1'', transcript_path = ''/t.jsonl'', cwd = ''/proj''\<rparr>) \<lparr>files = [''/t.jsonl'' \<mapsto> ''{"type":"user","message":{"content":"fix it"}}\<newline>{not json\<newline>\<newline>{"type":"assistant","message":{"content":[{"type":"tool_use","name":"Bash","input":{"command":"ls"}}]}}\<newline>''], dirs = {}, cursor_docs = Map.empty\<rparr>))\<lparr>files := (files (later_runs DevLogger \<lparr>session_id = ''s1'', transcript_path = ''/t.jsonl'', cwd = ''/proj''\<rparr> [(''{"type":"user","message":{"content":"fix it"}}\<newline>{not json\<newline>\<newline>{"type":"assistant","message":{"content":[{"type":"tool_use","name":"Bash","input":{"command":"ls"}}]}}\<newline>{"type":"user","message":{"content":"again"}}\<newline>'', \<lparr>JSON_parse = (\<lambda>l. if l = ''{"type":"user","message":{"content":"fix it"}}'' then Some (JObj [(''type'', JStr ''user''), (''message'', JObj [(''content'', JStr ''fix it'')])])
            else if l = ''{"type":"assistant","message":{"content":[{"type":"tool_use","name":"Bash","input":{"command":"ls"}}]}}''
            then Some (JObj [(''type'', JStr ''assistant''),
                   (''message'', JObj [(''content'', JArr [JObj [(''type'', JStr ''tool_use''),
                      (''name'', JStr ''Bash''), (''input'', JObj [(''command'', JStr ''ls'')])]])])])
            else if l = ''{"type":"user","message":{"content":"again"}}'' then Some (JObj [(''type'', JStr ''user''), (''message'', JObj [(''content'', JStr ''again'')])])
            else None), fetch = (\<lambda>r. Rejected)\<rparr>, \<lparr>ANTHROPIC_API_KEY = Some ''sk-1'', USERPROFILE = None, HOME = Some ''/home/u''\<rparr>, \<lparr>dateStr = ''2025-01-02'', timeStr = ''10:30''\<rparr>)] (run_hook DevLogger \<lparr>JSON_parse = (\<lambda>l. if l = ''{"type":"user","message":{"content":"fix it"}}'' then Some (JObj [(''type'', JStr ''user''), (''message'', JObj [(''content'', JStr ''fix it'')])])
            else if l = ''{"type":"assistant","message":{"content":[{"type":"tool_use","name":"Bash","input":{"command":"ls"}}]}}''
            then Some (JObj [(''type'', JStr ''assistant''),
                   (''message'', JObj [(''content'', JArr [JObj [(''type'', JStr ''tool_use''),
                      (''name'', JStr ''Bash''), (''input'', JObj [(''command'', JStr ''ls'')])]])])])
            else if l = ''{"type":"user","message":{"content":"again"}}'' then Some (JObj [(''type'', JStr ''user''), (''message'', JObj [(''content'', JStr ''again'')])])
            else None), fetch = (\<lambda>r. Rejected)\<rparr> \<lparr>ANTHROPIC_API_KEY = Some ''sk-1'', USERPROFILE = None, HOME = Some ''/home/u''\<rparr> \<lparr>dateStr = ''2025-01-02'', timeStr = ''10:30''\<rparr> (Some \<lparr>session_id = ''s1'', transcript_path = ''/t.jsonl'', cwd = ''/proj''\<rparr>) \<lparr>files = [''/t.jsonl'' \<mapsto> ''{"type":"user","message":{"content":"fix it"}}\<newline>{not json\<newline>\<newline>{"type":"assistant","message":{"content":[{"type":"tool_use","name":"Bash","input":{"command":"ls"}}]}}\<newline>''], dirs = {}, cursor_docs = Map.empty\<rparr>)))(''/t.jsonl'' \<mapsto> ''{"type":"user","message":{"content":"fix it"}}\<newline>{not json\<newline>\<newline>{"type":"assistant","message":{"content":[{"type":"tool_use","name":"Bash","input":{"command":"ls"}}]}}\<newline>{"type":"user","message":{"content":"again"}}\<newline>{"type":"assistant","message":{"content":[{"type":"tool_use","name":"Bash","input":{"command":"ls"}}]}}\<newline>'')\<rparr>) ''/t.jsonl'' (getCursor DevLogger ((later_runs DevLogger \<lparr>session_id = ''s1'', transcript_path = ''/t.jsonl'', cwd = ''/proj''\<rparr> [(''{"type":"user","message":{"content":"fix it"}}\<newline>{not json\<newline>\<newline>{"type":"assistant","message":{"content":[{"type":"tool_use","name":"Bash","input":{"command":"ls"}}]}}\<newline>{"type":"user","message":{"content":"again"}}\<newline>'', \<lparr>JSON_parse = (\<lambda>l. if l = ''{"type":"user","message":{"content":"fix it"}}'' then Some (JObj [(''type'', JStr ''user''), (''message'', JObj [(''content'', JStr ''fix it'')])])
            else if l = ''{"type":"assistant","message":{"content":[{"type":"tool_use","name":"Bash","input":{"command":"ls"}}]}}''
            then Some (JObj [(''type'', JStr ''assistant''),
                   (''message'', JObj [(''content'', JArr [JObj [(''type'', JStr ''tool_use''),
                      (''name'', JStr ''Bash''), (''input'', JObj [(''command'', JStr ''ls'')])]])])])
            else if l = ''{"type":"user","message":{"content":"again"}}'' then Some (JObj [(''type'', JStr ''user''), (''message'', JObj [(''content'', JStr ''again'')])])
            else None), fetch = (\<lambda>r. Rejected)\<rparr>, \<lparr>ANTHROPIC_API_KEY = Some ''sk-1'', USERPROFILE = None, HOME = Some ''/home/u''\<rparr>, \<lparr>dateStr = ''2025-01-02'', timeStr = ''10:30''\<rparr>)] (run_hook DevLogger \<lparr>JSON_parse = (\<lambda>l. if l = ''{"type":"user","message":{"content":"fix it"}}'' then Some (JObj [(''type'', JStr ''user''), (''message'', JObj [(''content'', JStr ''fix it'')])])
            else if l = ''{"type":"assistant","message":{"content":[{"type":"tool_use","name":"Bash","input":{"command":"ls"}}]}}''
            then Some (JObj [(''type'', JStr ''assistant''),
                   (''message'', JObj [(''content'', JArr [JObj [(''type'', JStr ''tool_use''),
                      (''name'', JStr ''Bash''), (''input'', JObj [(''command'', JStr ''ls'')])]])])])
            else if l = ''{"type":"user","message":{"content":"again"}}'' then Some (JObj [(''type'', JStr ''user''), (''message'', JObj [(''content'', JStr ''again'')])])
            else None), fetch = (\<lambda>r. Rejected)\<rparr> \<lparr>ANTHROPIC_API_KEY = Some ''sk-1'', USERPROFILE = None, HOME = Some ''/home/u''\<rparr> \<lparr>dateStr = ''2025-01-02'', timeStr = ''10:30''\<rparr> (Some \<lparr>session_id = ''s1'', transcript_path = ''/t.jsonl'', cwd = ''/proj''\<rparr>) \<lparr>files = [''/t.jsonl'' \<mapsto> ''{"type":"user","message":{"content":"fix it"}}\<newline>{not json\<newline>\<newline>{"type":"assistant","message":{"content":[{"type":"tool_use","name":"Bash","input":{"command":"ls"}}]}}\<newline>''], dirs = {}, cursor_docs = Map.empty\<rparr>))\<lparr>files := (files (later_runs DevLogger \<lparr>session_id = ''s1'', transcript_path = ''/t.jsonl'', cwd = ''/proj''\<rparr> [(''{"type":"user","message":{"content":"fix it"}}\<newline>{not json\<newline>\<newline>{"type":"assistant","message":{"content":[{"type":"tool_use","name":"Bash","input":{"command":"ls"}}]}}\<newline>{"type":"user","message":{"content":"again"}}\<newline>'', \<lparr>JSON_parse = (\<lambda>l. if l = ''{"type":"user","message":{"content":"fix it"}}'' then Some (JObj [(''type'', JStr ''user''), (''message'', JObj [(''content'', JStr ''fix it'')])])
            else if l = ''{"type":"assistant","message":{"content":[{"type":"tool_use","name":"Bash","input":{"command":"ls"}}]}}''
            then Some (JObj [(''type'', JStr ''assistant''),
                   (''message'', JObj [(''content'', JArr [JObj [(''type'', JStr ''tool_use''),
                      (''name'', JStr ''Bash''), (''input'', JObj [(''command'', JStr ''ls'')])]])])])
            else if l = ''{"type":"user","message":{"content":"again"}}'' then Some (JObj [(''type'', JStr ''user''), (''message'', JObj [(''content'', JStr ''again'')])])
            else None), fetch = (\<lambda>r. Rejected)\<rparr>, \<lparr>ANTHROPIC_API_KEY = Some ''sk-1'', USERPROFILE = None, HOME = Some ''/home/u''\<rparr>, \<lparr>dateStr = ''2025-01-02'', timeStr = ''10:30''\<rparr>)] (run_hook DevLogger \<lparr>JSON_parse = (\<lambda>l. if l = ''{"type":"user","message":{"content":"fix it"}}'' then Some (JObj [(''type'', JStr ''user''), (''message'', JObj [(''content'', JStr ''fix it'')])])
            else if l = ''{"type":"assistant","message":{"content":[{"type":"tool_use","name":"Bash","input":{"command":"ls"}}]}}''
            then Some (JObj [(''type'', JStr ''assistant''),
                   (''message'', JObj [(''content'', JArr [JObj [(''type'', JStr ''tool_use''),
                      (''name'', JStr ''Bash''), (''input'', JObj [(''command'', JStr ''ls'')])]])])])
            else if l = ''{"type":"user","message":{"content":"again"}}'' then Some (JObj [(''type'', JStr ''user''), (''message'', JObj [(''content'', JStr ''again'')])])
            else None), fetch = (\<lambda>r. Rejected)\<rparr> \<lparr>ANTHROPIC_API_KEY = Some ''sk-1'', USERPROFILE = None, HOME = Some ''/home/u''\<rparr> \<lparr>dateStr = ''2025-01-02'', timeStr = ''10:30''\<rparr> (Some \<lparr>session_id = ''s1'', transcript_path = ''/t.jsonl'', cwd = ''/proj''\<rparr>) \<lparr>files = [''/t.jsonl'' \<mapsto> ''{"type":"user","message":{"content":"fix it"}}\<newline>{not json\<newline>\<newline>{"type":"assistant","message":{"content":[{"type":"tool_use","name":"Bash","input":{"command":"ls"}}]}}\<newline>''], dirs = {}, cursor_docs = Map.empty\<rparr>)))(''/t.jsonl'' \<mapsto> ''{"type":"user","message":{"content":"fix it"}}\<newline>{not json\<newline>\<newline>{"type":"assistant","message":{"content":[{"type":"tool_use","name":"Bash","input":{"command":"ls"}}]}}\<newline>{"type":"user","message":{"content":"again"}}\<newline>{"type":"assistant","message":{"content":[{"type":"tool_use","name":"Bash","input":{"command":"ls"}}]}}\<newline>'')\<rparr>) ''/proj'' ''s1'')
     = Inr (Some \<lparr>text = ''[Bash: ls]'', hasToolUse = True, totalLines = 5\<rparr>)
   \<and> getCursor DevLogger (run_hook DevLogger \<lparr>JSON_parse = (\<lambda>l. if l = ''{"type":"user","message":{"content":"fix it"}}'' then Some (JObj [(''type'', JStr ''user''), (''message'', JObj [(''content'', JStr ''fix it'')])])
            else if l = ''{"type":"assistant","message":{"content":[{"type":"tool_use","name":"Bash","input":{"command":"ls"}}]}}''
            then Some (JObj [(''type'', JStr ''assistant''),
                   (''message'', JObj [(''content'', JArr [JObj [(''type'', JStr ''tool_use''),
                      (''name'', JStr ''Bash''), (''input'', JObj [(''command'', JStr ''ls'')])]])])])
            else if l = ''{"type":"user","message":{"content":"again"}}'' then Some (JObj [(''type'', JStr ''user''), (''message'', JObj [(''content'', JStr ''again'')])])
            else None), fetch = (\<lambda>r. Rejected)\<rparr> \<lparr>ANTHROPIC_API_KEY = Some ''sk-1'', USERPROFILE = None, HOME = Some ''/home/u''\<rparr> \<lparr>dateStr = ''2025-01-02'', timeStr = ''10:30''\<rparr> (Some \<lparr>session_id = ''s1'', transcript_path = ''/t.jsonl'', cwd = ''/proj''\<rparr>) ((later_runs DevLogger \<lparr>session_id = ''s1'', transcript_path = ''/t.jsonl'', cwd = ''/proj''\<rparr> [(''{"type":"user","message":{"content":"fix it"}}\<newline>{not json\<newline>\<newline>{"type":"assistant","message":{"content":[{"type":"tool_use","name":"Bash","input":{"command":"ls"}}]}}\<newline>{"type":"user","message":{"content":"again"}}\<newline>'', \<lparr>JSON_parse = (\<lambda>l. if l = ''{"type":"user","message":{"content":"fix it"}}'' then Some (JObj [(''type'', JStr ''user''), (''message'', JObj [(''content'', JStr ''fix it'')])])
            else if l = ''{"type":"assistant","message":{"content":[{"type":"tool_use","name":"Bash","input":{"command":"ls"}}]}}''
            then Some (JObj [(''type'', JStr ''assistant''),
                   (''message'', JObj [(''content'', JArr [JObj [(''type'', JStr ''tool_use''),
                      (''name'', JStr ''Bash''), (''input'', JObj [(''command'', JStr ''ls'')])]])])])
            else if l = ''{"type":"user","message":{"content":"again"}}'' then Some (JObj [(''type'', JStr ''user''), (''message'', JObj [(''content'', JStr ''again'')])])
            else None), fetch = (\<lambda>r. Rejected)\<rparr>, \<lparr>ANTHROPIC_API_KEY = Some ''sk-1'', USERPROFILE = None, HOME = Some ''/home/u''\<rparr>, \<lparr>dateStr = ''2025-01-02'', timeStr = ''10:30''\<rparr>)] (run_hook DevLogger \<lparr>JSON_parse = (\<lambda>l. if l = ''{"type":"user","message":{"content":"fix it"}}'' then Some (JObj [(''type'', JStr ''user''), (''message'', JObj [(''content'', JStr ''fix it'')])])
            else if l = ''{"type":"assistant","message":{"content":[{"type":"tool_use","name":"Bash","input":{"command":"ls"}}]}}''
            then Some (JObj [(''type'', JStr ''assistant''),
                   (''message'', JObj [(''content'', JArr [JObj [(''type'', JStr ''tool_use''),
                      (''name'', JStr ''Bash''), (''input'', JObj [(''command'', JStr ''ls'')])]])])])
            else if l = ''{"type":"user","message":{"content":"again"}}'' then Some (JObj [(''type'', JStr ''user''), (''message'', JObj [(''content'', JStr ''again'')])])
            else None), fetch = (\<lambda>r. Rejected)\<rparr> \<lparr>ANTHROPIC_API_KEY = Some ''sk-1'', USERPROFILE = None, HOME = Some ''/home/u''\<rparr> \<lparr>dateStr = ''2025-01-02'', timeStr = ''10:30''\<rparr> (Some \<lparr>session_id = ''s1'', transcript_path = ''/t.jsonl'', cwd = ''/proj''\<rparr>) \<lparr>files = [''/t.jsonl'' \<mapsto> ''{"type":"user","message":{"content":"fix it"}}\<newline>{not json\<newline>\<newline>{"type":"assistant","message":{"content":[{"type":"tool_use","name":"Bash","input":{"command":"ls"}}]}}\<newline>''], dirs = {}, cursor_docs = Map.empty\<rparr>))\<lparr>files := (files (later_runs DevLogger \<lparr>session_id = ''s1'', transcript_path = ''/t.jsonl'', cwd = ''/proj''\<rparr> [(''{"type":"user","message":{"content":"fix it"}}\<newline>{not json\<newline>\<newline>{"type":"assistant","message":{"content":[{"type":"tool_use","name":"Bash","input":{"command":"ls"}}]}}\<newline>{"type":"user","message":{"content":"again"}}\<newline>'', \<lparr>JSON_parse = (\<lambda>l. if l = ''{"type":"user","message":{"content":"fix it"}}'' then Some (JObj [(''type'', JStr ''user''), (''message'', JObj [(''content'', JStr ''fix it'')])])
            else if l = ''{"type":"assistant","message":{"content":[{"type":"tool_use","name":"Bash","input":{"command":"ls"}}]}}''
            then Some (JObj [(''type'', JStr ''assistant''),
                   (''message'', JObj [(''content'', JArr [JObj [(''type'', JStr ''tool_use''),
                      (''name'', JStr ''Bash''), (''input'', JObj [(''command'', JStr ''ls'')])]])])])
            else if l = ''{"type":"user","message":{"content":"again"}}'' then Some (JObj [(''type'', JStr ''user''), (''message'', JObj [(''content'', JStr ''again'')])])
            else None), fetch = (\<lambda>r. Rejected)\<rparr>, \<lparr>ANTHROPIC_API_KEY = Some ''sk-1'', USERPROFILE = None, HOME = Some ''/home/u''\<rparr>, \<lparr>dateStr = ''2025-01-02'', timeStr = ''10:30''\<rparr>)] (run_hook DevLogger \<lparr>JSON_parse = (\<lambda>l. if l = ''{"type":"user","message":{"content":"fix it"}}'' then Some (JObj [(''type'', JStr ''user''), (''message'', JObj [(''content'', JStr ''fix it'')])])
            else if l = ''{"type":"assistant","message":{"content":[{"type":"tool_use","name":"Bash","input":{"command":"ls"}}]}}''
            then Some (JObj [(''type'', JStr ''assistant''),
                   (''message'', JObj [(''content'', JArr [JObj [(''type'', JStr ''tool_use''),
                      (''name'', JStr ''Bash''), (''input'', JObj [(''command'', JStr ''ls'')])]])])])
            else if l = ''{"type":"user","message":{"content":"again"}}'' then Some (JObj [(''type'', JStr ''user''), (''message'', JObj [(''content'', JStr ''again'')])])
            else None), fetch = (\<lambda>r. Rejected)\<rparr> \<lparr>ANTHROPIC_API_KEY = Some ''sk-1'', USERPROFILE = None, HOME = Some ''/home/u''\<rparr> \<lparr>dateStr = ''2025-01-02'', timeStr = ''10:30''\<rparr> (Some \<lparr>session_id = ''s1'', transcript_path = ''/t.jsonl'', cwd = ''/proj''\<rparr>) \<lparr>files = [''/t.jsonl'' \<mapsto> ''{"type":"user","message":{"content":"fix it"}}\<newline>{not json\<newline>\<newline>{"type":"assistant","message":{"content":[{"type":"tool_use","name":"Bash","input":{"command":"ls"}}]}}\<newline>''], dirs = {}, cursor_docs = Map.empty\<rparr>)))(''/t.jsonl'' \<mapsto> ''{"type":"user","message":{"content":"fix it"}}\<newline>{not json\<newline>\<newline>{"type":"assistant","message":{"content":[{"type":"tool_use","name":"Bash","input":{"command":"ls"}}]}}\<newline>{"type":"user","message":{"content":"again"}}\<newline>{"type":"assistant","message":{"content":[{"type":"tool_use","name":"Bash","input":{"command":"ls"}}]}}\<newline>'')\<rparr>)) ''/proj'' ''s1'' = 5\<close>
proof -
  let ?parse = \<open>(\<lambda>l. if l = ''{"type":"user","message":{"content":"fix it"}}'' then Some (JObj [(''type'', JStr ''user''), (''message'', JObj [(''content'', JStr ''fix it'')])])
            else if l = ''{"type":"assistant","message":{"content":[{"type":"tool_use","name":"Bash","input":{"command":"ls"}}]}}''
            then Some (JObj [(''type'', JStr ''assistant''),
                   (''message'', JObj [(''content'', JArr [JObj [(''type'', JStr ''tool_use''),
                      (''name'', JStr ''Bash''), (''input'', JObj [(''command'', JStr ''ls'')])]])])])
            else if l = ''{"type":"user","message":{"content":"again"}}'' then Some (JObj [(''type'', JStr ''user''), (''message'', JObj [(''content'', JStr ''again'')])])
            else None)\<close>
  let ?rt = \<open>\<lparr>JSON_parse = (\<lambda>l. if l = ''{"type":"user","message":{"content":"fix it"}}'' then Some (JObj [(''type'', JStr ''user''), (''message'', JObj [(''content'', JStr ''fix it'')])])
            else if l = ''{"type":"assistant","message":{"content":[{"type":"tool_use","name":"Bash","input":{"command":"ls"}}]}}''
            then Some (JObj [(''type'', JStr ''assistant''),
                   (''message'', JObj [(''content'', JArr [JObj [(''type'', JStr ''tool_use''),
                      (''name'', JStr ''Bash''), (''input'', JObj [(''command'', JStr ''ls'')])]])])])
            else if l = ''{"type":"user","message":{"content":"again"}}'' then Some (JObj [(''type'', JStr ''user''), (''message'', JObj [(''content'', JStr ''again'')])])
            else None), fetch = (\<lambda>r. Rejected)\<rparr>\<close>
  let ?e = "\<lparr>ANTHROPIC_API_KEY = Some ''sk-1'', USERPROFILE = None, HOME = Some ''/home/u''\<rparr>"
  let ?ck = "\<lparr>dateStr = ''2025-01-02'', timeStr = ''10:30''\<rparr>"
  let ?p = "\<lparr>session_id = ''s1'', transcript_path = ''/t.jsonl'', cwd = ''/proj''\<rparr>"
  let ?c = \<open>''{"type":"user","message":{"content":"fix it"}}\<newline>{not json\<newline>\<newline>{"type":"assistant","message":{"content":[{"type":"tool_use","name":"Bash","input":{"command":"ls"}}]}}\<newline>''\<close>
  let ?c2 = \<open>''{"type":"user","message":{"content":"fix it"}}\<newline>{not json\<newline>\<newline>{"type":"assistant","message":{"content":[{"type":"tool_use","name":"Bash","input":{"command":"ls"}}]}}\<newline>{"type":"user","message":{"content":"again"}}\<newline>''\<close>
  let ?c3 = \<open>''{"type":"user","message":{"content":"fix it"}}\<newline>{not json\<newline>\<newline>{"type":"assistant","message":{"content":[{"type":"tool_use","name":"Bash","input":{"command":"ls"}}]}}\<newline>{"type":"user","message":{"content":"again"}}\<newline>{"type":"assistant","message":{"content":[{"type":"tool_use","name":"Bash","input":{"command":"ls"}}]}}\<newline>''\<close>
  let ?fs = \<open>\<lparr>files = [''/t.jsonl'' \<mapsto> ''{"type":"user","message":{"content":"fix it"}}\<newline>{not json\<newline>\<newline>{"type":"assistant","message":{"content":[{"type":"tool_use","name":"Bash","input":{"command":"ls"}}]}}\<newline>''], dirs = {}, cursor_docs = Map.empty\<rparr>\<close>
  let ?first = "run_hook DevLogger ?rt ?e ?ck (Some ?p) ?fs"
  let ?steps = "[(?c2, ?rt, ?e, ?ck)]"
  let ?later = "later_runs DevLogger ?p ?steps ?first"
  let ?last = "?later\<lparr>files := (files ?later)(transcript_path ?p \<mapsto> ?c3)\<rparr>"
  let ?u = \<open>''{"type":"user","message":{"content":"fix it"}}''\<close>
  let ?a = \<open>''{"type":"assistant","message":{"content":[{"type":"tool_use","name":"Bash","input":{"command":"ls"}}]}}''\<close>
  let ?u2 = \<open>''{"type":"user","message":{"content":"again"}}''\<close>
  let ?prev = "[?u, ''{not json'', ?a, ?u2]"
  have d: "utf8_decode ?c = ?c"
    by (rule utf8_decode_ascii) (simp add: in_range_def)
  have d2: "utf8_decode ?c2 = ?c2"
    by (rule utf8_decode_ascii) (simp add: in_range_def)
  have d3: "utf8_decode ?c3 = ?c3"
    by (rule utf8_decode_ascii) (simp add: in_range_def)
  have l: "nonblank_lines (utf8_decode ?c) = [?u] @ ''{not json'' # [?a]"
    unfolding d by (simp add: nonblank_lines_def trim_def is_space_def)
  have l2: "nonblank_lines (utf8_decode ?c2) = ?prev"
    unfolding d2 by (simp add: nonblank_lines_def trim_def is_space_def)
  have l3: "nonblank_lines (utf8_decode ?c3) = ?prev @ [?a]"
    unfolding d3 by (simp add: nonblank_lines_def trim_def is_space_def)
  have ao: "append_only ([?u] @ ''{not json'' # [?a])
              (map (\<lambda>s. nonblank_lines (utf8_decode (fst s))) ?steps)"
    using l2 by simp
  have pv: "?prev = last (([?u] @ ''{not json'' # [?a])
                          # map (\<lambda>s. nonblank_lines (utf8_decode (fst s))) ?steps)"
    using l2 by simp
  have b: "JSON_parse ?rt ''{not json'' = None" by simp
  have g: "getCursor DevLogger ?fs (cwd ?p) (session_id ?p) = 0"
    by (simp add: getCursor_docs)
  have k: "(0::nat) \<le> length [?u]" by simp
  have e1: "extract_lines DevLogger ?parse [?u, ?a] = ([''USER: fix it'', ''[Bash: ls]''], True)"
    by (simp add: extract_lines_def process_line_def getprop_def nullish_def
        message_content_def block_step_def describe_tool_def js_or_def bash_command_def
        user_text_def)
  have e2: "extract_lines DevLogger ?parse [?a] = ([''[Bash: ls]''], True)"
    by (simp add: extract_lines_def process_line_def getprop_def nullish_def
        message_content_def block_step_def describe_tool_def js_or_def bash_command_def)
  have f: "files ?fs (transcript_path ?p) = Some ?c" by simp
  have n1: "transcript_path ?p \<noteq> []" and n2: "cwd ?p \<noteq> []" and n3: "session_id ?p \<noteq> []"
    by simp_all
  note r = malformed_line_consumed[where h = DevLogger and p = ?p and fs = ?fs and content = ?c
      and pre = "[?u]" and bad = "''{not json''" and post = "[?a]" and rt = ?rt and k = 0
      and ?fs1.0 = ?first and e = ?e and c = ?ck and steps = ?steps and prev = ?prev
      and content' = ?c3 and added = "[?a]"
      and ?fs2.0 = ?last and rt' = ?rt and e' = ?e and c' = ?ck,
      OF n1 n2 n3 f l b g k refl ao pv l3 refl]
  have c1: "getLatestExchange DevLogger ?parse ?fs ''/t.jsonl'' (getCursor DevLogger ?fs ''/proj'' ''s1'')
     = Inr (Some \<lparr>text = ''USER: fix it\<newline>[Bash: ls]'', hasToolUse = True, totalLines = 3\<rparr>)"
    using r[THEN conjunct1] by (simp add: e1 nl_def numeral_3_eq_3)
  have c2: "getCursor DevLogger ?first ''/proj'' ''s1'' = 3"
    using r[THEN conjunct2, THEN conjunct1] by simp
  have c4: "getCursor DevLogger ?last ''/proj'' ''s1'' = 4"
    using r[THEN conjunct2, THEN conjunct2, THEN conjunct2, THEN conjunct1] by simp
  have c5: "getLatestExchange DevLogger ?parse ?last ''/t.jsonl'' (getCursor DevLogger ?last ''/proj'' ''s1'')
     = Inr (Some \<lparr>text = ''[Bash: ls]'', hasToolUse = True, totalLines = 5\<rparr>)"
    using r[THEN conjunct2, THEN conjunct2, THEN conjunct2, THEN conjunct2, THEN conjunct1]
    by (simp add: e2 nl_def)
  have c6: "getCursor DevLogger (run_hook DevLogger ?rt ?e ?ck (Some ?p) ?last) ''/proj'' ''s1'' = 5"
    using r[THEN conjunct2, THEN conjunct2, THEN conjunct2, THEN conjunct2, THEN conjunct2]
    by simp
  from c1 c2 c4 c5 c6 show ?thesis by simp
qed

section \<open>Properties of the daily log\<close>

lemma join_nl_lines: "xs \<noteq> [] \<Longrightarrow> join sep xs @ sep = concat (map (\<lambda>x. x @ sep) xs)"
  by (induction sep xs rule: join.induct) simp_all

lemma path_join_child_neq: "x \<noteq> [] \<Longrightarrow> path_join [m, x] \<noteq> m"
  by (cases "m = []") (simp_all add: path_join_def)

lemma existsSync_ensure_dir_other: "q \<noteq> d \<Longrightarrow> existsSync (ensure_dir fs d) q = existsSync fs q"
  by (simp add: ensure_dir_def existsSync_def)

lemma log_path_neq: "log_path m d \<noteq> m"
  unfolding log_path_def by (rule path_join_child_neq) simp

subsection \<open>The text of the log is UTF-8\<close>

lemma utf8_valid_append: "utf8_valid a \<Longrightarrow> utf8_valid b \<Longrightarrow> utf8_valid (a @ b)"
  by (simp add: utf8_valid_def utf8_decode_append)

lemma utf8_valid_ascii: "list_all (in_range 0x00 0x7F) s \<Longrightarrow> utf8_valid s"
  by (simp add: utf8_valid_def utf8_decode_ascii)

lemma utf8_valid_emdash: "utf8_valid emdash"
  by (simp add: utf8_valid_def emdash_def utf8_decode.simps utf8_step.simps in_range_def
      continuation_def second_byte_def)

lemma utf8_valid_nl: "utf8_valid nl"
  by (rule utf8_valid_ascii) (simp add: nl_def in_range_def)

lemma utf8_valid_log_header:
  assumes "utf8_valid d"
  shows "utf8_valid (log_header d)"
proof -
  have a: "utf8_valid ''# Developments ''" and b: "utf8_valid '' ''"
    by (rule utf8_valid_ascii, simp add: in_range_def)+
  show ?thesis
    unfolding log_header_def
    by (intro utf8_valid_append a b assms utf8_valid_emdash utf8_valid_nl)
qed

lemma utf8_valid_log_entry:
  assumes "utf8_valid t" and "utf8_valid line"
  shows "utf8_valid (log_entry t line)"
proof -
  have a: "utf8_valid ''- **''" and b: "utf8_valid ''** ''" and c: "utf8_valid '' ''"
    by (rule utf8_valid_ascii, simp add: in_range_def)+
  show ?thesis
    unfolding log_entry_def
    by (intro utf8_valid_append a b c assms utf8_valid_emdash)
qed

lemma utf8_valid_entries:
  assumes "utf8_valid t" and "list_all utf8_valid ls"
  shows "utf8_valid (concat (map (\<lambda>line. log_entry t line @ nl) ls))"
  using assms(2)
proof (induction ls)
  case Nil
  then show ?case by (simp add: utf8_valid_def utf8_decode.simps)
next
  case (Cons l ls)
  then have "utf8_valid (log_entry t l @ nl)"
    using assms(1) by (intro utf8_valid_append utf8_valid_log_entry utf8_valid_nl) simp_all
  moreover from Cons have "utf8_valid (concat (map (\<lambda>line. log_entry t line @ nl) ls))"
    by simp
  ultimately have "utf8_valid ((log_entry t l @ nl) @ concat (map (\<lambda>line. log_entry t line @ nl) ls))"
    by (rule utf8_valid_append)
  then show ?case by simp
qed

lemma utf8_valid_rendered:
  "utf8_valid t \<Longrightarrow> list_all utf8_valid (response_lines r) \<Longrightarrow> utf8_valid (rendered t r)"
  unfolding rendered_def by (rule utf8_valid_entries)

subsection \<open>One append\<close>

lemma write_dev_log_existing:
  assumes "files fs (log_path m d) = Some prior" and "utf8_valid prior"
  shows "files (write_dev_log fs m \<lparr>dateStr = d, timeStr = t\<rparr> r) (log_path m d)
           = Some (prior @ rendered t r)"
proof (cases "response_lines r = []")
  case True
  with assms show ?thesis
    by (simp add: write_dev_log_def Let_def log_path_def[symmetric] existsSync_def
        readFileSync_def rendered_def)
next
  case False
  with assms show ?thesis
    by (simp add: write_dev_log_def Let_def log_path_def[symmetric] existsSync_def
        readFileSync_def rendered_def writeFileSync_def join_nl_lines comp_def utf8_valid_def)
qed

lemma write_dev_log_absent_skip:
  assumes "\<not> existsSync fs (log_path m d)" and "response_lines r = []"
  shows "\<not> existsSync (write_dev_log fs m \<lparr>dateStr = d, timeStr = t\<rparr> r) (log_path m d)"
  using assms log_path_neq[of m d]
  by (simp add: write_dev_log_def Let_def log_path_def[symmetric] existsSync_ensure_dir_other)

lemma write_dev_log_absent_create:
  assumes "\<not> existsSync fs (log_path m d)" and "response_lines r \<noteq> []"
  shows "files (write_dev_log fs m \<lparr>dateStr = d, timeStr = t\<rparr> r) (log_path m d)
           = Some (log_header d @ rendered t r)"
  using assms log_path_neq[of m d]
  by (simp add: write_dev_log_def Let_def log_path_def[symmetric] existsSync_ensure_dir_other
      writeFileSync_def rendered_def join_nl_lines comp_def)

subsection \<open>The memory directory stays where it is\<close>

lemma cwdToProjectKey_nonempty: "cwd' \<noteq> [] \<Longrightarrow> cwdToProjectKey cwd' \<noteq> []"
  by (cases cwd') (simp_all add: cwdToProjectKey_def)

lemma lower_first_nonempty: "key \<noteq> [] \<Longrightarrow> lower_first key \<noteq> []"
  by (cases key) (simp_all add: lower_first_def)

lemma length_lower_first: "length (lower_first key) = length key"
  by (cases key) (simp_all add: lower_first_def)

lemma memory_paths:
  assumes "key \<noteq> []"
  shows "\<exists>P. memory_candidates DevLogger home key
              = [P @ ''.claude/projects/'' @ lower_first key @ ''/memory'',
                 P @ ''.claude/projects/'' @ key @ ''/memory'',
                 P @ ''.nlc/projects/'' @ lower_first key,
                 P @ ''.nlc/projects/'' @ key]
           \<and> memory_default DevLogger home key = P @ ''.nlc/projects/'' @ lower_first key"
proof (cases "home = []")
  case True
  with assms lower_first_nonempty[OF assms] show ?thesis
    by (intro exI[of _ "[]"]) (simp add: memory_candidates_def memory_default_def path_join_def)
next
  case False
  with assms lower_first_nonempty[OF assms] show ?thesis
    by (intro exI[of _ "home @ ''/''"])
       (simp add: memory_candidates_def memory_default_def path_join_def)
qed

lemma log_path_append: "m \<noteq> [] \<Longrightarrow> log_path m d = m @ ''/'' @ d @ ''.md''"
  by (simp add: log_path_def path_join_def)

lemma longer_neq: "length a = length b \<Longrightarrow> x \<noteq> [] \<Longrightarrow> P @ Q @ a @ R @ x \<noteq> P @ Q @ b @ R"
proof
  assume "length a = length b" and "x \<noteq> []" and "P @ Q @ a @ R @ x = P @ Q @ b @ R"
  then have "length (P @ Q @ a @ R @ x) = length (P @ Q @ b @ R)" by simp
  with \<open>length a = length b\<close> \<open>x \<noteq> []\<close> show False by simp
qed

lemma log_not_candidate:
  assumes "key \<noteq> []"
      and "m \<in> set (memory_candidates DevLogger home key)"
  shows "log_path m d \<notin> set (memory_candidates DevLogger home key)"
proof -
  let ?l = "lower_first key"
  obtain P where c: "memory_candidates DevLogger home key
              = [P @ ''.claude/projects/'' @ ?l @ ''/memory'',
                 P @ ''.claude/projects/'' @ key @ ''/memory'',
                 P @ ''.nlc/projects/'' @ ?l,
                 P @ ''.nlc/projects/'' @ key]"
    using memory_paths[OF assms(1)] by blast
  let ?x = "''/'' @ d @ ''.md''"
  have x: "?x \<noteq> []" by simp
  have len: "length ?l = length key" by (rule length_lower_first)
  have cc: "\<And>a b. length a = length b \<Longrightarrow>
      (P @ ''.claude/projects/'' @ a @ ''/memory'') @ ?x \<noteq> P @ ''.claude/projects/'' @ b @ ''/memory''"
    using longer_neq[of _ _ ?x P "''.claude/projects/''" "''/memory''"] by simp
  have nn: "\<And>a b. length a = length b \<Longrightarrow>
      (P @ ''.nlc/projects/'' @ a) @ ?x \<noteq> P @ ''.nlc/projects/'' @ b"
    using longer_neq[of _ _ ?x P "''.nlc/projects/''" "[]"] by simp
  have cn: "\<And>a b. (P @ ''.claude/projects/'' @ a @ ''/memory'') @ ?x \<noteq> P @ ''.nlc/projects/'' @ b"
    by simp
  have nc: "\<And>a b. (P @ ''.nlc/projects/'' @ a) @ ?x \<noteq> P @ ''.claude/projects/'' @ b @ ''/memory''"
    by simp
  from assms(2) c have "m \<noteq> []" by auto
  then have lp: "log_path m d = m @ ?x" by (simp add: log_path_append)
  from assms(2) c consider "m = P @ ''.claude/projects/'' @ ?l @ ''/memory''"
    | "m = P @ ''.claude/projects/'' @ key @ ''/memory''"
    | "m = P @ ''.nlc/projects/'' @ ?l" | "m = P @ ''.nlc/projects/'' @ key"
    by auto
  then show ?thesis
  proof cases
    case 1
    show ?thesis
      unfolding lp unfolding c 1 using cc[of ?l ?l] cc[of ?l key] cn[of ?l ?l] cn[of ?l key] len
      by (simp del: append_assoc)
  next
    case 2
    show ?thesis
      unfolding lp unfolding c 2 using cc[of key ?l] cc[of key key] cn[of key ?l] cn[of key key] len
      by (simp del: append_assoc)
  next
    case 3
    show ?thesis
      unfolding lp unfolding c 3 using nn[of ?l ?l] nn[of ?l key] nc[of ?l ?l] nc[of ?l key] len
      by (simp del: append_assoc)
  next
    case 4
    show ?thesis
      unfolding lp unfolding c 4 using nn[of key ?l] nn[of key key] nc[of key ?l] nc[of key key] len
      by (simp del: append_assoc)
  qed
qed

lemma existsSync_write_dev_log:
  assumes "q \<noteq> log_path m (dateStr c)"
  shows "existsSync (write_dev_log fs m c r) q \<longleftrightarrow> existsSync fs q \<or> q = m"
  using assms
  by (auto simp: write_dev_log_def Let_def log_path_def writeFileSync_def ensure_dir_def
      existsSync_def split: sum.splits if_splits)

lemma find_cong_set: "(\<And>x. x \<in> set xs \<Longrightarrow> P x = Q x) \<Longrightarrow> find P xs = find Q xs"
  by (induction xs) auto

lemma getMemoryDir_write_dev_log:
  assumes "cwd' \<noteq> []" and "m = getMemoryDir DevLogger e fs cwd'"
  shows "getMemoryDir DevLogger e (write_dev_log fs m c r) cwd' = m"
proof -
  let ?home = "home_dir e"
  let ?key = "cwdToProjectKey cwd'"
  let ?l = "lower_first ?key"
  let ?cands = "memory_candidates DevLogger ?home ?key"
  let ?fs' = "write_dev_log fs m c r"
  have key: "?key \<noteq> []" using assms(1) by (rule cwdToProjectKey_nonempty)
  obtain P where cs: "?cands
              = [P @ ''.claude/projects/'' @ ?l @ ''/memory'',
                 P @ ''.claude/projects/'' @ ?key @ ''/memory'',
                 P @ ''.nlc/projects/'' @ ?l,
                 P @ ''.nlc/projects/'' @ ?key]"
      and df: "memory_default DevLogger ?home ?key = P @ ''.nlc/projects/'' @ ?l"
    using memory_paths[OF key] by blast
  have m_cand: "m \<in> set ?cands"
  proof (cases "find (existsSync fs) ?cands")
    case None
    with assms(2) df have "m = P @ ''.nlc/projects/'' @ ?l"
      by (simp add: getMemoryDir_def Let_def)
    then show ?thesis by (simp add: cs)
  next
    case (Some p)
    with assms(2) have "m = p" by (simp add: getMemoryDir_def Let_def)
    with Some show ?thesis by (auto simp: find_Some_iff)
  qed
  have ex: "\<And>q. q \<in> set ?cands \<Longrightarrow> existsSync ?fs' q \<longleftrightarrow> existsSync fs q \<or> q = m"
  proof -
    fix q assume "q \<in> set ?cands"
    with log_not_candidate[OF key m_cand, of "dateStr c"] have "q \<noteq> log_path m (dateStr c)"
      by auto
    then show "existsSync ?fs' q \<longleftrightarrow> existsSync fs q \<or> q = m"
      by (rule existsSync_write_dev_log)
  qed
  have "find (existsSync ?fs') ?cands = Some m"
  proof (cases "find (existsSync fs) ?cands")
    case None
    with assms(2) df have m: "m = P @ ''.nlc/projects/'' @ ?l"
      by (simp add: getMemoryDir_def Let_def)
    from None have no: "\<And>q. q \<in> set ?cands \<Longrightarrow> \<not> existsSync fs q"
      by (simp add: find_None_iff)
    have "find (existsSync ?fs') ?cands = find (\<lambda>q. q = m) ?cands"
      using ex no by (intro find_cong_set) simp
    also have "\<dots> = Some m"
      unfolding cs m by simp
    finally show ?thesis .
  next
    case (Some p)
    with assms(2) have mp: "m = p" by (simp add: getMemoryDir_def Let_def)
    from Some have "existsSync fs p" by (auto simp: find_Some_iff)
    with mp have "\<And>q. q \<in> set ?cands \<Longrightarrow> existsSync ?fs' q \<longleftrightarrow> existsSync fs q"
      using ex by auto
    then have "find (existsSync ?fs') ?cands = find (existsSync fs) ?cands"
      by (intro find_cong_set) simp
    with Some mp show ?thesis by simp
  qed
  then show ?thesis by (simp add: getMemoryDir_def Let_def)
qed

subsection \<open>A sequence of appends\<close>

lemma log_calls_Cons:
  "log_calls e cwd' d ((t, r) # calls) fs
     = log_calls e cwd' d calls
         (write_dev_log fs (getMemoryDir DevLogger e fs cwd') \<lparr>dateStr = d, timeStr = t\<rparr> r)"
  by (simp add: log_calls_def)

lemma log_calls_existing:
  assumes "cwd' \<noteq> []" and "m = getMemoryDir DevLogger e fs cwd'"
      and "files fs (log_path m d) = Some prior" and "utf8_valid prior"
      and "list_all (\<lambda>(t, r). utf8_valid t \<and> list_all utf8_valid (response_lines r)) calls"
  shows "files (log_calls e cwd' d calls fs) (log_path m d)
           = Some (prior @ concat (map (\<lambda>(t, r). rendered t r) calls))
         \<and> getMemoryDir DevLogger e (log_calls e cwd' d calls fs) cwd' = m"
  using assms(2-5)
proof (induction calls arbitrary: fs prior)
  case Nil
  then show ?case by (simp add: log_calls_def)
next
  case (Cons a calls)
  obtain t r where a: "a = (t, r)" by (cases a)
  let ?fs1 = "write_dev_log fs m \<lparr>dateStr = d, timeStr = t\<rparr> r"
  from Cons.prems(4) a have v: "utf8_valid t" "list_all utf8_valid (response_lines r)"
      and rest: "list_all (\<lambda>(t, r). utf8_valid t \<and> list_all utf8_valid (response_lines r)) calls"
    by simp_all
  have f1: "files ?fs1 (log_path m d) = Some (prior @ rendered t r)"
    using Cons.prems(2,3) by (rule write_dev_log_existing)
  have v1: "utf8_valid (prior @ rendered t r)"
    using Cons.prems(3) v by (intro utf8_valid_append utf8_valid_rendered)
  have m1: "m = getMemoryDir DevLogger e ?fs1 cwd'"
    using getMemoryDir_write_dev_log[OF assms(1) Cons.prems(1)] by simp
  from Cons.IH[OF m1 f1 v1 rest] show ?case
    by (simp add: a log_calls_Cons Cons.prems(1)[symmetric])
qed

lemma log_calls_absent:
  assumes "cwd' \<noteq> []" and "m = getMemoryDir DevLogger e fs cwd'"
      and "\<not> existsSync fs (log_path m d)" and "utf8_valid d"
      and "list_all (\<lambda>(t, r). utf8_valid t \<and> list_all utf8_valid (response_lines r)) calls"
  shows "files (log_calls e cwd' d calls fs) (log_path m d)
           = (if list_all (\<lambda>(t, r). response_lines r = []) calls then None
              else Some (log_header d @ concat (map (\<lambda>(t, r). rendered t r) calls)))
         \<and> getMemoryDir DevLogger e (log_calls e cwd' d calls fs) cwd' = m"
  using assms(2,3,5)
proof (induction calls arbitrary: fs)
  case Nil
  then show ?case by (simp add: log_calls_def existsSync_def)
next
  case (Cons a calls)
  obtain t r where a: "a = (t, r)" by (cases a)
  let ?fs1 = "write_dev_log fs m \<lparr>dateStr = d, timeStr = t\<rparr> r"
  from Cons.prems(3) a have v: "utf8_valid t" "list_all utf8_valid (response_lines r)"
      and rest: "list_all (\<lambda>(t, r). utf8_valid t \<and> list_all utf8_valid (response_lines r)) calls"
    by simp_all
  have m1: "m = getMemoryDir DevLogger e ?fs1 cwd'"
    using getMemoryDir_write_dev_log[OF assms(1) Cons.prems(1)] by simp
  have step: "log_calls e cwd' d ((t, r) # calls) fs = log_calls e cwd' d calls ?fs1"
    by (simp add: log_calls_Cons Cons.prems(1)[symmetric])
  show ?case
  proof (cases "response_lines r = []")
    case True
    then have "\<not> existsSync ?fs1 (log_path m d)"
      using Cons.prems(2) by (simp add: write_dev_log_absent_skip)
    moreover from True have "rendered t r = []"
      by (simp add: rendered_def)
    ultimately show ?thesis
      using Cons.IH[OF m1 _ rest] True by (simp add: step a)
  next
    case False
    then have f1: "files ?fs1 (log_path m d) = Some (log_header d @ rendered t r)"
      using Cons.prems(2) by (simp add: write_dev_log_absent_create)
    have v1: "utf8_valid (log_header d @ rendered t r)"
      using assms(4) v by (intro utf8_valid_append utf8_valid_rendered utf8_valid_log_header)
    from log_calls_existing[OF assms(1) m1 f1 v1 rest] False show ?thesis
      by (simp add: step a)
  qed
qed

lemma rendered_all_empty:
  "list_all (\<lambda>(t, r). response_lines r = []) calls \<Longrightarrow>
     concat (map (\<lambda>(t, r). rendered t r) calls) = []"
  by (induction calls) (auto simp: rendered_def)

text \<open>
  Claim C4, as amended. The appends of one project on one date follow one another with
  nothing else done between them, each resolving the memory directory as \<open>main\<close> does;
  the date, the times and the lines are UTF-8, as the strings of the program are.
  Starting on a day whose log does not exist yet, the memory directory stays the one the
  first call resolved, and the daily log in it is the date header followed by the lines
  of the calls in call order, each line \<open>- **HH:MM** \<close>, a dash and the entry text,
  ended by a line feed. The file exists as soon as one call had a line to write, and it is
  created with the header by that call. One more call leaves the content before it as a
  prefix of the content after it: it appends its own lines and rewrites nothing.
\<close>

theorem daily_log_append_only:
  assumes "cwd' \<noteq> []" and "m = getMemoryDir DevLogger e fs cwd'"
      and "\<not> existsSync fs (log_path m d)"
      and "utf8_valid d"
      and "list_all (\<lambda>(t, r). utf8_valid t \<and> list_all utf8_valid (response_lines r))
             (calls @ [(t, r)])"
  shows "files (log_calls e cwd' d calls fs) (log_path m d)
           = (if list_all (\<lambda>(t, r). response_lines r = []) calls then None
              else Some (log_header d @ concat (map (\<lambda>(t, r). rendered t r) calls)))
         \<and> getMemoryDir DevLogger e (log_calls e cwd' d calls fs) cwd' = m
         \<and> files (log_calls e cwd' d (calls @ [(t, r)]) fs) (log_path m d)
           = (case files (log_calls e cwd' d calls fs) (log_path m d) of
                None \<Rightarrow> if response_lines r = [] then None
                        else Some (log_header d @ rendered t r)
              | Some prior \<Rightarrow> Some (prior @ rendered t r))"
proof -
  from assms(5)
  have v: "list_all (\<lambda>(t, r). utf8_valid t \<and> list_all utf8_valid (response_lines r)) calls"
    by simp
  note first = log_calls_absent[OF assms(1-4) v]
  note last = log_calls_absent[OF assms(1-5)]
  show ?thesis
  proof (cases "list_all (\<lambda>(t, r). response_lines r = []) calls")
    case True
    with first last rendered_all_empty[OF True] show ?thesis by simp
  next
    case False
    with first last show ?thesis by simp
  qed
qed

theorem daily_log_append_only_witness:
  "getMemoryDir DevLogger \<lparr>ANTHROPIC_API_KEY = Some ''sk-1'', USERPROFILE = None, HOME = Some ''/home/u''\<rparr> \<lparr>files = Map.empty, dirs = {}, cursor_docs = Map.empty\<rparr> ''/proj'' = ''/home/u/.nlc/projects/-proj''
   \<and> files (log_calls \<lparr>ANTHROPIC_API_KEY = Some ''sk-1'', USERPROFILE = None, HOME = Some ''/home/u''\<rparr> ''/proj'' ''2025-01-02''
         [(''10:30'', ''Implemented login\<newline>Added tests''), (''11:05'', ''Fixed bug'')]
         \<lparr>files = Map.empty, dirs = {}, cursor_docs = Map.empty\<rparr>)
       ''/home/u/.nlc/projects/-proj/2025-01-02.md''
     = Some (''# Developments '' @ emdash @ '' 2025-01-02\<newline>\<newline>'' @
             ''- **10:30** '' @ emdash @ '' Implemented login\<newline>'' @
             ''- **10:30** '' @ emdash @ '' Added tests\<newline>'' @
             ''- **11:05** '' @ emdash @ '' Fixed bug\<newline>'')
   \<and> getMemoryDir DevLogger \<lparr>ANTHROPIC_API_KEY = Some ''sk-1'', USERPROFILE = None, HOME = Some ''/home/u''\<rparr>
        (log_calls \<lparr>ANTHROPIC_API_KEY = Some ''sk-1'', USERPROFILE = None, HOME = Some ''/home/u''\<rparr> ''/proj'' ''2025-01-02''
           [(''10:30'', ''Implemented login\<newline>Added tests'')] \<lparr>files = Map.empty, dirs = {}, cursor_docs = Map.empty\<rparr>) ''/proj''
     = ''/home/u/.nlc/projects/-proj''"
proof -
  let ?fs = "\<lparr>files = Map.empty, dirs = {}, cursor_docs = Map.empty\<rparr>"
  let ?e = "\<lparr>ANTHROPIC_API_KEY = Some ''sk-1'', USERPROFILE = None, HOME = Some ''/home/u''\<rparr>"
  let ?m = "''/home/u/.nlc/projects/-proj''"
  have n: "''/proj'' \<noteq> []" by simp
  have m: "?m = getMemoryDir DevLogger ?e ?fs ''/proj''"
    by (simp add: getMemoryDir_def home_dir_def nonempty_def cwdToProjectKey_def lower_first_def
        memory_candidates_def memory_default_def path_join_def existsSync_def)
  have a: "\<not> existsSync ?fs (log_path ?m ''2025-01-02'')"
    by (simp add: existsSync_def)
  have l1: "response_lines ''Implemented login\<newline>Added tests'' = [''Implemented login'', ''Added tests'']"
    by (simp add: response_lines_def trim_def is_space_def)
  have l2: "response_lines ''Fixed bug'' = [''Fixed bug'']"
    by (simp add: response_lines_def trim_def is_space_def)
  have vd: "utf8_valid ''2025-01-02''"
    by (rule utf8_valid_ascii) (simp add: in_range_def)
  have v1: "utf8_valid ''10:30''" "utf8_valid ''11:05''" "utf8_valid ''Implemented login''"
      "utf8_valid ''Added tests''" "utf8_valid ''Fixed bug''"
    by (rule utf8_valid_ascii, simp add: in_range_def)+
  have v: "list_all (\<lambda>(t, r). utf8_valid t \<and> list_all utf8_valid (response_lines r))
             ([(''10:30'', ''Implemented login\<newline>Added tests'')] @ [(''11:05'', ''Fixed bug'')])"
    using v1 by (simp add: l1 l2)
  have p: "log_path ?m ''2025-01-02'' = ''/home/u/.nlc/projects/-proj/2025-01-02.md''"
    by (simp add: log_path_def path_join_def)
  note r = daily_log_append_only[where fs = ?fs and m = ?m and d = "''2025-01-02''"
      and e = ?e and cwd' = "''/proj''"
      and calls = "[(''10:30'', ''Implemented login\<newline>Added tests'')]"
      and t = "''11:05''" and r = "''Fixed bug''", OF n m a vd v]
  from r show ?thesis
    by (simp add: m[symmetric] p l1 l2 rendered_def log_header_def log_entry_def nl_def)
qed

text \<open>
  Claim C4 fails as stated. The development logger runs on a machine without a memory
  directory and starts the daily log in \<open>~/.nlc/projects/-proj\<close>. The context keeper
  then runs and creates \<open>~/.claude/projects/-proj/memory\<close> for the handoff document.
  The transcript grows, and the next run of the development logger on the same date
  resolves the memory directory anew: it finds the directory the context keeper made and
  starts a second log there, with a header of its own. No daily log holds the lines of
  both calls.
\<close>

theorem daily_log_split_counterexample:
  \<open>(let p = \<lparr>session_id = ''s1'', transcript_path = ''/t.jsonl'', cwd = ''/proj''\<rparr>;
        fs0 = \<lparr>files = [''/t.jsonl'' \<mapsto> ''{"type":"user","message":{"content":"fix it"}}\<newline>{not json\<newline>\<newline>{"type":"assistant","message":{"content":[{"type":"tool_use","name":"Bash","input":{"command":"ls"}}]}}\<newline>''], dirs = {}, cursor_docs = Map.empty\<rparr>;
        fs1 = main_dev_logger \<lparr>JSON_parse = (\<lambda>l. if l = ''{"type":"user","message":{"content":"fix it"}}'' then Some (JObj [(''type'', JStr ''user''), (''message'', JObj [(''content'', JStr ''fix it'')])])
            else if l = ''{"type":"assistant","message":{"content":[{"type":"tool_use","name":"Bash","input":{"command":"ls"}}]}}''
            then Some (JObj [(''type'', JStr ''assistant''),
                   (''message'', JObj [(''content'', JArr [JObj [(''type'', JStr ''tool_use''),
                      (''name'', JStr ''Bash''), (''input'', JObj [(''command'', JStr ''ls'')])]])])])
            else None), fetch = (\<lambda>r. Response True (Some (JObj [(''content'', JArr [JObj [(''type'', JStr ''text''), (''text'', JStr ''Implemented login'')]])])))\<rparr> \<lparr>ANTHROPIC_API_KEY = Some ''sk-1'', USERPROFILE = None, HOME = Some ''/home/u''\<rparr> \<lparr>dateStr = ''2025-01-02'', timeStr = ''10:30''\<rparr> (Some p) fs0;
        fs2 = main_context_keeper \<lparr>JSON_parse = (\<lambda>l. if l = ''{"type":"user","message":{"content":"fix it"}}'' then Some (JObj [(''type'', JStr ''user''), (''message'', JObj [(''content'', JStr ''fix it'')])])
            else if l = ''{"type":"assistant","message":{"content":[{"type":"tool_use","name":"Bash","input":{"command":"ls"}}]}}''
            then Some (JObj [(''type'', JStr ''assistant''),
                   (''message'', JObj [(''content'', JArr [JObj [(''type'', JStr ''tool_use''),
                      (''name'', JStr ''Bash''), (''input'', JObj [(''command'', JStr ''ls'')])]])])])
            else None), fetch = (\<lambda>r. Response True (Some (JObj [(''content'', JArr [JObj [(''type'', JStr ''text''), (''text'', JStr ''[DONE] Implemented login'')]])])))\<rparr> \<lparr>ANTHROPIC_API_KEY = Some ''sk-1'', USERPROFILE = None, HOME = Some ''/home/u''\<rparr> \<lparr>dateStr = ''2025-01-02'', timeStr = ''10:30''\<rparr> (Some p) fs1;
        grown = fs2\<lparr>files := (files fs2)(''/t.jsonl'' \<mapsto> ''{"type":"user","message":{"content":"fix it"}}\<newline>{not json\<newline>\<newline>{"type":"assistant","message":{"content":[{"type":"tool_use","name":"Bash","input":{"command":"ls"}}]}}\<newline>{"type":"assistant","message":{"content":[{"type":"tool_use","name":"Bash","input":{"command":"ls"}}]}}\<newline>'')\<rparr>;
        fs3 = main_dev_logger \<lparr>JSON_parse = (\<lambda>l. if l = ''{"type":"user","message":{"content":"fix it"}}'' then Some (JObj [(''type'', JStr ''user''), (''message'', JObj [(''content'', JStr ''fix it'')])])
            else if l = ''{"type":"assistant","message":{"content":[{"type":"tool_use","name":"Bash","input":{"command":"ls"}}]}}''
            then Some (JObj [(''type'', JStr ''assistant''),
                   (''message'', JObj [(''content'', JArr [JObj [(''type'', JStr ''tool_use''),
                      (''name'', JStr ''Bash''), (''input'', JObj [(''command'', JStr ''ls'')])]])])])
            else None), fetch = (\<lambda>r. Response True (Some (JObj [(''content'', JArr [JObj [(''type'', JStr ''text''), (''text'', JStr ''Added tests'')]])])))\<rparr> \<lparr>ANTHROPIC_API_KEY = Some ''sk-1'', USERPROFILE = None, HOME = Some ''/home/u''\<rparr> \<lparr>dateStr = ''2025-01-02'', timeStr = ''11:05''\<rparr> (Some p) grown
    in files fs1 ''/home/u/.nlc/projects/-proj/2025-01-02.md''
         = Some (''# Developments '' @ emdash @ '' 2025-01-02\<newline>\<newline>'' @
                 ''- **10:30** '' @ emdash @ '' Implemented login\<newline>'')
       \<and> files fs3 ''/home/u/.nlc/projects/-proj/2025-01-02.md''
         = Some (''# Developments '' @ emdash @ '' 2025-01-02\<newline>\<newline>'' @
                 ''- **10:30** '' @ emdash @ '' Implemented login\<newline>'')
       \<and> files fs3 ''/home/u/.claude/projects/-proj/memory/2025-01-02.md''
         = Some (''# Developments '' @ emdash @ '' 2025-01-02\<newline>\<newline>'' @
                 ''- **11:05** '' @ emdash @ '' Added tests\<newline>''))\<close>
  by code_simp

section \<open>Properties of the handoff document\<close>

lemma indexOf_Some: "indexOf s p = Some i \<Longrightarrow> i \<le> length s \<and> prefix p (drop i s)"
  by (induction s arbitrary: i) (auto split: if_splits)

lemma indexOf_first: "indexOf s p = Some i \<Longrightarrow> j < i \<Longrightarrow> \<not> prefix p (drop j s)"
proof (induction s arbitrary: i j)
  case Nil
  then show ?case by (auto split: if_splits)
next
  case (Cons c cs)
  show ?case
  proof (cases "prefix p (c # cs)")
    case True
    with Cons.prems show ?thesis by simp
  next
    case False
    with Cons.prems obtain i' where i': "indexOf cs p = Some i'" "i = Suc i'" by auto
    show ?thesis
    proof (cases j)
      case 0
      with False show ?thesis by simp
    next
      case (Suc j')
      with Cons.prems i' have "j' < i'" by simp
      from Cons.IH[OF i'(1) this] Suc show ?thesis by simp
    qed
  qed
qed

lemma indexOf_None: "indexOf s p = None \<Longrightarrow> \<not> prefix p (drop j s)"
proof (induction s arbitrary: j)
  case Nil
  then show ?case by (auto split: if_splits)
next
  case (Cons c cs)
  then show ?case by (cases j) (auto split: if_splits)
qed


lemma merge_section_replace:
  assumes "indexOf content START_MARK = Some i" and "indexOf content END_MARK = Some j"
  shows "merge_section content sec = take i content @ sec @ drop (j + length END_MARK) content"
  using assms by (simp add: merge_section_def)


lemma write_handoff_existing:
  assumes "files fs (handoff_path m) = Some bytes"
  shows "files (write_handoff fs m c bullets)
           = (files fs)(handoff_path m \<mapsto> merge_section (utf8_decode bytes) (autoSection c bullets))"
  using assms
  by (simp add: write_handoff_def Let_def handoff_path_def[symmetric] existsSync_def
      readFileSync_def writeFileSync_def)




lemma occ_first_char:
  assumes "prefix p (drop q s)" and "p \<noteq> []"
  shows "q < length s \<and> s ! q = hd p"
proof -
  from assms obtain c cs where p: "p = c # cs" by (cases p) auto
  with assms(1) obtain zs where d: "drop q s = c # cs @ zs" by (auto simp: prefix_def)
  then have "q < length s" by (cases "q < length s") auto
  moreover from d this have "s ! q = c"
    by (metis hd_drop_conv_nth list.sel(1))
  ultimately show ?thesis by (simp add: p)
qed

lemma occ_append_cases:
  assumes "prefix p (drop q (xs @ ys))"
  shows "prefix p (drop q xs)
         \<or> (q < length xs \<and> length xs - q < length p \<and> ys \<noteq> [] \<and> p ! (length xs - q) = hd ys)
         \<or> (length xs \<le> q \<and> prefix p (drop (q - length xs) ys))"
proof (cases "length xs \<le> q")
  case True
  with assms show ?thesis by simp
next
  case False
  let ?xs' = "drop q xs"
  from False assms have pre: "prefix p (?xs' @ ys)" by simp
  show ?thesis
  proof (cases "length p \<le> length ?xs'")
    case True
    with pre have "prefix p ?xs'"
      by (metis prefix_length_prefix prefixI)
    then show ?thesis by simp
  next
    case long: False
    from pre obtain zs where eq: "?xs' @ ys = p @ zs" by (auto simp: prefix_def)
    have l: "length ?xs' < length p" using long by simp
    have "ys \<noteq> []"
    proof
      assume "ys = []"
      with eq have "length ?xs' = length p + length zs" by (metis append_Nil2 length_append)
      with l show False by simp
    qed
    moreover have "p ! (length ?xs') = hd ys"
    proof -
      have "(p @ zs) ! (length ?xs') = p ! (length ?xs')" using l by (simp add: nth_append)
      moreover have "(?xs' @ ys) ! (length ?xs') = hd ys"
        using \<open>ys \<noteq> []\<close> by (simp add: nth_append hd_conv_nth)
      ultimately show ?thesis using eq by simp
    qed
    ultimately show ?thesis using False l by simp
  qed
qed

lemma mem_occurrences:
  "q \<in> set (occurrences p s) \<longleftrightarrow> q \<le> length s \<and> prefix p (drop q s)"
proof -
  have "q \<in> set (occurrences p s) \<longleftrightarrow> q < Suc (length s) \<and> prefix p (drop q s)"
    by (simp only: occurrences_def set_filter set_upt mem_Collect_eq atLeastLessThan_iff
        le0 simp_thms)
  then show ?thesis by (simp only: less_Suc_eq_le)
qed

lemma filter_upt_single:
  assumes "k < n" and "\<And>q. q < n \<Longrightarrow> P q \<longleftrightarrow> q = k"
  shows "filter P [0..<n] = [k]"
proof -
  have "filter P [0..<n] = filter (\<lambda>q. q = k) [0..<n]"
    using assms(2) by (intro filter_cong) auto
  also have "\<dots> = [k]"
    using assms(1)
  proof (induction n)
    case 0
    then show ?case by simp
  next
    case (Suc n)
    show ?case
    proof (cases "k = n")
      case True
      have "filter (\<lambda>q. q = n) [0..<n] = []" by (simp add: filter_empty_conv)
      with True show ?thesis by simp
    next
      case False
      with Suc show ?thesis by simp
    qed
  qed
  finally show ?thesis .
qed

lemma occurrences_single:
  assumes "k \<le> length s" and "prefix p (drop k s)"
      and "\<And>q. prefix p (drop q s) \<Longrightarrow> q = k"
  shows "occurrences p s = [k]"
  unfolding occurrences_def
proof (rule filter_upt_single)
  show "k < Suc (length s)" using assms(1) by simp
next
  fix q
  show "prefix p (drop q s) \<longleftrightarrow> q = k" using assms(2,3) by blast
qed

lemma occurrences_singleD:
  assumes "occurrences p s = [k]" and "prefix p (drop q s)" and "p \<noteq> []"
  shows "q = k"
proof -
  from assms(2,3) have "q < length s" by (simp add: occ_first_char)
  with assms(2) have "q \<in> set (occurrences p s)" by (simp add: mem_occurrences)
  with assms(1) show ?thesis by simp
qed

lemma nth_in_tl:
  assumes "0 < k" and "k < length xs"
  shows "xs ! k \<in> set (tl xs)"
proof -
  from assms have "k - 1 < length (tl xs)" by simp
  then have "tl xs ! (k - 1) \<in> set (tl xs)" by (rule nth_mem)
  moreover from assms have "tl xs ! (k - 1) = xs ! k" by (simp add: nth_tl)
  ultimately show ?thesis by simp
qed

lemma START_MARK_tail:
  assumes "0 < k" and "k < length START_MARK"
  shows "START_MARK ! k \<noteq> CHR ''<''"
proof -
  have "CHR ''<'' \<notin> set (tl START_MARK)" by (simp add: START_MARK_def)
  with nth_in_tl[OF assms] show ?thesis by auto
qed

lemma END_MARK_tail:
  assumes "0 < k" and "k < length END_MARK"
  shows "END_MARK ! k \<noteq> CHR ''<''"
proof -
  have "CHR ''<'' \<notin> set (tl END_MARK)" by (simp add: END_MARK_def)
  with nth_in_tl[OF assms] show ?thesis by auto
qed

lemma START_MARK_nonempty: "START_MARK \<noteq> []" and START_MARK_hd: "hd START_MARK = CHR ''<''"
  by (simp_all add: START_MARK_def)

lemma no_start_in_end_mark:
  assumes "prefix START_MARK (drop q (front @ END_MARK @ after))" and "length front \<le> q"
  shows "length front + length END_MARK \<le> q"
proof (rule ccontr)
  assume "\<not> length front + length END_MARK \<le> q"
  with assms(2) have r: "q - length front < length END_MARK" by arith
  let ?r = "q - length front"
  from assms have occ: "prefix START_MARK (drop ?r (END_MARK @ after))" by simp
  then have "(END_MARK @ after) ! ?r = CHR ''<''"
    using occ_first_char[OF occ START_MARK_nonempty] by (simp add: START_MARK_hd)
  with r have c: "END_MARK ! ?r = CHR ''<''" by (simp add: nth_append)
  have "?r = 0"
  proof (rule ccontr)
    assume "?r \<noteq> 0"
    then have "0 < ?r" by simp
    from END_MARK_tail[OF this r] c show False by simp
  qed
  with occ have "prefix START_MARK (END_MARK @ after)" by simp
  moreover have "length START_MARK \<le> length END_MARK" by (simp add: START_MARK_def END_MARK_def)
  ultimately have "prefix START_MARK END_MARK"
    by (metis prefix_length_prefix prefixI)
  then show False by (simp add: START_MARK_def END_MARK_def)
qed

lemma merged_occurrence:
  assumes occ: "prefix START_MARK (drop q (before @ sec @ after))"
      and sec: "occurrences START_MARK sec = [0]"
      and tail: "sec = front @ END_MARK"
      and nb: "\<And>q'. \<not> prefix START_MARK (drop q' before)"
      and na: "\<And>q'. \<not> prefix START_MARK (drop q' after)"
  shows "q = length before"
proof -
  from sec have "0 \<in> set (occurrences START_MARK sec)" by simp
  then have ps: "prefix START_MARK sec" by (simp add: mem_occurrences)
  then have hs: "sec \<noteq> [] \<and> hd sec = CHR ''<''"
    using occ_first_char[of START_MARK 0 sec] START_MARK_nonempty
    by (auto simp: START_MARK_hd hd_conv_nth)
  from occ_append_cases[OF occ] consider
      (inside) "prefix START_MARK (drop q before)"
    | (straddle) "q < length before" "length before - q < length START_MARK"
        "START_MARK ! (length before - q) = hd (sec @ after)"
    | (later) "length before \<le> q" "prefix START_MARK (drop (q - length before) (sec @ after))"
    by blast
  then show ?thesis
  proof cases
    case inside
    with nb show ?thesis by blast
  next
    case straddle
    from straddle(1) have "0 < length before - q" by simp
    from START_MARK_tail[OF this straddle(2)] straddle(3) hs show ?thesis by simp
  next
    case later
    let ?q = "q - length before"
    from occ_append_cases[OF later(2)] consider
        (inside) "prefix START_MARK (drop ?q sec)"
      | (straddle) "?q < length sec" "length sec - ?q < length START_MARK"
      | (beyond) "prefix START_MARK (drop (?q - length sec) after)"
      by blast
    then show ?thesis
    proof cases
      case inside
      from occurrences_singleD[OF sec inside START_MARK_nonempty] later(1) show ?thesis by simp
    next
      case straddle
      have "length START_MARK \<le> length END_MARK" by (simp add: START_MARK_def END_MARK_def)
      with straddle tail have "length front \<le> ?q" by simp
      moreover from later(2) tail have "prefix START_MARK (drop ?q (front @ END_MARK @ after))"
        by simp
      ultimately have "length front + length END_MARK \<le> ?q"
        by (intro no_start_in_end_mark)
      with straddle(1) tail show ?thesis by simp
    next
      case beyond
      with na show ?thesis by blast
    qed
  qed
qed

lemma merged_occurrences:
  assumes sec: "occurrences START_MARK sec = [0]"
      and tail: "sec = front @ END_MARK"
      and nb: "\<And>q'. \<not> prefix START_MARK (drop q' before)"
      and na: "\<And>q'. \<not> prefix START_MARK (drop q' after)"
  shows "occurrences START_MARK (before @ sec @ after) = [length before]"
proof (rule occurrences_single)
  show "length before \<le> length (before @ sec @ after)" by simp
next
  from sec have "0 \<in> set (occurrences START_MARK sec)" by simp
  then have "prefix START_MARK sec" by (simp add: mem_occurrences)
  then show "prefix START_MARK (drop (length before) (before @ sec @ after))"
    by (simp add: prefix_def) (metis append.assoc)
next
  fix q
  assume "prefix START_MARK (drop q (before @ sec @ after))"
  then show "q = length before"
    using sec tail nb na by (rule merged_occurrence)
qed

lemma autoSection_tail: "\<exists>front. autoSection c bullets = front @ END_MARK"
  by (simp add: autoSection_def)

lemma no_start_in_take:
  assumes "indexOf content START_MARK = Some i"
  shows "\<not> prefix START_MARK (drop q (take i content))"
proof
  assume p: "prefix START_MARK (drop q (take i content))"
  from occ_first_char[OF p START_MARK_nonempty] have "q < i" by simp
  have "prefix (drop q (take i content)) (drop q content)"
    by (metis append_take_drop_id drop_append prefixI)
  with p have "prefix START_MARK (drop q content)" by (rule prefix_order.trans)
  with indexOf_first[OF assms \<open>q < i\<close>] show False by simp
qed

lemma no_start_after_newlines:
  assumes "indexOf content START_MARK = None"
  shows "\<not> prefix START_MARK (drop q (nl @ nl @ content))"
proof
  assume p: "prefix START_MARK (drop q (nl @ nl @ content))"
  from occ_first_char[OF p START_MARK_nonempty]
  have c: "(nl @ nl @ content) ! q = CHR ''<''" by (simp add: START_MARK_hd)
  have "2 \<le> q"
  proof (rule ccontr)
    assume "\<not> 2 \<le> q"
    then have "q = 0 \<or> q = 1" by arith
    with c show False by (auto simp: nl_def)
  qed
  then obtain q' where "q = Suc (Suc q')"
    by (metis add_2_eq_Suc le_Suc_ex)
  with p have "prefix START_MARK (drop q' content)" by (simp add: nl_def)
  with indexOf_None[OF assms] show False by simp
qed

lemma no_start_in_nl: "\<not> prefix START_MARK (drop q nl)"
proof
  assume p: "prefix START_MARK (drop q nl)"
  from occ_first_char[OF p START_MARK_nonempty] show False
    by (auto simp: nl_def START_MARK_hd)
qed

lemma merge_section_prepend:
  assumes "indexOf content START_MARK = None"
  shows "merge_section content sec = (if content \<noteq> [] then sec @ nl @ nl @ content else sec @ nl)"
  using assms by (simp add: merge_section_def)

lemma write_handoff_absent:
  assumes "\<not> existsSync fs (handoff_path m)"
  shows "files (write_handoff fs m c bullets)
           = (files fs)(handoff_path m \<mapsto> merge_section [] (autoSection c bullets))"
proof -
  have "handoff_path m \<noteq> m"
    unfolding handoff_path_def by (rule path_join_child_neq) simp
  with assms show ?thesis
    by (simp add: write_handoff_def Let_def handoff_path_def[symmetric]
        existsSync_ensure_dir_other writeFileSync_def)
qed

text \<open>
  Claim C3, as amended. The rendered section has the start marker at its head only, and
  the text of the prior document, empty when there is none, either has no start marker,
  or has its first start marker before its first end marker and no start marker after
  that end marker. Then the merge writes the handoff document and no other file. With no
  start marker in the prior text the new document is the new section, two line feeds and
  the whole prior text, or the new section and a line feed when the prior text is empty:
  the section is prepended. Otherwise the new document is the prior text before the
  start marker, the new section, and the prior text after the end marker: the section is
  replaced in place. In both cases the new document holds exactly one start marker, at
  the head of the new section.
\<close>

theorem one_start_marker_after_merge:
  assumes sec: "sec = autoSection c bullets" "occurrences START_MARK sec = [0]"
      and doc: "(files fs (handoff_path m) = Some bytes \<and> content = utf8_decode bytes)
                 \<or> (\<not> existsSync fs (handoff_path m) \<and> content = [])"
      and prior: "indexOf content START_MARK = None
                  \<or> (\<exists>i j. indexOf content START_MARK = Some i \<and> indexOf content END_MARK = Some j
                        \<and> i < j \<and> indexOf (drop (j + length END_MARK) content) START_MARK = None)"
  shows "\<exists>new. files (write_handoff fs m c bullets) = (files fs)(handoff_path m \<mapsto> new)
           \<and> (case indexOf content START_MARK of
                None \<Rightarrow>
                  new = sec @ (if content = [] then nl else nl @ nl @ content)
                  \<and> occurrences START_MARK new = [0]
              | Some i \<Rightarrow>
                  (\<exists>j. indexOf content END_MARK = Some j
                     \<and> new = take i content @ sec @ drop (j + length END_MARK) content
                     \<and> occurrences START_MARK new = [i]))"
proof -
  obtain front where tail: "sec = front @ END_MARK"
    using autoSection_tail sec(1) by blast
  have written: "files (write_handoff fs m c bullets)
      = (files fs)(handoff_path m \<mapsto> merge_section content sec)"
    using doc sec(1) by (auto simp: write_handoff_existing write_handoff_absent)
  show ?thesis
  proof (cases "indexOf content START_MARK")
    case None
    have e: "\<And>q'. \<not> prefix START_MARK (drop q' [])"
      using START_MARK_nonempty by simp
    show ?thesis
    proof (cases "content = []")
      case True
      from merged_occurrences[OF sec(2) tail e, of nl] no_start_in_nl
      have "occurrences START_MARK (sec @ nl) = [0]" by simp
      with None True written show ?thesis by (simp add: merge_section_prepend)
    next
      case False
      from merged_occurrences[OF sec(2) tail e, of "nl @ nl @ content"] no_start_after_newlines[OF None]
      have "occurrences START_MARK (sec @ nl @ nl @ content) = [0]" by simp
      with None False written show ?thesis by (simp add: merge_section_prepend)
    qed
  next
    case (Some i)
    with prior obtain j where j: "indexOf content END_MARK = Some j" "i < j"
        "indexOf (drop (j + length END_MARK) content) START_MARK = None"
      by auto
    from Some have "i \<le> length content" by (simp add: indexOf_Some)
    then have len: "min (length content) i = i" by simp
    from merged_occurrences[OF sec(2) tail no_start_in_take[OF Some] indexOf_None[OF j(3)]]
    have "occurrences START_MARK (take i content @ sec @ drop (j + length END_MARK) content) = [i]"
      by (simp add: len)
    with Some j(1) written show ?thesis by (simp add: merge_section_replace)
  qed
qed

theorem one_start_marker_after_merge_witness:
  "occurrences START_MARK (autoSection \<lparr>dateStr = ''2025-01-02'', timeStr = ''10:30''\<rparr> [''[DONE] Implemented login'']) = [0]
   \<and> indexOf ''# Notes\<newline><!-- AUTO-CAPTURED: 2025-01-01 09:00 -->\<newline>- old\<newline><!-- END AUTO-CAPTURED -->\<newline>rest'' START_MARK = Some 8
   \<and> indexOf ''# Notes\<newline><!-- AUTO-CAPTURED: 2025-01-01 09:00 -->\<newline>- old\<newline><!-- END AUTO-CAPTURED -->\<newline>rest'' END_MARK = Some 55
   \<and> indexOf (drop (55 + length END_MARK) ''# Notes\<newline><!-- AUTO-CAPTURED: 2025-01-01 09:00 -->\<newline>- old\<newline><!-- END AUTO-CAPTURED -->\<newline>rest'') START_MARK = None
   \<and> files (write_handoff \<lparr>files = [''/mem/session-handoff.md'' \<mapsto> ''# Notes\<newline><!-- AUTO-CAPTURED: 2025-01-01 09:00 -->\<newline>- old\<newline><!-- END AUTO-CAPTURED -->\<newline>rest''], dirs = {''/mem''}, cursor_docs = Map.empty\<rparr> ''/mem'' \<lparr>dateStr = ''2025-01-02'', timeStr = ''10:30''\<rparr> [''[DONE] Implemented login''])
       = (files \<lparr>files = [''/mem/session-handoff.md'' \<mapsto> ''# Notes\<newline><!-- AUTO-CAPTURED: 2025-01-01 09:00 -->\<newline>- old\<newline><!-- END AUTO-CAPTURED -->\<newline>rest''], dirs = {''/mem''}, cursor_docs = Map.empty\<rparr>)(''/mem/session-handoff.md'' \<mapsto> ''# Notes\<newline>'' @ ''<!-- AUTO-CAPTURED: 2025-01-02 10:30 -->\<newline>- [DONE] Implemented login\<newline><!-- END AUTO-CAPTURED -->'' @ ''\<newline>rest'')
   \<and> occurrences START_MARK (''# Notes\<newline>'' @ ''<!-- AUTO-CAPTURED: 2025-01-02 10:30 -->\<newline>- [DONE] Implemented login\<newline><!-- END AUTO-CAPTURED -->'' @ ''\<newline>rest'') = [8]
   \<and> files (write_handoff \<lparr>files = Map.empty, dirs = {}, cursor_docs = Map.empty\<rparr>
              ''/mem'' \<lparr>dateStr = ''2025-01-02'', timeStr = ''10:30''\<rparr> [''[DONE] Implemented login''])
       = [''/mem/session-handoff.md'' \<mapsto> ''<!-- AUTO-CAPTURED: 2025-01-02 10:30 -->\<newline>- [DONE] Implemented login\<newline><!-- END AUTO-CAPTURED -->'' @ ''\<newline>'']"
proof -
  let ?h = "''# Notes\<newline><!-- AUTO-CAPTURED: 2025-01-01 09:00 -->\<newline>- old\<newline><!-- END AUTO-CAPTURED -->\<newline>rest''"
  let ?fs = "\<lparr>files = [''/mem/session-handoff.md'' \<mapsto> ''# Notes\<newline><!-- AUTO-CAPTURED: 2025-01-01 09:00 -->\<newline>- old\<newline><!-- END AUTO-CAPTURED -->\<newline>rest''], dirs = {''/mem''}, cursor_docs = Map.empty\<rparr>"
  let ?none = "\<lparr>files = Map.empty, dirs = {}, cursor_docs = Map.empty\<rparr>"
  let ?c = "\<lparr>dateStr = ''2025-01-02'', timeStr = ''10:30''\<rparr>"
  let ?sec = "autoSection ?c [''[DONE] Implemented login'']"
  have s: "occurrences START_MARK ?sec = [0]"
    by code_simp
  have sv: "?sec = ''<!-- AUTO-CAPTURED: 2025-01-02 10:30 -->\<newline>- [DONE] Implemented login\<newline><!-- END AUTO-CAPTURED -->''"
    by (simp add: autoSection_def bullet_def END_MARK_def nl_def)
  have d: "utf8_decode ?h = ?h"
    by (rule utf8_decode_ascii) (simp add: in_range_def)
  have i: "indexOf ?h START_MARK = Some 8" by (simp add: START_MARK_def)
  have j: "indexOf ?h END_MARK = Some 55" by (simp add: END_MARK_def)
  have a: "indexOf (drop (55 + length END_MARK) ?h) START_MARK = None"
    by (simp add: END_MARK_def START_MARK_def)
  have p: "indexOf ?h START_MARK = None
       \<or> (\<exists>i j. indexOf ?h START_MARK = Some i \<and> indexOf ?h END_MARK = Some j
             \<and> i < j \<and> indexOf (drop (j + length END_MARK) ?h) START_MARK = None)"
    using i j a by (intro disjI2 exI[of _ 8] exI[of _ 55]) simp
  have hp: "handoff_path ''/mem'' = ''/mem/session-handoff.md''"
    by (simp add: handoff_path_def path_join_def)
  have f: "(files ?fs (handoff_path ''/mem'') = Some ?h \<and> ?h = utf8_decode ?h)
       \<or> (\<not> existsSync ?fs (handoff_path ''/mem'') \<and> ?h = [])"
    unfolding d by (simp add: hp)
  note r = one_start_marker_after_merge[where c = ?c and bullets = "[''[DONE] Implemented login'']"
      and sec = ?sec and content = ?h and bytes = ?h and fs = ?fs and m = "''/mem''", OF refl s f p]
  have first: "files (write_handoff ?fs ''/mem'' ?c [''[DONE] Implemented login''])
       = (files ?fs)(''/mem/session-handoff.md'' \<mapsto> ''# Notes\<newline>'' @ ''<!-- AUTO-CAPTURED: 2025-01-02 10:30 -->\<newline>- [DONE] Implemented login\<newline><!-- END AUTO-CAPTURED -->'' @ ''\<newline>rest'')
     \<and> occurrences START_MARK (''# Notes\<newline>'' @ ''<!-- AUTO-CAPTURED: 2025-01-02 10:30 -->\<newline>- [DONE] Implemented login\<newline><!-- END AUTO-CAPTURED -->'' @ ''\<newline>rest'') = [8]"
    using r i j by (auto simp: hp sv END_MARK_def)
  have p0: "indexOf [] START_MARK = None
       \<or> (\<exists>i j. indexOf [] START_MARK = Some i \<and> indexOf [] END_MARK = Some j
             \<and> i < j \<and> indexOf (drop (j + length END_MARK) []) START_MARK = None)"
    by (simp add: START_MARK_def)
  have f0: "(files ?none (handoff_path ''/mem'') = Some [] \<and> [] = utf8_decode [])
       \<or> (\<not> existsSync ?none (handoff_path ''/mem'') \<and> [] = [])"
    by (simp add: existsSync_def utf8_decode.simps)
  note r0 = one_start_marker_after_merge[where c = ?c and bullets = "[''[DONE] Implemented login'']"
      and sec = ?sec and content = "[]" and bytes = "[]" and fs = ?none and m = "''/mem''",
      OF refl s f0 p0]
  have second: "files (write_handoff ?none ''/mem'' ?c [''[DONE] Implemented login''])
       = [''/mem/session-handoff.md'' \<mapsto> ''<!-- AUTO-CAPTURED: 2025-01-02 10:30 -->\<newline>- [DONE] Implemented login\<newline><!-- END AUTO-CAPTURED -->'' @ ''\<newline>'']"
    using r0 by (auto simp: hp sv START_MARK_def nl_def)
  from first second s i j a show ?thesis by simp
qed

text \<open>
  Claim C3 fails as stated. A prior document that holds a start marker and no end marker
  (the end marker was lost in an edit) takes the branch that prepends: the merged
  document has two start markers, the new one at its head and the old one after it. A
  prior document with two sections keeps the second one: the merge replaces the first.
  With the end marker before the start marker the splice keeps the old start marker
  after the new section. And a bullet that quotes the start marker brings a second one
  with it.
\<close>

theorem one_section_counterexample:
  "(let new = files (write_handoff \<lparr>files = [''/mem/session-handoff.md'' \<mapsto> ''<!-- AUTO-CAPTURED: 2025-01-01 09:00 -->\<newline>- old\<newline>''], dirs = {''/mem''}, cursor_docs = Map.empty\<rparr> ''/mem'' \<lparr>dateStr = ''2025-01-02'', timeStr = ''10:30''\<rparr> [''[DONE] Implemented login''])
                ''/mem/session-handoff.md''
    in new = Some (''<!-- AUTO-CAPTURED: 2025-01-02 10:30 -->\<newline>- [DONE] Implemented login\<newline><!-- END AUTO-CAPTURED -->'' @ ''\<newline>\<newline><!-- AUTO-CAPTURED: 2025-01-01 09:00 -->\<newline>- old\<newline>'')
       \<and> map_option (occurrences START_MARK) new = Some [0, 96])
   \<and> (let new = files (write_handoff \<lparr>files = [''/mem/session-handoff.md'' \<mapsto> ''<!-- AUTO-CAPTURED: 2025-01-01 09:00 -->\<newline>- old\<newline><!-- END AUTO-CAPTURED -->\<newline><!-- AUTO-CAPTURED: 2024-12-31 08:00 -->\<newline>- older\<newline><!-- END AUTO-CAPTURED -->''], dirs = {''/mem''}, cursor_docs = Map.empty\<rparr> ''/mem'' \<lparr>dateStr = ''2025-01-02'', timeStr = ''10:30''\<rparr> [''[DONE] Implemented login''])
                ''/mem/session-handoff.md''
    in new = Some (''<!-- AUTO-CAPTURED: 2025-01-02 10:30 -->\<newline>- [DONE] Implemented login\<newline><!-- END AUTO-CAPTURED -->'' @ ''\<newline><!-- AUTO-CAPTURED: 2024-12-31 08:00 -->\<newline>- older\<newline><!-- END AUTO-CAPTURED -->'')
       \<and> map_option (occurrences START_MARK) new = Some [0, 95])
   \<and> (let new = files (write_handoff \<lparr>files = [''/mem/session-handoff.md'' \<mapsto> ''<!-- END AUTO-CAPTURED -->\<newline><!-- AUTO-CAPTURED: 2025-01-01 09:00 -->\<newline>- old\<newline>''], dirs = {''/mem''}, cursor_docs = Map.empty\<rparr> ''/mem'' \<lparr>dateStr = ''2025-01-02'', timeStr = ''10:30''\<rparr> [''[DONE] Implemented login''])
                ''/mem/session-handoff.md''
    in new = Some (''<!-- END AUTO-CAPTURED -->\<newline>'' @ ''<!-- AUTO-CAPTURED: 2025-01-02 10:30 -->\<newline>- [DONE] Implemented login\<newline><!-- END AUTO-CAPTURED -->'' @ ''\<newline><!-- AUTO-CAPTURED: 2025-01-01 09:00 -->\<newline>- old\<newline>'')
       \<and> map_option (occurrences START_MARK) new = Some [27, 122])
   \<and> (let new = files (write_handoff \<lparr>files = Map.empty, dirs = {}, cursor_docs = Map.empty\<rparr>
                ''/mem'' \<lparr>dateStr = ''2025-01-02'', timeStr = ''10:30''\<rparr> [''[OPEN] explain <!-- AUTO-CAPTURED in the README''])
                ''/mem/session-handoff.md''
    in map_option (occurrences START_MARK) new = Some [0, 58])"
  by code_simp

section \<open>Properties of the classifier client\<close>

lemma run_hook_silent:
  assumes "transcript_path p \<noteq> []" and "cwd p \<noteq> []" and "session_id p \<noteq> []"
      and "getLatestExchange h (JSON_parse rt) fs (transcript_path p)
             (getCursor h fs (cwd p) (session_id p)) = Inr (Some result)"
      and "callSmallModel h rt e (setCursor h fs (cwd p) (session_id p) (totalLines result))
             (buildPrompt h (text result)) = Inl err
           \<or> callSmallModel h rt e (setCursor h fs (cwd p) (session_id p) (totalLines result))
             (buildPrompt h (text result)) = Inr JNull"
  shows "run_hook h rt e c (Some p) fs = setCursor h fs (cwd p) (session_id p) (totalLines result)"
proof -
  have "capture h rt e p fs = (setCursor h fs (cwd p) (session_id p) (totalLines result), None)"
    using assms by (auto simp: capture_def Let_def)
  then show ?thesis
    by (cases h) (simp_all add: run_hook_def main_dev_logger_def main_context_keeper_def)
qed

lemma config_key_first:
  "config_key parse fs ps
     = (case List.map_filter (config_apiKey parse fs) ps of [] \<Rightarrow> None | k # _ \<Rightarrow> Some k)"
proof (induction ps)
  case Nil
  then show ?case by (simp add: map_filter_simps)
next
  case (Cons q ps)
  show ?case
  proof (cases "config_apiKey parse fs q")
    case None
    then have "config_key parse fs (q # ps) = config_key parse fs ps"
      by (auto simp: config_apiKey_def existsSync_def readFileSync_def getprop_def
          split: option.splits if_splits)
    with None Cons show ?thesis by (simp add: map_filter_simps)
  next
    case (Some k)
    then have "config_key parse fs (q # ps) = Some k"
      by (auto simp: config_apiKey_def existsSync_def readFileSync_def getprop_def
          split: option.splits if_splits)
    with Some show ?thesis by (simp add: map_filter_simps)
  qed
qed

lemma key_file_first:
  "key_file fs ps
     = (case find (existsSync fs) ps of
          None \<Rightarrow> Inr JNull
        | Some q \<Rightarrow>
            (case files fs q of
               None \<Rightarrow> Inl IOError
             | Some bytes \<Rightarrow> Inr (JStr (trim (utf8_decode bytes)))))"
  by (induction ps) (simp_all add: readFileSync_def split: option.splits)

lemma resolveApiKey_order:
  "resolveApiKey h parse e fs =
     (case nonempty (ANTHROPIC_API_KEY e) of
        Some k \<Rightarrow> Inr (JStr k)
      | None \<Rightarrow>
          (case List.map_filter (config_apiKey parse fs) (config_candidates h (home_dir e)) of
             k # _ \<Rightarrow> Inr k
           | [] \<Rightarrow>
               (case find (existsSync fs)
                       [path_join [home_dir e, ''.config'', ''anthropic'', ''api_key''],
                        path_join [home_dir e, ''.anthropic'', ''api_key'']] of
                  None \<Rightarrow> Inr JNull
                | Some q \<Rightarrow>
                    (case files fs q of
                       None \<Rightarrow> Inl IOError
                     | Some bytes \<Rightarrow> Inr (JStr (trim (utf8_decode bytes)))))))"
  unfolding resolveApiKey_def Let_def config_key_first key_file_first[symmetric]
  by (simp split: option.splits list.splits)

text \<open>
  Claim C9, as amended. With the credential that \<open>resolveApiKey\<close> returns, the classifier
  call gives \<open>null\<close> when the credential is missing and when the response is not a
  success; it raises when the network fails and when the body of a successful response is
  not JSON. In each of the four cases the run ends in the state that storing the cursor
  gave: no document is written, the cursor is the offset just stored, and the exception
  is caught by \<open>main\<close>. The credential, for every environment and every state of the
  files, is the environment variable when it is set and not empty; otherwise the truthy
  \<open>apiKey\<close> of the first configuration file, in the order of the candidates, that holds
  one; otherwise the trimmed content of the first key file that exists, \<open>null\<close> when
  none does.
\<close>

theorem classifier_failure_is_silent:
  assumes "transcript_path p \<noteq> []" and "cwd p \<noteq> []" and "session_id p \<noteq> []"
      and "getLatestExchange h (JSON_parse rt) fs (transcript_path p)
             (getCursor h fs (cwd p) (session_id p)) = Inr (Some result)"
      and "fs1 = setCursor h fs (cwd p) (session_id p) (totalLines result)"
      and "resolveApiKey h (JSON_parse rt) e fs1 = Inr key"
      and "req = \<lparr>api_key = key, model = model_name h, max_tokens = maxTokens h,
                   prompt = buildPrompt h (text result)\<rparr>"
      and "\<not> truthy key \<or> fetch rt req = Rejected \<or> fetch rt req = Response False body
           \<or> fetch rt req = Response True None"
  shows "callSmallModel h rt e fs1 (buildPrompt h (text result))
           = (if \<not> truthy key then Inr JNull
              else (case fetch rt req of
                      Rejected \<Rightarrow> Inl FetchFailed
                    | Response ok b \<Rightarrow> if ok then Inl SyntaxError else Inr JNull))
         \<and> run_hook h rt e c (Some p) fs = fs1
         \<and> files (run_hook h rt e c (Some p) fs) = files fs
         \<and> getCursor h (run_hook h rt e c (Some p) fs) (cwd p) (session_id p) = totalLines result
         \<and> resolveApiKey h parse e' fs' =
             (case nonempty (ANTHROPIC_API_KEY e') of
                Some k \<Rightarrow> Inr (JStr k)
              | None \<Rightarrow>
                  (case List.map_filter (config_apiKey parse fs')
                          (config_candidates h (home_dir e')) of
                     k # _ \<Rightarrow> Inr k
                   | [] \<Rightarrow>
                       (case find (existsSync fs')
                               [path_join [home_dir e', ''.config'', ''anthropic'', ''api_key''],
                                path_join [home_dir e', ''.anthropic'', ''api_key'']] of
                          None \<Rightarrow> Inr JNull
                        | Some q \<Rightarrow>
                            (case files fs' q of
                               None \<Rightarrow> Inl IOError
                             | Some bytes \<Rightarrow> Inr (JStr (trim (utf8_decode bytes)))))))"
proof -
  have call: "callSmallModel h rt e fs1 (buildPrompt h (text result))
           = (if \<not> truthy key then Inr JNull
              else (case fetch rt req of
                      Rejected \<Rightarrow> Inl FetchFailed
                    | Response ok b \<Rightarrow> if ok then Inl SyntaxError else Inr JNull))"
    using assms(6-8) by (auto simp: callSmallModel_def)
  then have "(\<exists>err. callSmallModel h rt e fs1 (buildPrompt h (text result)) = Inl err)
      \<or> callSmallModel h rt e fs1 (buildPrompt h (text result)) = Inr JNull"
    using assms(8) by auto
  then have run: "run_hook h rt e c (Some p) fs = fs1"
    using assms(1-5) run_hook_silent[of p h rt fs result e _ c] by auto
  then have cur: "getCursor h (run_hook h rt e c (Some p) fs) (cwd p) (session_id p) = totalLines result"
    by (simp add: assms(5) getCursor_setCursor)
  from call run cur assms(5) resolveApiKey_order[of h parse e' fs'] show ?thesis
    by simp
qed

theorem classifier_failure_is_silent_witness:
  \<open>callSmallModel DevLogger \<lparr>JSON_parse = (\<lambda>l. if l = ''{"type":"user","message":{"content":"fix it"}}'' then Some (JObj [(''type'', JStr ''user''), (''message'', JObj [(''content'', JStr ''fix it'')])])
            else if l = ''{"type":"assistant","message":{"content":[{"type":"tool_use","name":"Bash","input":{"command":"ls"}}]}}''
            then Some (JObj [(''type'', JStr ''assistant''),
                   (''message'', JObj [(''content'', JArr [JObj [(''type'', JStr ''tool_use''),
                      (''name'', JStr ''Bash''), (''input'', JObj [(''command'', JStr ''ls'')])]])])])
            else None), fetch = (\<lambda>r. Rejected)\<rparr> \<lparr>ANTHROPIC_API_KEY = Some ''sk-1'', USERPROFILE = None, HOME = Some ''/home/u''\<rparr>
      (setCursor DevLogger \<lparr>files = [''/t.jsonl'' \<mapsto> ''{"type":"user","message":{"content":"fix it"}}\<newline>{not json\<newline>\<newline>{"type":"assistant","message":{"content":[{"type":"tool_use","name":"Bash","input":{"command":"ls"}}]}}\<newline>''], dirs = {}, cursor_docs = Map.empty\<rparr> ''/proj'' ''s1'' 3)
      (buildPrompt DevLogger ''USER: fix it\<newline>[Bash: ls]'') = Inl FetchFailed
   \<and> files (run_hook DevLogger \<lparr>JSON_parse = (\<lambda>l. if l = ''{"type":"user","message":{"content":"fix it"}}'' then Some (JObj [(''type'', JStr ''user''), (''message'', JObj [(''content'', JStr ''fix it'')])])
            else if l = ''{"type":"assistant","message":{"content":[{"type":"tool_use","name":"Bash","input":{"command":"ls"}}]}}''
            then Some (JObj [(''type'', JStr ''assistant''),
                   (''message'', JObj [(''content'', JArr [JObj [(''type'', JStr ''tool_use''),
                      (''name'', JStr ''Bash''), (''input'', JObj [(''command'', JStr ''ls'')])]])])])
            else None), fetch = (\<lambda>r. Rejected)\<rparr> \<lparr>ANTHROPIC_API_KEY = Some ''sk-1'', USERPROFILE = None, HOME = Some ''/home/u''\<rparr> \<lparr>dateStr = ''2025-01-02'', timeStr = ''10:30''\<rparr> (Some \<lparr>session_id = ''s1'', transcript_path = ''/t.jsonl'', cwd = ''/proj''\<rparr>) \<lparr>files = [''/t.jsonl'' \<mapsto> ''{"type":"user","message":{"content":"fix it"}}\<newline>{not json\<newline>\<newline>{"type":"assistant","message":{"content":[{"type":"tool_use","name":"Bash","input":{"command":"ls"}}]}}\<newline>''], dirs = {}, cursor_docs = Map.empty\<rparr>) = files \<lparr>files = [''/t.jsonl'' \<mapsto> ''{"type":"user","message":{"content":"fix it"}}\<newline>{not json\<newline>\<newline>{"type":"assistant","message":{"content":[{"type":"tool_use","name":"Bash","input":{"command":"ls"}}]}}\<newline>''], dirs = {}, cursor_docs = Map.empty\<rparr>
   \<and> getCursor DevLogger (run_hook DevLogger \<lparr>JSON_parse = (\<lambda>l. if l = ''{"type":"user","message":{"content":"fix it"}}'' then Some (JObj [(''type'', JStr ''user''), (''message'', JObj [(''content'', JStr ''fix it'')])])
            else if l = ''{"type":"assistant","message":{"content":[{"type":"tool_use","name":"Bash","input":{"command":"ls"}}]}}''
            then Some (JObj [(''type'', JStr ''assistant''),
                   (''message'', JObj [(''content'', JArr [JObj [(''type'', JStr ''tool_use''),
                      (''name'', JStr ''Bash''), (''input'', JObj [(''command'', JStr ''ls'')])]])])])
            else None), fetch = (\<lambda>r. Rejected)\<rparr> \<lparr>ANTHROPIC_API_KEY = Some ''sk-1'', USERPROFILE = None, HOME = Some ''/home/u''\<rparr> \<lparr>dateStr = ''2025-01-02'', timeStr = ''10:30''\<rparr> (Some \<lparr>session_id = ''s1'', transcript_path = ''/t.jsonl'', cwd = ''/proj''\<rparr>) \<lparr>files = [''/t.jsonl'' \<mapsto> ''{"type":"user","message":{"content":"fix it"}}\<newline>{not json\<newline>\<newline>{"type":"assistant","message":{"content":[{"type":"tool_use","name":"Bash","input":{"command":"ls"}}]}}\<newline>''], dirs = {}, cursor_docs = Map.empty\<rparr>) ''/proj'' ''s1'' = 3
   \<and> resolveApiKey DevLogger (\<lambda>l. if l = ''{"apiKey":"sk-first"}'' then Some (JObj [(''apiKey'', JStr ''sk-first'')])
            else if l = ''{"apiKey":"sk-second"}'' then Some (JObj [(''apiKey'', JStr ''sk-second'')])
            else if l = ''{"model":"haiku"}'' then Some (JObj [(''model'', JStr ''haiku'')])
            else None) \<lparr>ANTHROPIC_API_KEY = Some ''sk-1'', USERPROFILE = None, HOME = Some ''/home/u''\<rparr> \<lparr>files = [''/home/u/.memory-mcp/config.json'' \<mapsto> ''{"apiKey":"sk-first"}'', ''/home/u/.nlc/config.json'' \<mapsto> ''{"apiKey":"sk-second"}''], dirs = {}, cursor_docs = Map.empty\<rparr> = Inr (JStr ''sk-1'')
   \<and> resolveApiKey DevLogger (\<lambda>l. if l = ''{"apiKey":"sk-first"}'' then Some (JObj [(''apiKey'', JStr ''sk-first'')])
            else if l = ''{"apiKey":"sk-second"}'' then Some (JObj [(''apiKey'', JStr ''sk-second'')])
            else if l = ''{"model":"haiku"}'' then Some (JObj [(''model'', JStr ''haiku'')])
            else None) \<lparr>ANTHROPIC_API_KEY = None, USERPROFILE = None, HOME = Some ''/home/u''\<rparr> \<lparr>files = [''/home/u/.memory-mcp/config.json'' \<mapsto> ''{"apiKey":"sk-first"}'', ''/home/u/.nlc/config.json'' \<mapsto> ''{"apiKey":"sk-second"}''], dirs = {}, cursor_docs = Map.empty\<rparr> = Inr (JStr ''sk-first'')
   \<and> resolveApiKey DevLogger (\<lambda>l. if l = ''{"apiKey":"sk-first"}'' then Some (JObj [(''apiKey'', JStr ''sk-first'')])
            else if l = ''{"apiKey":"sk-second"}'' then Some (JObj [(''apiKey'', JStr ''sk-second'')])
            else if l = ''{"model":"haiku"}'' then Some (JObj [(''model'', JStr ''haiku'')])
            else None) \<lparr>ANTHROPIC_API_KEY = None, USERPROFILE = None, HOME = Some ''/home/u''\<rparr> \<lparr>files = [''/home/u/.memory-mcp/config.json'' \<mapsto> ''{"model":"haiku"}'', ''/home/u/.nlc/config.json'' \<mapsto> ''{"apiKey":"sk-second"}'', ''/home/u/.config/anthropic/api_key'' \<mapsto> ''sk-file''], dirs = {}, cursor_docs = Map.empty\<rparr> = Inr (JStr ''sk-second'')
   \<and> resolveApiKey DevLogger (\<lambda>l. if l = ''{"apiKey":"sk-first"}'' then Some (JObj [(''apiKey'', JStr ''sk-first'')])
            else if l = ''{"apiKey":"sk-second"}'' then Some (JObj [(''apiKey'', JStr ''sk-second'')])
            else if l = ''{"model":"haiku"}'' then Some (JObj [(''model'', JStr ''haiku'')])
            else None) \<lparr>ANTHROPIC_API_KEY = None, USERPROFILE = None, HOME = Some ''/home/u''\<rparr> \<lparr>files = [''/home/u/.memory-mcp/config.json'' \<mapsto> ''{not json'', ''/home/u/.config/anthropic/api_key'' \<mapsto> ''  sk-file\<newline>'', ''/home/u/.anthropic/api_key'' \<mapsto> ''sk-other''], dirs = {}, cursor_docs = Map.empty\<rparr> = Inr (JStr ''sk-file'')
   \<and> resolveApiKey DevLogger (\<lambda>l. if l = ''{"apiKey":"sk-first"}'' then Some (JObj [(''apiKey'', JStr ''sk-first'')])
            else if l = ''{"apiKey":"sk-second"}'' then Some (JObj [(''apiKey'', JStr ''sk-second'')])
            else if l = ''{"model":"haiku"}'' then Some (JObj [(''model'', JStr ''haiku'')])
            else None) \<lparr>ANTHROPIC_API_KEY = None, USERPROFILE = None, HOME = Some ''/home/u''\<rparr> \<lparr>files = [''/home/u/.anthropic/api_key'' \<mapsto> ''sk-other\<newline>''], dirs = {}, cursor_docs = Map.empty\<rparr> = Inr (JStr ''sk-other'')
   \<and> resolveApiKey DevLogger (\<lambda>l. if l = ''{"apiKey":"sk-first"}'' then Some (JObj [(''apiKey'', JStr ''sk-first'')])
            else if l = ''{"apiKey":"sk-second"}'' then Some (JObj [(''apiKey'', JStr ''sk-second'')])
            else if l = ''{"model":"haiku"}'' then Some (JObj [(''model'', JStr ''haiku'')])
            else None) \<lparr>ANTHROPIC_API_KEY = None, USERPROFILE = None, HOME = Some ''/home/u''\<rparr> \<lparr>files = [''/t.jsonl'' \<mapsto> ''{"type":"user","message":{"content":"fix it"}}\<newline>{not json\<newline>\<newline>{"type":"assistant","message":{"content":[{"type":"tool_use","name":"Bash","input":{"command":"ls"}}]}}\<newline>''], dirs = {}, cursor_docs = Map.empty\<rparr> = Inr JNull\<close>
proof -
  let ?parse = \<open>(\<lambda>l. if l = ''{"type":"user","message":{"content":"fix it"}}'' then Some (JObj [(''type'', JStr ''user''), (''message'', JObj [(''content'', JStr ''fix it'')])])
            else if l = ''{"type":"assistant","message":{"content":[{"type":"tool_use","name":"Bash","input":{"command":"ls"}}]}}''
            then Some (JObj [(''type'', JStr ''assistant''),
                   (''message'', JObj [(''content'', JArr [JObj [(''type'', JStr ''tool_use''),
                      (''name'', JStr ''Bash''), (''input'', JObj [(''command'', JStr ''ls'')])]])])])
            else None)\<close>
  let ?cparse = \<open>(\<lambda>l. if l = ''{"apiKey":"sk-first"}'' then Some (JObj [(''apiKey'', JStr ''sk-first'')])
            else if l = ''{"apiKey":"sk-second"}'' then Some (JObj [(''apiKey'', JStr ''sk-second'')])
            else if l = ''{"model":"haiku"}'' then Some (JObj [(''model'', JStr ''haiku'')])
            else None)\<close>
  let ?rt = \<open>\<lparr>JSON_parse = (\<lambda>l. if l = ''{"type":"user","message":{"content":"fix it"}}'' then Some (JObj [(''type'', JStr ''user''), (''message'', JObj [(''content'', JStr ''fix it'')])])
            else if l = ''{"type":"assistant","message":{"content":[{"type":"tool_use","name":"Bash","input":{"command":"ls"}}]}}''
            then Some (JObj [(''type'', JStr ''assistant''),
                   (''message'', JObj [(''content'', JArr [JObj [(''type'', JStr ''tool_use''),
                      (''name'', JStr ''Bash''), (''input'', JObj [(''command'', JStr ''ls'')])]])])])
            else None), fetch = (\<lambda>r. Rejected)\<rparr>\<close>
  let ?e = "\<lparr>ANTHROPIC_API_KEY = Some ''sk-1'', USERPROFILE = None, HOME = Some ''/home/u''\<rparr>"
  let ?none = "\<lparr>ANTHROPIC_API_KEY = None, USERPROFILE = None, HOME = Some ''/home/u''\<rparr>"
  let ?c = \<open>''{"type":"user","message":{"content":"fix it"}}\<newline>{not json\<newline>\<newline>{"type":"assistant","message":{"content":[{"type":"tool_use","name":"Bash","input":{"command":"ls"}}]}}\<newline>''\<close>
  let ?fs = \<open>\<lparr>files = [''/t.jsonl'' \<mapsto> ''{"type":"user","message":{"content":"fix it"}}\<newline>{not json\<newline>\<newline>{"type":"assistant","message":{"content":[{"type":"tool_use","name":"Bash","input":{"command":"ls"}}]}}\<newline>''], dirs = {}, cursor_docs = Map.empty\<rparr>\<close>
  let ?fsA = \<open>\<lparr>files = [''/home/u/.memory-mcp/config.json'' \<mapsto> ''{"apiKey":"sk-first"}'', ''/home/u/.nlc/config.json'' \<mapsto> ''{"apiKey":"sk-second"}''], dirs = {}, cursor_docs = Map.empty\<rparr>\<close>
  let ?fsB = \<open>\<lparr>files = [''/home/u/.memory-mcp/config.json'' \<mapsto> ''{"model":"haiku"}'', ''/home/u/.nlc/config.json'' \<mapsto> ''{"apiKey":"sk-second"}'', ''/home/u/.config/anthropic/api_key'' \<mapsto> ''sk-file''], dirs = {}, cursor_docs = Map.empty\<rparr>\<close>
  let ?fsC = \<open>\<lparr>files = [''/home/u/.memory-mcp/config.json'' \<mapsto> ''{not json'', ''/home/u/.config/anthropic/api_key'' \<mapsto> ''  sk-file\<newline>'', ''/home/u/.anthropic/api_key'' \<mapsto> ''sk-other''], dirs = {}, cursor_docs = Map.empty\<rparr>\<close>
  let ?fsD = \<open>\<lparr>files = [''/home/u/.anthropic/api_key'' \<mapsto> ''sk-other\<newline>''], dirs = {}, cursor_docs = Map.empty\<rparr>\<close>
  let ?p = "\<lparr>session_id = ''s1'', transcript_path = ''/t.jsonl'', cwd = ''/proj''\<rparr>"
  let ?ck = "\<lparr>dateStr = ''2025-01-02'', timeStr = ''10:30''\<rparr>"
  let ?result = "\<lparr>text = ''USER: fix it\<newline>[Bash: ls]'', hasToolUse = True, totalLines = 3\<rparr>"
  let ?fsa = "setCursor DevLogger ?fs ''/proj'' ''s1'' 3"
  let ?req = "\<lparr>api_key = JStr ''sk-1'', model = model_name DevLogger, max_tokens = maxTokens DevLogger,
                prompt = buildPrompt DevLogger (text ?result)\<rparr>"
  have d: "utf8_decode ?c = ?c"
    by (rule utf8_decode_ascii) (simp add: in_range_def)
  have l: \<open>nonblank_lines (utf8_decode ?c) = [''{"type":"user","message":{"content":"fix it"}}'', ''{not json'', ''{"type":"assistant","message":{"content":[{"type":"tool_use","name":"Bash","input":{"command":"ls"}}]}}'']\<close>
    unfolding d by (simp add: nonblank_lines_def trim_def is_space_def)
  have g: "getCursor DevLogger ?fs (cwd ?p) (session_id ?p) = 0"
    by (simp add: getCursor_docs)
  have e: \<open>extract_lines DevLogger ?parse [''{"type":"user","message":{"content":"fix it"}}'', ''{not json'', ''{"type":"assistant","message":{"content":[{"type":"tool_use","name":"Bash","input":{"command":"ls"}}]}}'']
      = ([''USER: fix it'', ''[Bash: ls]''], True)\<close>
    by (simp add: extract_lines_def process_line_def getprop_def nullish_def
        message_content_def block_step_def describe_tool_def js_or_def bash_command_def
        user_text_def)
  have x: "getLatestExchange DevLogger (JSON_parse ?rt) ?fs (transcript_path ?p)
             (getCursor DevLogger ?fs (cwd ?p) (session_id ?p)) = Inr (Some ?result)"
    unfolding g by (simp add: getLatestExchange_file l e nl_def)
  have s: "?fsa = setCursor DevLogger ?fs (cwd ?p) (session_id ?p) (totalLines ?result)"
    by simp
  have k: "resolveApiKey DevLogger (JSON_parse ?rt) ?e ?fsa = Inr (JStr ''sk-1'')"
    by (simp add: resolveApiKey_def nonempty_def)
  have f: "\<not> truthy (JStr ''sk-1'') \<or> fetch ?rt ?req = Rejected
      \<or> fetch ?rt ?req = Response False None \<or> fetch ?rt ?req = Response True None"
    by simp
  have n1: "transcript_path ?p \<noteq> []" and n2: "cwd ?p \<noteq> []" and n3: "session_id ?p \<noteq> []"
    by simp_all
  note ev = nonempty_def home_dir_def config_candidates_def path_join_def config_apiKey_def
      map_filter_simps existsSync_def nullish_def trim_def is_space_def
      utf8_decode.simps utf8_step.simps in_range_def
  have a0: "resolveApiKey DevLogger ?cparse ?e ?fsA = Inr (JStr ''sk-1'')"
    using classifier_failure_is_silent[where h = DevLogger and p = ?p and fs = ?fs and rt = ?rt
      and e = ?e and result = ?result and ?fs1.0 = ?fsa and key = "JStr ''sk-1''" and req = ?req
      and body = None and c = ?ck and parse = ?cparse and e' = ?e and fs' = ?fsA,
      OF n1 n2 n3 x s k refl f, THEN conjunct2, THEN conjunct2, THEN conjunct2, THEN conjunct2]
    by (simp add: ev)
  have a1: "resolveApiKey DevLogger ?cparse ?none ?fsA = Inr (JStr ''sk-first'')"
    using classifier_failure_is_silent[where h = DevLogger and p = ?p and fs = ?fs and rt = ?rt
      and e = ?e and result = ?result and ?fs1.0 = ?fsa and key = "JStr ''sk-1''" and req = ?req
      and body = None and c = ?ck and parse = ?cparse and e' = ?none and fs' = ?fsA,
      OF n1 n2 n3 x s k refl f, THEN conjunct2, THEN conjunct2, THEN conjunct2, THEN conjunct2]
    by (simp add: ev)
  have a2: "resolveApiKey DevLogger ?cparse ?none ?fsB = Inr (JStr ''sk-second'')"
    using classifier_failure_is_silent[where h = DevLogger and p = ?p and fs = ?fs and rt = ?rt
      and e = ?e and result = ?result and ?fs1.0 = ?fsa and key = "JStr ''sk-1''" and req = ?req
      and body = None and c = ?ck and parse = ?cparse and e' = ?none and fs' = ?fsB,
      OF n1 n2 n3 x s k refl f, THEN conjunct2, THEN conjunct2, THEN conjunct2, THEN conjunct2]
    by (simp add: ev)
  have a3: "resolveApiKey DevLogger ?cparse ?none ?fsC = Inr (JStr ''sk-file'')"
    using classifier_failure_is_silent[where h = DevLogger and p = ?p and fs = ?fs and rt = ?rt
      and e = ?e and result = ?result and ?fs1.0 = ?fsa and key = "JStr ''sk-1''" and req = ?req
      and body = None and c = ?ck and parse = ?cparse and e' = ?none and fs' = ?fsC,
      OF n1 n2 n3 x s k refl f, THEN conjunct2, THEN conjunct2, THEN conjunct2, THEN conjunct2]
    by (simp add: ev)
  have a4: "resolveApiKey DevLogger ?cparse ?none ?fsD = Inr (JStr ''sk-other'')"
    using classifier_failure_is_silent[where h = DevLogger and p = ?p and fs = ?fs and rt = ?rt
      and e = ?e and result = ?result and ?fs1.0 = ?fsa and key = "JStr ''sk-1''" and req = ?req
      and body = None and c = ?ck and parse = ?cparse and e' = ?none and fs' = ?fsD,
      OF n1 n2 n3 x s k refl f, THEN conjunct2, THEN conjunct2, THEN conjunct2, THEN conjunct2]
    by (simp add: ev)
  have a5: "resolveApiKey DevLogger ?cparse ?none ?fs = Inr JNull"
    using classifier_failure_is_silent[where h = DevLogger and p = ?p and fs = ?fs and rt = ?rt
      and e = ?e and result = ?result and ?fs1.0 = ?fsa and key = "JStr ''sk-1''" and req = ?req
      and body = None and c = ?ck and parse = ?cparse and e' = ?none and fs' = ?fs,
      OF n1 n2 n3 x s k refl f, THEN conjunct2, THEN conjunct2, THEN conjunct2, THEN conjunct2]
    by (simp add: ev)
  from classifier_failure_is_silent[where h = DevLogger and p = ?p and fs = ?fs and rt = ?rt
      and e = ?e and result = ?result and ?fs1.0 = ?fsa and key = "JStr ''sk-1''" and req = ?req
      and body = None and c = ?ck and parse = ?cparse and e' = ?e and fs' = ?fs,
      OF n1 n2 n3 x s k refl f]
  have
    "callSmallModel DevLogger ?rt ?e ?fsa (buildPrompt DevLogger ''USER: fix it\<newline>[Bash: ls]'') = Inl FetchFailed
     \<and> files (run_hook DevLogger ?rt ?e ?ck (Some ?p) ?fs) = files ?fs
     \<and> getCursor DevLogger (run_hook DevLogger ?rt ?e ?ck (Some ?p) ?fs) ''/proj'' ''s1'' = 3"
    by (simp add: getCursor_setCursor)
  with a0 a1 a2 a3 a4 a5 show ?thesis by simp
qed

text \<open>
  Claim C9 fails as stated. With a credential present and the network down, \<open>fetch\<close>
  rejects and the classifier call raises; it does not return \<open>null\<close>.
\<close>

theorem classifier_network_error_counterexample:
  \<open>callSmallModel DevLogger \<lparr>JSON_parse = (\<lambda>l. if l = ''{"type":"user","message":{"content":"fix it"}}'' then Some (JObj [(''type'', JStr ''user''), (''message'', JObj [(''content'', JStr ''fix it'')])])
            else if l = ''{"type":"assistant","message":{"content":[{"type":"tool_use","name":"Bash","input":{"command":"ls"}}]}}''
            then Some (JObj [(''type'', JStr ''assistant''),
                   (''message'', JObj [(''content'', JArr [JObj [(''type'', JStr ''tool_use''),
                      (''name'', JStr ''Bash''), (''input'', JObj [(''command'', JStr ''ls'')])]])])])
            else None), fetch = (\<lambda>r. Rejected)\<rparr> \<lparr>ANTHROPIC_API_KEY = Some ''sk-1'', USERPROFILE = None, HOME = Some ''/home/u''\<rparr> \<lparr>files = [''/t.jsonl'' \<mapsto> ''{"type":"user","message":{"content":"fix it"}}\<newline>{not json\<newline>\<newline>{"type":"assistant","message":{"content":[{"type":"tool_use","name":"Bash","input":{"command":"ls"}}]}}\<newline>''], dirs = {}, cursor_docs = Map.empty\<rparr> ''prompt'' = Inl FetchFailed
   \<and> callSmallModel DevLogger \<lparr>JSON_parse = (\<lambda>l. if l = ''{"type":"user","message":{"content":"fix it"}}'' then Some (JObj [(''type'', JStr ''user''), (''message'', JObj [(''content'', JStr ''fix it'')])])
            else if l = ''{"type":"assistant","message":{"content":[{"type":"tool_use","name":"Bash","input":{"command":"ls"}}]}}''
            then Some (JObj [(''type'', JStr ''assistant''),
                   (''message'', JObj [(''content'', JArr [JObj [(''type'', JStr ''tool_use''),
                      (''name'', JStr ''Bash''), (''input'', JObj [(''command'', JStr ''ls'')])]])])])
            else None), fetch = (\<lambda>r. Rejected)\<rparr> \<lparr>ANTHROPIC_API_KEY = Some ''sk-1'', USERPROFILE = None, HOME = Some ''/home/u''\<rparr> \<lparr>files = [''/t.jsonl'' \<mapsto> ''{"type":"user","message":{"content":"fix it"}}\<newline>{not json\<newline>\<newline>{"type":"assistant","message":{"content":[{"type":"tool_use","name":"Bash","input":{"command":"ls"}}]}}\<newline>''], dirs = {}, cursor_docs = Map.empty\<rparr> ''prompt'' \<noteq> Inr JNull\<close>
  by (simp add: callSmallModel_def resolveApiKey_def nonempty_def)

section \<open>Properties of the sync engine\<close>

lemma copyIfDifferent_trace:
  "\<exists>es. trace (fst (copyIfDifferent w src dst)) = trace w @ es \<and> list_all is_file_event es"
  by (auto simp: copyIfDifferent_def record_event_def store_def Let_def
      split: option.splits place.splits)

lemma push_loop_trace:
  "\<exists>es. trace (fst (push_loop fs acc)) = trace (fst acc) @ es \<and> list_all is_file_event es"
proof (induction fs arbitrary: acc)
  case Nil
  then show ?case by simp
next
  case (Cons f fs)
  obtain w n where acc: "acc = (w, n)" by (cases acc)
  obtain w' b where c: "copyIfDifferent w (InMemory f) (InRepo f) = (w', b)"
    by (cases "copyIfDifferent w (InMemory f) (InRepo f)")
  from copyIfDifferent_trace[of w "InMemory f" "InRepo f"] c
  obtain es where es: "trace w' = trace w @ es" "list_all is_file_event es" by auto
  from Cons.IH[of "(w', if b then n + 1 else n)"]
  obtain es' where es': "trace (fst (push_loop fs (w', if b then n + 1 else n))) = trace w' @ es'"
      "list_all is_file_event es'" by auto
  show ?case
    using es es' by (simp add: acc c)
qed

lemma repo_only_loop_trace:
  "\<exists>es. trace (fst (repo_only_loop files' fs acc)) = trace (fst acc) @ es \<and> list_all is_file_event es"
proof (induction fs arbitrary: acc)
  case Nil
  then show ?case by simp
next
  case (Cons f fs)
  obtain w n where acc: "acc = (w, n)" by (cases acc)
  show ?case
  proof (cases "f \<in> set files'")
    case True
    with Cons.IH[of "(w, n)"] show ?thesis by (simp add: acc)
  next
    case False
    obtain w' b where c: "copyIfDifferent w (InRepo f) (InMemory f) = (w', b)"
      by (cases "copyIfDifferent w (InRepo f) (InMemory f)")
    from copyIfDifferent_trace[of w "InRepo f" "InMemory f"] c
    obtain es where es: "trace w' = trace w @ es" "list_all is_file_event es" by auto
    from Cons.IH[of "(w', if b then n + 1 else n)"]
    obtain es' where es': "trace (fst (repo_only_loop files' fs (w', if b then n + 1 else n))) = trace w' @ es'"
        "list_all is_file_event es'" by auto
    show ?thesis
      using es es' False by (simp add: acc c)
  qed
qed

lemma gitPush_trace:
  "\<exists>rest. trace (fst (gitPush g w)) = trace w @ GitPull # GitAdd # rest
          \<and> list_all is_commit_event rest"
  by (auto simp: gitPush_def gitPull_def record_event_def Let_def split: option.splits)

lemma syncPush_event_order:
  "(memoryDir w = None \<longrightarrow> syncPush g w = (w, 0))
   \<and> (memoryDir w \<noteq> None \<longrightarrow>
        (\<exists>copies rest. trace (fst (syncPush g w)) = trace w @ copies @ GitPull # GitAdd # rest
           \<and> list_all is_file_event copies \<and> list_all is_commit_event rest))"
proof (cases "memoryDir w")
  case None
  then show ?thesis by (simp add: syncPush_def)
next
  case (Some entries)
  let ?files = "getFilesToSync (memoryDir w)"
  let ?acc1 = "push_loop ?files (w, 0)"
  let ?acc2 = "repo_only_loop ?files (getFilesToSync (Some (repoDir (fst ?acc1)))) ?acc1"
  obtain es1 where es1: "trace (fst ?acc1) = trace w @ es1" "list_all is_file_event es1"
    using push_loop_trace[of ?files "(w, 0)"] by auto
  obtain es2 where es2: "trace (fst ?acc2) = trace (fst ?acc1) @ es2" "list_all is_file_event es2"
    using repo_only_loop_trace[of ?files _ ?acc1] by blast
  obtain rest where rest: "trace (fst (gitPush g (fst ?acc2))) = trace (fst ?acc2) @ GitPull # GitAdd # rest"
      "list_all is_commit_event rest"
    using gitPush_trace[of g "fst ?acc2"] by blast
  have "trace (fst (syncPush g w)) = trace w @ (es1 @ es2) @ GitPull # GitAdd # rest"
    using Some es1 es2 rest by (simp add: syncPush_def Let_def)
  moreover have "list_all is_file_event (es1 @ es2)" using es1 es2 by simp
  ultimately have "\<exists>copies rest. trace (fst (syncPush g w)) = trace w @ copies @ GitPull # GitAdd # rest
           \<and> list_all is_file_event copies \<and> list_all is_commit_event rest"
    using rest(2) by (intro exI[of _ "es1 @ es2"] exI[of _ rest]) simp
  with Some show ?thesis by simp
qed

text \<open>
  Claim C7 does not hold of the code. The local \<open>MEMORY.md\<close> has a new line, the
  working tree of the repository is at its last commit, and another machine has pushed
  a commit since; git refuses \<open>pull --rebase\<close> on a working tree with changes and
  refuses a push that is behind. \<open>syncPush\<close> compares the document with the stale copy
  and copies it into the working tree first; the pull is its third step, it runs on the
  changed working tree and fails, though it would have gone through before the copy. The
  commit of the other machine is not taken in, and the working tree holds the local
  document alone. \<open>syncPull\<close> on the same state pulls before it compares.
\<close>

theorem push_copies_before_pull:
  "(let g = \<lparr>pull_result = (\<lambda>(r, h). if tree_differs r h then None else Some ([(''MEMORY.md'', ''# Memory\<newline>uses node 20\<newline>'')], [(''MEMORY.md'', ''# Memory\<newline>uses node 20\<newline>'')])), add_ok = True, commit_ok = True, push_ok = False\<rparr>;
        w = \<lparr>memoryDir = Some [(''MEMORY.md'', ''# Memory\<newline>uses pnpm\<newline>'')],
             repoDir = [(''MEMORY.md'', ''# Memory\<newline>'')],
             HEAD = [(''MEMORY.md'', ''# Memory\<newline>'')], trace = []\<rparr>
    in trace (fst (syncPush g w))
         = [Compared (InMemory ''MEMORY.md'') (InRepo ''MEMORY.md''),
            Copied (InMemory ''MEMORY.md'') (InRepo ''MEMORY.md''),
            GitPull, GitAdd, GitDiff, GitCommit, GitPush]
       \<and> pull_result g (repoDir w, HEAD w) = Some ([(''MEMORY.md'', ''# Memory\<newline>uses node 20\<newline>'')], [(''MEMORY.md'', ''# Memory\<newline>uses node 20\<newline>'')])
       \<and> pull_result g (repoDir (after_copies w), HEAD (after_copies w)) = None
       \<and> repoDir (fst (syncPush g w)) = [(''MEMORY.md'', ''# Memory\<newline>uses pnpm\<newline>'')]
       \<and> trace (fst (syncPull g w))
         = [GitPull, Compared (InRepo ''MEMORY.md'') (InMemory ''MEMORY.md''),
            Copied (InRepo ''MEMORY.md'') (InMemory ''MEMORY.md'')])"
  by code_simp

lemma map_of_put: "map_of (put f c es) g = (if g = f then Some c else map_of es g)"
  by (induction es) auto

lemma lookup_store: "lookup (store w p c) q = (if q = p then Some c else lookup w q)"
  by (cases p; cases q) (auto simp: lookup_def store_def map_of_put split: option.splits)

lemma lookup_record_event [simp]: "lookup (record_event ev w) q = lookup w q"
  by (simp add: lookup_def record_event_def split: place.splits)

lemma copyIfDifferent_same:
  assumes "lookup w src = Some c" and "lookup w dst = Some c"
  shows "copyIfDifferent w src dst = (record_event (Compared src dst) w, False)"
  using assms by (simp add: copyIfDifferent_def)

lemma copyIfDifferent_lookup_other:
  assumes "q \<noteq> dst"
  shows "lookup (fst (copyIfDifferent w src dst)) q = lookup w q"
  using assms
  by (simp add: copyIfDifferent_def Let_def lookup_store split: option.splits)

lemma copyIfDifferent_events:
  "\<exists>es. trace (fst (copyIfDifferent w src dst)) = trace w @ es
        \<and> set es \<subseteq> {Compared src dst, Copied src dst}"
  by (auto simp: copyIfDifferent_def record_event_def store_def Let_def
      split: option.splits place.splits)

lemma copy_to_memory_keeps_repo:
  "repoDir (fst (copyIfDifferent w (InRepo f) (InMemory f))) = repoDir w
   \<and> HEAD (fst (copyIfDifferent w (InRepo f) (InMemory f))) = HEAD w"
  by (simp add: copyIfDifferent_def record_event_def store_def Let_def split: option.splits)

lemma record_event_fields [simp]:
  "repoDir (record_event ev w) = repoDir w" "HEAD (record_event ev w) = HEAD w"
  "memoryDir (record_event ev w) = memoryDir w" "trace (record_event ev w) = trace w @ [ev]"
  by (simp_all add: record_event_def)

lemma push_loop_identical_doc:
  assumes "lookup w (InMemory f) = Some c" and "lookup w (InRepo f) = Some c"
  shows "lookup (fst (push_loop ds (w, n))) (InMemory f) = Some c
         \<and> lookup (fst (push_loop ds (w, n))) (InRepo f) = Some c
         \<and> (\<exists>es. trace (fst (push_loop ds (w, n))) = trace w @ es
                \<and> Copied (InMemory f) (InRepo f) \<notin> set es
                \<and> Copied (InRepo f) (InMemory f) \<notin> set es)"
  using assms
proof (induction ds arbitrary: w n)
  case Nil
  then show ?case by simp
next
  case (Cons d ds)
  obtain w' b where c: "copyIfDifferent w (InMemory d) (InRepo d) = (w', b)"
    by (cases "copyIfDifferent w (InMemory d) (InRepo d)")
  have w': "w' = fst (copyIfDifferent w (InMemory d) (InRepo d))" by (simp add: c)
  have m: "lookup w' (InMemory f) = Some c"
    using Cons.prems(1) by (simp add: w' copyIfDifferent_lookup_other)
  have r: "lookup w' (InRepo f) = Some c"
  proof (cases "d = f")
    case True
    with Cons.prems show ?thesis by (simp add: w' copyIfDifferent_same)
  next
    case False
    with Cons.prems(2) show ?thesis by (simp add: w' copyIfDifferent_lookup_other)
  qed
  obtain es where es: "trace w' = trace w @ es"
      "set es \<subseteq> {Compared (InMemory d) (InRepo d), Copied (InMemory d) (InRepo d)}"
    using copyIfDifferent_events[of w "InMemory d" "InRepo d"] w' by auto
  have no: "Copied (InMemory f) (InRepo f) \<notin> set es \<and> Copied (InRepo f) (InMemory f) \<notin> set es"
  proof (cases "d = f")
    case True
    with Cons.prems have "copyIfDifferent w (InMemory d) (InRepo d)
        = (record_event (Compared (InMemory d) (InRepo d)) w, False)"
      by (simp add: copyIfDifferent_same)
    with es(1) w' have "es = [Compared (InMemory d) (InRepo d)]" by simp
    then show ?thesis by simp
  next
    case False
    with es(2) show ?thesis by auto
  qed
  from Cons.IH[OF m r, of "if b then n + 1 else n"]
  obtain es' where es': "lookup (fst (push_loop ds (w', if b then n + 1 else n))) (InMemory f) = Some c"
      "lookup (fst (push_loop ds (w', if b then n + 1 else n))) (InRepo f) = Some c"
      "trace (fst (push_loop ds (w', if b then n + 1 else n))) = trace w' @ es'"
      "Copied (InMemory f) (InRepo f) \<notin> set es'" "Copied (InRepo f) (InMemory f) \<notin> set es'"
    by auto
  have "trace (fst (push_loop (d # ds) (w, n))) = trace w @ (es @ es')"
    using es(1) es'(3) by (simp add: c)
  moreover have "Copied (InMemory f) (InRepo f) \<notin> set (es @ es')
      \<and> Copied (InRepo f) (InMemory f) \<notin> set (es @ es')"
    using no es'(4,5) by simp
  ultimately show ?case
    using es'(1,2) by (simp add: c)
qed

lemma repo_only_loop_identical_doc:
  assumes "f \<in> set files'"
  shows "\<exists>es. trace (fst (repo_only_loop files' ds (w, n))) = trace w @ es
           \<and> Copied (InMemory f) (InRepo f) \<notin> set es
           \<and> Copied (InRepo f) (InMemory f) \<notin> set es"
proof (induction ds arbitrary: w n)
  case Nil
  then show ?case by simp
next
  case (Cons d ds)
  show ?case
  proof (cases "d \<in> set files'")
    case True
    with Cons.IH[of w n] show ?thesis by simp
  next
    case False
    with assms have df: "d \<noteq> f" by auto
    obtain w' b where c: "copyIfDifferent w (InRepo d) (InMemory d) = (w', b)"
      by (cases "copyIfDifferent w (InRepo d) (InMemory d)")
    obtain es where es: "trace w' = trace w @ es"
        "set es \<subseteq> {Compared (InRepo d) (InMemory d), Copied (InRepo d) (InMemory d)}"
      using copyIfDifferent_events[of w "InRepo d" "InMemory d"] c by auto
    from Cons.IH[of w' "if b then n + 1 else n"]
    obtain es' where es': "trace (fst (repo_only_loop files' ds (w', if b then n + 1 else n))) = trace w' @ es'"
        "Copied (InMemory f) (InRepo f) \<notin> set es'" "Copied (InRepo f) (InMemory f) \<notin> set es'"
      by auto
    have "trace (fst (repo_only_loop files' (d # ds) (w, n))) = trace w @ (es @ es')"
      using False es(1) es'(1) by (simp add: c)
    moreover have "Copied (InMemory f) (InRepo f) \<notin> set (es @ es')
        \<and> Copied (InRepo f) (InMemory f) \<notin> set (es @ es')"
      using es(2) es'(2,3) df by auto
    ultimately show ?thesis by blast
  qed
qed

lemma push_loop_all_identical:
  assumes "list_all (\<lambda>d. lookup w (InMemory d) \<noteq> None
                        \<and> lookup w (InMemory d) = lookup w (InRepo d)) ds"
  shows "repoDir (fst (push_loop ds (w, n))) = repoDir w
         \<and> HEAD (fst (push_loop ds (w, n))) = HEAD w"
  using assms
proof (induction ds arbitrary: w n)
  case Nil
  then show ?case by simp
next
  case (Cons d ds)
  from Cons.prems obtain c where c: "lookup w (InMemory d) = Some c" "lookup w (InRepo d) = Some c"
    by auto
  let ?w' = "record_event (Compared (InMemory d) (InRepo d)) w"
  have "list_all (\<lambda>d. lookup ?w' (InMemory d) \<noteq> None
                        \<and> lookup ?w' (InMemory d) = lookup ?w' (InRepo d)) ds"
    using Cons.prems by simp
  from Cons.IH[OF this, of n] show ?case
    by (simp add: copyIfDifferent_same[OF c])
qed

lemma repo_only_loop_keeps_repo:
  "repoDir (fst (repo_only_loop files' ds (w, n))) = repoDir w
   \<and> HEAD (fst (repo_only_loop files' ds (w, n))) = HEAD w"
proof (induction ds arbitrary: w n)
  case Nil
  then show ?case by simp
next
  case (Cons d ds)
  show ?case
  proof (cases "d \<in> set files'")
    case True
    with Cons.IH[of w n] show ?thesis by simp
  next
    case False
    obtain w' b where c: "copyIfDifferent w (InRepo d) (InMemory d) = (w', b)"
      by (cases "copyIfDifferent w (InRepo d) (InMemory d)")
    with copy_to_memory_keeps_repo[of w d] have "repoDir w' = repoDir w" "HEAD w' = HEAD w"
      by simp_all
    with Cons.IH[of w' "if b then n + 1 else n"] False show ?thesis
      by (simp add: c)
  qed
qed

lemma gitPull_trace: "trace (fst (gitPull g w)) = trace w @ [GitPull]"
  by (simp add: gitPull_def Let_def split: option.splits prod.splits)

lemma gitPush_events:
  "trace (fst (gitPush g w)) = trace w @ GitPull # GitAdd #
     (if \<not> add_ok g then []
      else if \<not> tree_differs (repoDir (fst (gitPull g w))) (HEAD (fst (gitPull g w))) then [GitDiff]
      else if \<not> commit_ok g then [GitDiff, GitCommit]
      else [GitDiff, GitCommit, GitPush])"
  by (simp add: gitPush_def Let_def gitPull_trace)

lemma gitPush_commit_only_if_staged:
  "\<exists>evs. trace (fst (gitPush g w)) = trace w @ evs
     \<and> (GitCommit \<in> set evs \<longrightarrow>
          tree_differs (repoDir (fst (gitPull g w))) (HEAD (fst (gitPull g w))))"
proof -
  let ?evs = "GitPull # GitAdd #
     (if \<not> add_ok g then []
      else if \<not> tree_differs (repoDir (fst (gitPull g w))) (HEAD (fst (gitPull g w))) then [GitDiff]
      else if \<not> commit_ok g then [GitDiff, GitCommit]
      else [GitDiff, GitCommit, GitPush])"
  have "GitCommit \<in> set ?evs \<longrightarrow>
      tree_differs (repoDir (fst (gitPull g w))) (HEAD (fst (gitPull g w)))"
    by simp
  with gitPush_events[of g w] show ?thesis by blast
qed

lemma gitPull_keeps_clean:
  assumes "\<not> tree_differs (repoDir w) (HEAD w)"
      and "\<forall>r h r' h'. pull_result g (r, h) = Some (r', h') \<and> \<not> tree_differs r h
             \<longrightarrow> \<not> tree_differs r' h'"
  shows "\<not> tree_differs (repoDir (fst (gitPull g w))) (HEAD (fst (gitPull g w)))"
proof (cases "pull_result g (repoDir w, HEAD w)")
  case None
  with assms(1) show ?thesis by (simp add: gitPull_def Let_def)
next
  case (Some s)
  obtain r' h' where s: "s = (r', h')" by (cases s)
  with Some assms have "\<not> tree_differs r' h'" by blast
  with Some s show ?thesis by (simp add: gitPull_def Let_def)
qed

lemma getFilesToSync_mem:
  assumes "d \<in> set (getFilesToSync (memoryDir w))"
  shows "lookup w (InMemory d) \<noteq> None \<and> tracked d"
proof (cases "memoryDir w")
  case None
  with assms show ?thesis by (simp add: getFilesToSync_def)
next
  case (Some entries)
  with assms have "d \<in> fst ` set entries" and t: "tracked d"
    by (auto simp: getFilesToSync_def)
  then have "map_of entries d \<noteq> None" by (simp add: map_of_eq_None_iff)
  with Some t show ?thesis by (simp add: lookup_def)
qed

lemma syncPush_after_copies:
  "memoryDir w \<noteq> None \<Longrightarrow> fst (syncPush g w) = fst (gitPush g (after_copies w))"
  by (auto simp: syncPush_def after_copies_def Let_def)

lemma file_event_not_commit: "list_all is_file_event es \<Longrightarrow> GitCommit \<notin> set es"
  by (induction es) auto

lemma commit_event_not_copy: "list_all is_commit_event es \<Longrightarrow> Copied a b \<notin> set es"
  by (induction es) auto

lemma after_copies_identical_doc:
  assumes "tracked f" and "lookup w (InMemory f) = Some c" and "lookup w (InRepo f) = Some c"
  shows "\<exists>es. trace (after_copies w) = trace w @ es \<and> list_all is_file_event es
           \<and> Copied (InMemory f) (InRepo f) \<notin> set es
           \<and> Copied (InRepo f) (InMemory f) \<notin> set es"
proof -
  let ?files = "getFilesToSync (memoryDir w)"
  obtain w1 n1 where acc1: "push_loop ?files (w, 0) = (w1, n1)"
    by (cases "push_loop ?files (w, 0)")
  let ?repoFiles = "getFilesToSync (Some (repoDir w1))"
  have ac: "after_copies w = fst (repo_only_loop ?files ?repoFiles (w1, n1))"
    by (simp add: after_copies_def Let_def acc1)
  from assms(2) obtain entries where en: "memoryDir w = Some entries" "map_of entries f = Some c"
    by (auto simp: lookup_def split: option.splits)
  then have "f \<in> fst ` set entries" by (metis map_of_eq_None_iff option.distinct(1))
  with assms(1) en(1) have mem: "f \<in> set ?files" by (simp add: getFilesToSync_def)
  from push_loop_identical_doc[OF assms(2,3), of ?files 0] acc1
  obtain es1 where es1: "trace w1 = trace w @ es1"
      "Copied (InMemory f) (InRepo f) \<notin> set es1" "Copied (InRepo f) (InMemory f) \<notin> set es1"
    by auto
  from push_loop_trace[of ?files "(w, 0)"] acc1 es1(1)
  have f1: "list_all is_file_event es1" by auto
  from repo_only_loop_identical_doc[OF mem, of ?repoFiles w1 n1]
  obtain es2 where es2: "trace (fst (repo_only_loop ?files ?repoFiles (w1, n1))) = trace w1 @ es2"
      "Copied (InMemory f) (InRepo f) \<notin> set es2" "Copied (InRepo f) (InMemory f) \<notin> set es2"
    by auto
  from repo_only_loop_trace[of ?files ?repoFiles "(w1, n1)"] es2(1)
  have f2: "list_all is_file_event es2" by auto
  have "trace (after_copies w) = trace w @ (es1 @ es2)"
    using es1(1) es2(1) by (simp add: ac)
  moreover have "list_all is_file_event (es1 @ es2)" using f1 f2 by simp
  moreover have "Copied (InMemory f) (InRepo f) \<notin> set (es1 @ es2)
      \<and> Copied (InRepo f) (InMemory f) \<notin> set (es1 @ es2)"
    using es1(2,3) es2(2,3) by simp
  ultimately show ?thesis by blast
qed

lemma after_copies_all_identical:
  assumes "\<not> list_ex (\<lambda>d. lookup w (InMemory d) \<noteq> lookup w (InRepo d)) (getFilesToSync (memoryDir w))"
  shows "repoDir (after_copies w) = repoDir w \<and> HEAD (after_copies w) = HEAD w"
proof -
  let ?files = "getFilesToSync (memoryDir w)"
  obtain w1 n1 where acc1: "push_loop ?files (w, 0) = (w1, n1)"
    by (cases "push_loop ?files (w, 0)")
  have "list_all (\<lambda>d. lookup w (InMemory d) \<noteq> None
                        \<and> lookup w (InMemory d) = lookup w (InRepo d)) ?files"
    using assms getFilesToSync_mem[of _ w] by (auto simp: list_all_iff list_ex_iff)
  from push_loop_all_identical[OF this, of 0] acc1
  have "repoDir w1 = repoDir w" "HEAD w1 = HEAD w" by simp_all
  with repo_only_loop_keeps_repo[of ?files "getFilesToSync (Some (repoDir w1))" w1 n1]
  show ?thesis by (simp add: after_copies_def Let_def acc1)
qed

lemma after_copies_trace:
  "\<exists>es. trace (after_copies w) = trace w @ es \<and> list_all is_file_event es"
proof -
  let ?files = "getFilesToSync (memoryDir w)"
  let ?acc1 = "push_loop ?files (w, 0)"
  let ?acc2 = "repo_only_loop ?files (getFilesToSync (Some (repoDir (fst ?acc1)))) ?acc1"
  obtain es1 where es1: "trace (fst ?acc1) = trace w @ es1" "list_all is_file_event es1"
    using push_loop_trace[of ?files "(w, 0)"] by auto
  obtain es2 where es2: "trace (fst ?acc2) = trace (fst ?acc1) @ es2" "list_all is_file_event es2"
    using repo_only_loop_trace[of ?files _ ?acc1] by blast
  have "trace (after_copies w) = trace w @ (es1 @ es2)"
    using es1(1) es2(1) by (simp add: after_copies_def Let_def)
  moreover have "list_all is_file_event (es1 @ es2)" using es1(2) es2(2) by simp
  ultimately show ?thesis by blast
qed

text \<open>
  Claim C6, as amended. In every push, a tracked document whose local and repository
  copies are the same bytes is copied in neither direction. A commit is made only when,
  after the copies and the pull, the working tree of the repository differs from the tree
  of the last commit. When the working tree had no uncommitted change before the push,
  and a pull that finds a working tree without changes leaves it without changes, that is
  only when some tracked local document differed from its repository copy or was missing
  there.
\<close>

theorem sync_no_op_law:
  "\<exists>evs. trace (fst (syncPush g w)) = trace w @ evs
      \<and> (tracked f \<and> lookup w (InMemory f) = Some c \<and> lookup w (InRepo f) = Some c \<longrightarrow>
            Copied (InMemory f) (InRepo f) \<notin> set evs
            \<and> Copied (InRepo f) (InMemory f) \<notin> set evs)
      \<and> (GitCommit \<in> set evs \<longrightarrow>
            tree_differs (repoDir (fst (gitPull g (after_copies w))))
                         (HEAD (fst (gitPull g (after_copies w)))))
      \<and> (GitCommit \<in> set evs \<and> \<not> tree_differs (repoDir w) (HEAD w)
            \<and> (\<forall>r h r' h'. pull_result g (r, h) = Some (r', h') \<and> \<not> tree_differs r h
                   \<longrightarrow> \<not> tree_differs r' h') \<longrightarrow>
            list_ex (\<lambda>d. lookup w (InMemory d) \<noteq> lookup w (InRepo d))
                    (getFilesToSync (memoryDir w)))"
proof (cases "memoryDir w = None")
  case True
  then have "trace (fst (syncPush g w)) = trace w @ []" by (simp add: syncPush_def)
  then show ?thesis by (intro exI[of _ "[]"]) simp
next
  case False
  let ?w2 = "after_copies w"
  let ?rest = "GitPull # GitAdd #
     (if \<not> add_ok g then []
      else if \<not> tree_differs (repoDir (fst (gitPull g ?w2))) (HEAD (fst (gitPull g ?w2))) then [GitDiff]
      else if \<not> commit_ok g then [GitDiff, GitCommit]
      else [GitDiff, GitCommit, GitPush])"
  from False have run: "fst (syncPush g w) = fst (gitPush g ?w2)" by (rule syncPush_after_copies)
  obtain es where es: "trace ?w2 = trace w @ es" "list_all is_file_event es"
    using after_copies_trace[of w] by blast
  have tr: "trace (fst (syncPush g w)) = trace w @ (es @ ?rest)"
    using gitPush_events[of g ?w2] es(1) by (simp add: run)
  have nc: "GitCommit \<notin> set es" using es(2) by (rule file_event_not_commit)
  have a: "tracked f \<and> lookup w (InMemory f) = Some c \<and> lookup w (InRepo f) = Some c \<longrightarrow>
      Copied (InMemory f) (InRepo f) \<notin> set (es @ ?rest)
      \<and> Copied (InRepo f) (InMemory f) \<notin> set (es @ ?rest)"
  proof (intro impI, elim conjE)
    assume "tracked f" and "lookup w (InMemory f) = Some c" and "lookup w (InRepo f) = Some c"
    then obtain es' where es': "trace ?w2 = trace w @ es'"
        "Copied (InMemory f) (InRepo f) \<notin> set es'" "Copied (InRepo f) (InMemory f) \<notin> set es'"
      using after_copies_identical_doc[of f w c] by blast
    from es'(1) es(1) have "es' = es" by simp
    with es'(2,3) show "Copied (InMemory f) (InRepo f) \<notin> set (es @ ?rest)
      \<and> Copied (InRepo f) (InMemory f) \<notin> set (es @ ?rest)"
      by simp
  qed
  have b: "GitCommit \<in> set (es @ ?rest) \<longrightarrow>
      tree_differs (repoDir (fst (gitPull g ?w2))) (HEAD (fst (gitPull g ?w2)))"
    using nc by simp
  have c: "GitCommit \<in> set (es @ ?rest) \<and> \<not> tree_differs (repoDir w) (HEAD w)
      \<and> (\<forall>r h r' h'. pull_result g (r, h) = Some (r', h') \<and> \<not> tree_differs r h
             \<longrightarrow> \<not> tree_differs r' h') \<longrightarrow>
      list_ex (\<lambda>d. lookup w (InMemory d) \<noteq> lookup w (InRepo d)) (getFilesToSync (memoryDir w))"
  proof (intro impI, elim conjE, rule ccontr)
    assume commit: "GitCommit \<in> set (es @ ?rest)"
      and clean: "\<not> tree_differs (repoDir w) (HEAD w)"
      and pull: "\<forall>r h r' h'. pull_result g (r, h) = Some (r', h') \<and> \<not> tree_differs r h
             \<longrightarrow> \<not> tree_differs r' h'"
      and same: "\<not> list_ex (\<lambda>d. lookup w (InMemory d) \<noteq> lookup w (InRepo d))
                    (getFilesToSync (memoryDir w))"
    from after_copies_all_identical[OF same]
    have k: "repoDir ?w2 = repoDir w" "HEAD ?w2 = HEAD w" by simp_all
    with clean have "\<not> tree_differs (repoDir ?w2) (HEAD ?w2)" by simp
    from gitPull_keeps_clean[OF this pull]
    have "\<not> tree_differs (repoDir (fst (gitPull g ?w2))) (HEAD (fst (gitPull g ?w2)))" .
    with commit nc show False by (simp split: if_splits)
  qed
  show ?thesis
    using tr a b c by (intro exI[of _ "es @ ?rest"] conjI)
qed

theorem sync_no_op_law_witness:
  "tracked ''MEMORY.md''
   \<and> lookup \<lparr>memoryDir = Some [(''MEMORY.md'', ''# Memory\<newline>''), (''2025-01-02.md'', ''- **10:30** done\<newline>'')],
       repoDir = [(''MEMORY.md'', ''# Memory\<newline>'')],
       HEAD = [(''MEMORY.md'', ''# Memory\<newline>'')], trace = []\<rparr> (InMemory ''MEMORY.md'') = Some ''# Memory\<newline>''
   \<and> lookup \<lparr>memoryDir = Some [(''MEMORY.md'', ''# Memory\<newline>''), (''2025-01-02.md'', ''- **10:30** done\<newline>'')],
       repoDir = [(''MEMORY.md'', ''# Memory\<newline>'')],
       HEAD = [(''MEMORY.md'', ''# Memory\<newline>'')], trace = []\<rparr> (InRepo ''MEMORY.md'') = Some ''# Memory\<newline>''
   \<and> trace (fst (syncPush \<lparr>pull_result = (\<lambda>(r, h). if tree_differs r h then None else Some ([(''MEMORY.md'', ''# Memory\<newline>uses node 20\<newline>'')], [(''MEMORY.md'', ''# Memory\<newline>uses node 20\<newline>'')])), add_ok = True, commit_ok = True, push_ok = False\<rparr> \<lparr>memoryDir = Some [(''MEMORY.md'', ''# Memory\<newline>''), (''2025-01-02.md'', ''- **10:30** done\<newline>'')],
       repoDir = [(''MEMORY.md'', ''# Memory\<newline>'')],
       HEAD = [(''MEMORY.md'', ''# Memory\<newline>'')], trace = []\<rparr>))
       = [Compared (InMemory ''MEMORY.md'') (InRepo ''MEMORY.md''),
          Copied (InMemory ''2025-01-02.md'') (InRepo ''2025-01-02.md''),
          GitPull, GitAdd, GitDiff, GitCommit, GitPush]
   \<and> \<not> tree_differs (repoDir \<lparr>memoryDir = Some [(''MEMORY.md'', ''# Memory\<newline>''), (''2025-01-02.md'', ''- **10:30** done\<newline>'')],
       repoDir = [(''MEMORY.md'', ''# Memory\<newline>'')],
       HEAD = [(''MEMORY.md'', ''# Memory\<newline>'')], trace = []\<rparr>) (HEAD \<lparr>memoryDir = Some [(''MEMORY.md'', ''# Memory\<newline>''), (''2025-01-02.md'', ''- **10:30** done\<newline>'')],
       repoDir = [(''MEMORY.md'', ''# Memory\<newline>'')],
       HEAD = [(''MEMORY.md'', ''# Memory\<newline>'')], trace = []\<rparr>)
   \<and> list_ex (\<lambda>d. lookup \<lparr>memoryDir = Some [(''MEMORY.md'', ''# Memory\<newline>''), (''2025-01-02.md'', ''- **10:30** done\<newline>'')],
       repoDir = [(''MEMORY.md'', ''# Memory\<newline>'')],
       HEAD = [(''MEMORY.md'', ''# Memory\<newline>'')], trace = []\<rparr> (InMemory d) \<noteq> lookup \<lparr>memoryDir = Some [(''MEMORY.md'', ''# Memory\<newline>''), (''2025-01-02.md'', ''- **10:30** done\<newline>'')],
       repoDir = [(''MEMORY.md'', ''# Memory\<newline>'')],
       HEAD = [(''MEMORY.md'', ''# Memory\<newline>'')], trace = []\<rparr> (InRepo d))
         (getFilesToSync (memoryDir \<lparr>memoryDir = Some [(''MEMORY.md'', ''# Memory\<newline>''), (''2025-01-02.md'', ''- **10:30** done\<newline>'')],
       repoDir = [(''MEMORY.md'', ''# Memory\<newline>'')],
       HEAD = [(''MEMORY.md'', ''# Memory\<newline>'')], trace = []\<rparr>))"
proof -
  let ?w = "\<lparr>memoryDir = Some [(''MEMORY.md'', ''# Memory\<newline>''), (''2025-01-02.md'', ''- **10:30** done\<newline>'')],
       repoDir = [(''MEMORY.md'', ''# Memory\<newline>'')],
       HEAD = [(''MEMORY.md'', ''# Memory\<newline>'')], trace = []\<rparr>"
  let ?g = "\<lparr>pull_result = (\<lambda>(r, h). if tree_differs r h then None else Some ([(''MEMORY.md'', ''# Memory\<newline>uses node 20\<newline>'')], [(''MEMORY.md'', ''# Memory\<newline>uses node 20\<newline>'')])), add_ok = True, commit_ok = True, push_ok = False\<rparr>"
  have t: "tracked ''MEMORY.md''" by code_simp
  have m: "lookup ?w (InMemory ''MEMORY.md'') = Some ''# Memory\<newline>''" by code_simp
  have r: "lookup ?w (InRepo ''MEMORY.md'') = Some ''# Memory\<newline>''" by code_simp
  have tr: "trace (fst (syncPush ?g ?w))
       = [Compared (InMemory ''MEMORY.md'') (InRepo ''MEMORY.md''),
          Copied (InMemory ''2025-01-02.md'') (InRepo ''2025-01-02.md''),
          GitPull, GitAdd, GitDiff, GitCommit, GitPush]"
    by code_simp
  have clean: "\<not> tree_differs (repoDir ?w) (HEAD ?w)" by code_simp
  have remote: "\<not> tree_differs [(''MEMORY.md'', ''# Memory\<newline>uses node 20\<newline>'')] [(''MEMORY.md'', ''# Memory\<newline>uses node 20\<newline>'')]" by code_simp
  have pull: "\<forall>r h r' h'. pull_result ?g (r, h) = Some (r', h') \<and> \<not> tree_differs r h
             \<longrightarrow> \<not> tree_differs r' h'"
    using remote by (auto split: if_splits)
  from sync_no_op_law[of ?g ?w "''MEMORY.md''" "''# Memory\<newline>''"]
  obtain evs where evs: "trace (fst (syncPush ?g ?w)) = trace ?w @ evs"
      "tracked ''MEMORY.md'' \<and> lookup ?w (InMemory ''MEMORY.md'') = Some ''# Memory\<newline>''
         \<and> lookup ?w (InRepo ''MEMORY.md'') = Some ''# Memory\<newline>'' \<longrightarrow>
       Copied (InMemory ''MEMORY.md'') (InRepo ''MEMORY.md'') \<notin> set evs
       \<and> Copied (InRepo ''MEMORY.md'') (InMemory ''MEMORY.md'') \<notin> set evs"
      "GitCommit \<in> set evs \<and> \<not> tree_differs (repoDir ?w) (HEAD ?w)
         \<and> (\<forall>r h r' h'. pull_result ?g (r, h) = Some (r', h') \<and> \<not> tree_differs r h
                \<longrightarrow> \<not> tree_differs r' h') \<longrightarrow>
         list_ex (\<lambda>d. lookup ?w (InMemory d) \<noteq> lookup ?w (InRepo d))
                 (getFilesToSync (memoryDir ?w))"
    by blast
  from evs(1) tr have "evs = [Compared (InMemory ''MEMORY.md'') (InRepo ''MEMORY.md''),
          Copied (InMemory ''2025-01-02.md'') (InRepo ''2025-01-02.md''),
          GitPull, GitAdd, GitDiff, GitCommit, GitPush]" by simp
  then have "GitCommit \<in> set evs" by simp
  with evs(3) clean pull
  have "list_ex (\<lambda>d. lookup ?w (InMemory d) \<noteq> lookup ?w (InRepo d))
          (getFilesToSync (memoryDir ?w))" by blast
  with t m r tr clean show ?thesis by blast
qed

text \<open>
  Claim C6 fails as stated. Here the one tracked document is the same in the memory
  directory and in the repository, and the working tree of the repository holds a file
  that is in no commit: the push copies nothing, \<open>git add -A\<close> stages that file, and a
  commit is made although no tracked document differs.
\<close>

theorem commit_without_document_change_counterexample:
  "trace (fst (syncPush \<lparr>pull_result = (\<lambda>s. Some s), add_ok = True, commit_ok = True, push_ok = True\<rparr> \<lparr>memoryDir = Some [(''MEMORY.md'', ''# Memory\<newline>'')],
       repoDir = [(''MEMORY.md'', ''# Memory\<newline>''), (''notes.txt'', ''draft'')],
       HEAD = [(''MEMORY.md'', ''# Memory\<newline>'')], trace = []\<rparr>))
     = [Compared (InMemory ''MEMORY.md'') (InRepo ''MEMORY.md''),
        GitPull, GitAdd, GitDiff, GitCommit, GitPush]
   \<and> getFilesToSync (memoryDir \<lparr>memoryDir = Some [(''MEMORY.md'', ''# Memory\<newline>'')],
       repoDir = [(''MEMORY.md'', ''# Memory\<newline>''), (''notes.txt'', ''draft'')],
       HEAD = [(''MEMORY.md'', ''# Memory\<newline>'')], trace = []\<rparr>) = [''MEMORY.md'']
   \<and> lookup \<lparr>memoryDir = Some [(''MEMORY.md'', ''# Memory\<newline>'')],
       repoDir = [(''MEMORY.md'', ''# Memory\<newline>''), (''notes.txt'', ''draft'')],
       HEAD = [(''MEMORY.md'', ''# Memory\<newline>'')], trace = []\<rparr> (InMemory ''MEMORY.md'') = lookup \<lparr>memoryDir = Some [(''MEMORY.md'', ''# Memory\<newline>'')],
       repoDir = [(''MEMORY.md'', ''# Memory\<newline>''), (''notes.txt'', ''draft'')],
       HEAD = [(''MEMORY.md'', ''# Memory\<newline>'')], trace = []\<rparr> (InRepo ''MEMORY.md'')"
  by code_simp

end
